theory Spec2Isabelle
  imports Complex_Main
begin

section \<open>Python effects: exceptions and a mutable world\<close>

text \<open>
  The repository is Python code that builds a TensorFlow graph. A Python function that
  may raise and that changes the world (the graph under construction, the list of calls
  made to the framework) is a function from the world before to a result and the world
  after. When an exception is raised the world is the one reached at the \<^verbatim>\<open>raise\<close>:
  \<open>Inl e\<close> is the exception, \<open>Inr x\<close> the returned value.
\<close>

datatype py_error =
    AssertionError
  | ValueError
  | TypeError
  | IndexError
  | ZeroDivisionError

type_synonym ('s, 'r) py = "'s \<Rightarrow> (py_error + 'r) \<times> 's"

definition ret :: "'r \<Rightarrow> ('s, 'r) py" where
  "ret x = (\<lambda>s. (Inr x, s))"

definition raise :: "py_error \<Rightarrow> ('s, 'r) py" where
  "raise e = (\<lambda>s. (Inl e, s))"

definition bind :: "('s, 'a) py \<Rightarrow> ('a \<Rightarrow> ('s, 'r) py) \<Rightarrow> ('s, 'r) py" where
  "bind m f = (\<lambda>s. case m s of (Inl e, s') \<Rightarrow> (Inl e, s') | (Inr x, s') \<Rightarrow> f x s')"

text \<open>\<^verbatim>\<open>assert c\<close>: nothing happens when \<open>c\<close> holds, AssertionError otherwise.\<close>

definition py_assert :: "bool \<Rightarrow> ('s, unit) py" where
  "py_assert c = (if c then ret () else raise AssertionError)"

text \<open>A pure computation that may raise, run inside a function with effects.\<close>

definition lift :: "py_error + 'r \<Rightarrow> ('s, 'r) py" where
  "lift r = (case r of Inl e \<Rightarrow> raise e | Inr x \<Rightarrow> ret x)"

text \<open>A list comprehension whose body has effects: left to right, stopping at a raise.\<close>

fun for_each :: "('a \<Rightarrow> ('s, 'r) py) \<Rightarrow> 'a list \<Rightarrow> ('s, 'r list) py" where
  "for_each f [] = ret []"
| "for_each f (x # xs) = bind (f x) (\<lambda>y. bind (for_each f xs) (\<lambda>ys. ret (y # ys)))"

section \<open>The training script \<^verbatim>\<open>examples/AnytimeNetwork/imagenet-ann.py\<close>\<close>

text \<open>
  The script only calls into the framework. Its world is the list of the calls made so
  far, oldest first; what the calls return that the script looks at (the parsed
  arguments, the two ILSVRC constants, the size of the training set, whether the
  checkpoint exists) is the environment \<open>script_env\<close>.
\<close>

record args =
  log_dir :: "string option"
  model_dir :: "string option"
  load :: "string option"
  nr_gpu :: int
  is_toy :: bool
  init_channel :: int
  num_classes :: int
  do_mean_std_gpu_process :: bool
  input_type :: string
  mean :: "real list option"
  std :: "real list option"

record script_env =
  parsed :: args
  ilsvrc_mean :: "real list option"
  ilsvrc_std :: "real list option"
  train_size :: int
  load_exists :: bool

datatype event =
    ParseArgs
  | SetLogRoot "string option"
  | AutoSetDir
  | GetData string
  | DatasetSize
  | NewAnytimeResnet
  | ComputeClassificationCallbacks
  | ComputeLossSelectCallbacks
  | NewCallbacks
  | NewTrainConfig
  | PathExists string
  | SaverRestore string
  | Train int

record train_config =
  steps_per_epoch :: int
  max_epoch :: int
  session_init :: "string option"
  nr_tower :: int

definition call :: "event \<Rightarrow> 'r \<Rightarrow> (event list, 'r) py" where
  "call e x = (\<lambda>tr. (Inr x, tr @ [e]))"

text \<open>Python's \<^verbatim>\<open>a // b\<close> on integers.\<close>

definition py_floordiv :: "int \<Rightarrow> int \<Rightarrow> py_error + int" where
  "py_floordiv a c = (if c = 0 then Inl ZeroDivisionError else Inr (a div c))"

text \<open>\<^verbatim>\<open>get_data(train_or_test)\<close>: one call to the augmented-data module.\<close>

definition get_data :: "string \<Rightarrow> (event list, unit) py" where
  "get_data train_or_test = call (GetData train_or_test) ()"

definition get_config :: "script_env \<Rightarrow> args \<Rightarrow> (event list, train_config) py" where
  "get_config env a =
     bind (get_data (if is_toy a then ''toy_train'' else ''train'')) (\<lambda>dataset_train.
     bind (get_data (if is_toy a then ''toy_validation'' else ''validation'')) (\<lambda>dataset_val.
     bind (call DatasetSize (train_size env)) (\<lambda>size.
     bind (lift (py_floordiv size (nr_gpu a))) (\<lambda>steps.
     bind (call NewAnytimeResnet ()) (\<lambda>model.
     bind (call ComputeClassificationCallbacks ()) (\<lambda>classification_cbs.
     bind (call ComputeLossSelectCallbacks ()) (\<lambda>loss_select_cbs.
     bind (call NewCallbacks ()) (\<lambda>callbacks.
     call NewTrainConfig
       \<lparr>steps_per_epoch = steps, max_epoch = 128, session_init = None, nr_tower = 1\<rparr>))))))))"

text \<open>
  The body of \<^verbatim>\<open>if __name__ == '__main__'\<close>. A string is true in Python when it is not
  empty, and \<^verbatim>\<open>args.load and os.path.exists(args.load)\<close> asks the file system only then.
\<close>

definition main :: "script_env \<Rightarrow> (event list, unit) py" where
  "main env =
     bind (call ParseArgs (parsed env)) (\<lambda>a0.
     bind (py_assert (init_channel a0 = 64)) (\<lambda>_.
     bind (py_assert (num_classes a0 = 1000)) (\<lambda>_.
     let a = a0\<lparr>do_mean_std_gpu_process := True, input_type := ''uint8'',
                mean := ilsvrc_mean env, std := ilsvrc_std env\<rparr> in
     bind (py_assert (do_mean_std_gpu_process a \<and> input_type a = ''uint8'')) (\<lambda>_.
     bind (py_assert (mean a \<noteq> None \<and> std a \<noteq> None)) (\<lambda>_.
     bind (call (SetLogRoot (log_dir a)) ()) (\<lambda>_.
     bind (call AutoSetDir ()) (\<lambda>_.
     bind (get_config env a) (\<lambda>config.
     bind (case load a of
             None \<Rightarrow> ret config
           | Some p \<Rightarrow>
               if p = [] then ret config
               else bind (call (PathExists p) (load_exists env)) (\<lambda>ex.
                    if ex then call (SaverRestore p) (config\<lparr>session_init := Some p\<rparr>)
                    else ret config)) (\<lambda>config.
     let config = config\<lparr>nr_tower := nr_gpu a\<rparr> in
     call (Train (nr_tower config)) ())))))))))"

text \<open>The calls of a run that gets as far as the trainer, in the order the script makes them.\<close>

definition setup_calls :: "args \<Rightarrow> event list" where
  "setup_calls a =
     [ParseArgs, SetLogRoot (log_dir a), AutoSetDir,
      GetData (if is_toy a then ''toy_train'' else ''train''),
      GetData (if is_toy a then ''toy_validation'' else ''validation''),
      DatasetSize, NewAnytimeResnet, ComputeClassificationCallbacks,
      ComputeLossSelectCallbacks, NewCallbacks, NewTrainConfig]"

definition restore_calls :: "script_env \<Rightarrow> event list" where
  "restore_calls env =
     (case load (parsed env) of
        None \<Rightarrow> []
      | Some p \<Rightarrow> if p = [] then [] else
          PathExists p # (if load_exists env then [SaverRestore p] else []))"

definition full_run :: "script_env \<Rightarrow> event list" where
  "full_run env =
     setup_calls (parsed env) @ restore_calls env @ [Train (nr_gpu (parsed env))]"

text \<open>A concrete run: the defaults of the parser with the two values the script insists on.\<close>

definition example_env :: script_env where
  "example_env =
     \<lparr>parsed = \<lparr>log_dir = Some ''log'', model_dir = Some ''models'', load = Some ''ckpt'',
                 nr_gpu = 2, is_toy = False, init_channel = 64, num_classes = 1000,
                 do_mean_std_gpu_process = False, input_type = ''float32'',
                 mean = None, std = None\<rparr>,
      ilsvrc_mean = Some [0.485, 0.456, 0.406], ilsvrc_std = Some [0.229, 0.224, 0.225],
      train_size = 1281167, load_exists = True\<rparr>"

section \<open>Arrays and the TensorFlow operations the layers call\<close>

text \<open>
  The value of a tensor is an array: its dimensions and its elements in row-major order,
  the order in which \<^verbatim>\<open>tf.reshape\<close> reads and writes them. Elements are taken in a
  commutative semiring (the integers in the examples); the rounding of floating-point
  sums is not modelled.
\<close>

record 'a ndarray =
  dims :: "nat list"
  data :: "'a list"

fun offset :: "nat list \<Rightarrow> nat list \<Rightarrow> nat" where
  "offset (d # ds) (i # ix) = i * prod_list ds + offset ds ix"
| "offset _ _ = 0"

fun unravel :: "nat list \<Rightarrow> nat \<Rightarrow> nat list" where
  "unravel [] r = []"
| "unravel (d # ds) r = (r div prod_list ds) # unravel ds (r mod prod_list ds)"

definition inside :: "nat list \<Rightarrow> nat list \<Rightarrow> bool" where
  "inside ds ix = list_all2 (\<lambda>i d. i < d) ix ds"

definition elem :: "'a ndarray \<Rightarrow> nat list \<Rightarrow> 'a" where
  "elem a ix = data a ! offset (dims a) ix"

definition tabulate :: "nat list \<Rightarrow> (nat list \<Rightarrow> 'a) \<Rightarrow> 'a ndarray" where
  "tabulate ds f = \<lparr>dims = ds, data = map (\<lambda>r. f (unravel ds r)) [0..<prod_list ds]\<rparr>"

definition well_shaped :: "'a ndarray \<Rightarrow> bool" where
  "well_shaped a = (length (data a) = prod_list (dims a))"

subsection \<open>Data formats\<close>

text \<open>
  A 4-D tensor is \<^verbatim>\<open>NHWC\<close> (batch, height, width, channel) or \<^verbatim>\<open>NCHW\<close>. \<open>layout\<close>
  puts the four coordinates in the order of the format; the four readers take them out.
\<close>

definition layout :: "string \<Rightarrow> 'b \<Rightarrow> 'b \<Rightarrow> 'b \<Rightarrow> 'b \<Rightarrow> 'b list" where
  "layout fmt n c h w = (if fmt = ''NHWC'' then [n, h, w, c] else [n, c, h, w])"

definition batch_of :: "'b list \<Rightarrow> 'b" where
  "batch_of xs = xs ! 0"

definition chan_of :: "string \<Rightarrow> 'b list \<Rightarrow> 'b" where
  "chan_of fmt xs = xs ! (if fmt = ''NHWC'' then 3 else 1)"

definition height_of :: "string \<Rightarrow> 'b list \<Rightarrow> 'b" where
  "height_of fmt xs = xs ! (if fmt = ''NHWC'' then 1 else 2)"

definition width_of :: "string \<Rightarrow> 'b list \<Rightarrow> 'b" where
  "width_of fmt xs = xs ! (if fmt = ''NHWC'' then 2 else 3)"

subsection \<open>Padding\<close>

text \<open>
  The output length of a convolution along one spatial axis of length \<open>n\<close>, with kernel
  length \<open>k\<close>, stride \<open>s\<close> and dilation \<open>d\<close>, and the number of zeros TensorFlow puts
  before the data under \<^verbatim>\<open>SAME\<close> padding. The extent of a dilated kernel is
  \<open>(k - 1) * d + 1\<close>, computed on integers; it is written so that the subtraction is not
  cut off at zero when \<open>k = 0\<close>. These are functions of the run-time sizes. When the
  graph is built, the operations refuse a stride of zero, and under \<^verbatim>\<open>VALID\<close> an axis
  known to be shorter than the kernel (\<open>window_fits\<close> below), so that the operations never
  return an output length from those cases for a size known then.
\<close>

definition kernel_extent :: "nat \<Rightarrow> nat \<Rightarrow> nat" where
  "kernel_extent k d = k * d + 1 - d"

definition out_size :: "string \<Rightarrow> nat \<Rightarrow> nat \<Rightarrow> nat \<Rightarrow> nat \<Rightarrow> nat" where
  "out_size padding n k s d =
     (if padding = ''SAME'' then (n + s - 1) div s
      else if n < kernel_extent k d then 0
      else (n - kernel_extent k d) div s + 1)"

definition pad_before :: "string \<Rightarrow> nat \<Rightarrow> nat \<Rightarrow> nat \<Rightarrow> nat \<Rightarrow> nat" where
  "pad_before padding n k s d =
     (if padding = ''SAME''
      then ((out_size padding n k s d - 1) * s + kernel_extent k d - n) div 2
      else 0)"

text \<open>
  The input read at row \<open>y - py\<close> and column \<open>z - pz\<close> of channel \<open>c\<close> of image \<open>b\<close>
  (\<open>py\<close> and \<open>pz\<close> being the padding before the data): zero outside the image.
\<close>

definition padded :: "'a::zero ndarray \<Rightarrow> string \<Rightarrow> nat \<Rightarrow> nat \<Rightarrow> nat \<Rightarrow> nat \<Rightarrow> nat \<Rightarrow> nat \<Rightarrow> 'a" where
  "padded x fmt b c y py z pz =
     (if py \<le> y \<and> y - py < height_of fmt (dims x) \<and> pz \<le> z \<and> z - pz < width_of fmt (dims x)
      then elem x (layout fmt b c (y - py) (z - pz))
      else 0)"

subsection \<open>Convolutions\<close>

text \<open>
  \<^verbatim>\<open>tf.nn.conv2d\<close>: the kernel has dimensions \<open>[kh, kw, ci, co]\<close>, and output channel \<open>o\<close>
  sums over the kernel window and over all \<open>ci\<close> input channels.
\<close>

definition conv2d ::
  "'a::comm_semiring_0 ndarray \<Rightarrow> 'a ndarray \<Rightarrow> nat list \<Rightarrow> string \<Rightarrow> nat list \<Rightarrow> string \<Rightarrow> 'a ndarray" where
  "conv2d x k strides padding dilations fmt =
     (let kh = dims k ! 0; kw = dims k ! 1; ci = dims k ! 2; co = dims k ! 3;
          sh = height_of fmt strides; sw = width_of fmt strides;
          dh = height_of fmt dilations; dw = width_of fmt dilations;
          ph = pad_before padding (height_of fmt (dims x)) kh sh dh;
          pw = pad_before padding (width_of fmt (dims x)) kw sw dw
      in tabulate
           (layout fmt (batch_of (dims x)) co
              (out_size padding (height_of fmt (dims x)) kh sh dh)
              (out_size padding (width_of fmt (dims x)) kw sw dw))
           (\<lambda>ix. \<Sum>di\<leftarrow>[0..<kh]. \<Sum>dj\<leftarrow>[0..<kw]. \<Sum>c\<leftarrow>[0..<ci].
               padded x fmt (batch_of ix) c
                 (height_of fmt ix * sh + di * dh) ph (width_of fmt ix * sw + dj * dw) pw
               * elem k [di, dj, c, chan_of fmt ix]))"

text \<open>
  \<^verbatim>\<open>tf.nn.depthwise_conv2d\<close> with \<^verbatim>\<open>rate=None\<close>: the kernel has dimensions
  \<open>[kh, kw, ci, m]\<close>, the output has \<open>ci * m\<close> channels, and output channel \<open>c * m + q\<close>
  sums over the kernel window of input channel \<open>c\<close> alone.
\<close>

definition depthwise_conv2d ::
  "'a::comm_semiring_0 ndarray \<Rightarrow> 'a ndarray \<Rightarrow> nat list \<Rightarrow> string \<Rightarrow> string \<Rightarrow> 'a ndarray" where
  "depthwise_conv2d x k strides padding fmt =
     (let kh = dims k ! 0; kw = dims k ! 1; ci = dims k ! 2; m = dims k ! 3;
          sh = height_of fmt strides; sw = width_of fmt strides;
          ph = pad_before padding (height_of fmt (dims x)) kh sh 1;
          pw = pad_before padding (width_of fmt (dims x)) kw sw 1
      in tabulate
           (layout fmt (batch_of (dims x)) (ci * m)
              (out_size padding (height_of fmt (dims x)) kh sh 1)
              (out_size padding (width_of fmt (dims x)) kw sw 1))
           (\<lambda>ix. \<Sum>di\<leftarrow>[0..<kh]. \<Sum>dj\<leftarrow>[0..<kw].
               padded x fmt (batch_of ix) (chan_of fmt ix div m)
                 (height_of fmt ix * sh + di) ph (width_of fmt ix * sw + dj) pw
               * elem k [di, dj, chan_of fmt ix div m, chan_of fmt ix mod m]))"

text \<open>
  The transposed convolution of \<^verbatim>\<open>tf.layers.Conv2DTranspose\<close>: the kernel has dimensions
  \<open>[kh, kw, co, ci]\<close>; input pixel \<open>(i, j)\<close> contributes to the output pixels of its
  kernel window.
\<close>

definition deconv_size :: "string \<Rightarrow> nat \<Rightarrow> nat \<Rightarrow> nat \<Rightarrow> nat" where
  "deconv_size padding n k s = (if padding = ''SAME'' then n * s else n * s + (k - s))"

definition conv2d_transpose ::
  "'a::comm_semiring_0 ndarray \<Rightarrow> 'a ndarray \<Rightarrow> nat list \<Rightarrow> string \<Rightarrow> string \<Rightarrow> 'a ndarray" where
  "conv2d_transpose x k strides padding fmt =
     (let kh = dims k ! 0; kw = dims k ! 1; co = dims k ! 2; ci = dims k ! 3;
          sh = height_of fmt strides; sw = width_of fmt strides;
          ho = deconv_size padding (height_of fmt (dims x)) kh sh;
          wo = deconv_size padding (width_of fmt (dims x)) kw sw;
          ph = pad_before padding ho kh sh 1; pw = pad_before padding wo kw sw 1
      in tabulate (layout fmt (batch_of (dims x)) co ho wo)
           (\<lambda>ix. \<Sum>i\<leftarrow>[0..<height_of fmt (dims x)]. \<Sum>j\<leftarrow>[0..<width_of fmt (dims x)].
                  \<Sum>di\<leftarrow>[0..<kh]. \<Sum>dj\<leftarrow>[0..<kw]. \<Sum>c\<leftarrow>[0..<ci].
               (if i * sh + di = height_of fmt ix + ph \<and> j * sw + dj = width_of fmt ix + pw
                then elem x (layout fmt (batch_of ix) c i j) * elem k [di, dj, chan_of fmt ix, c]
                else 0)))"

subsection \<open>Splitting, joining, adding the bias\<close>

text \<open>\<^verbatim>\<open>tf.split(value, num, axis)\<close>: \<open>num\<close> equal parts along \<open>axis\<close>; this is part \<open>p\<close>.\<close>

definition split_part :: "'a ndarray \<Rightarrow> nat \<Rightarrow> nat \<Rightarrow> nat \<Rightarrow> 'a ndarray" where
  "split_part x num axis p =
     (let m = dims x ! axis div num
      in tabulate ((dims x)[axis := m]) (\<lambda>ix. elem x (ix[axis := p * m + ix ! axis])))"

definition split_array :: "'a ndarray \<Rightarrow> nat \<Rightarrow> nat \<Rightarrow> 'a ndarray list" where
  "split_array x num axis = map (split_part x num axis) [0..<num]"

text \<open>
  \<^verbatim>\<open>tf.concat(values, axis)\<close>: \<open>locate\<close> finds the part an index along the axis falls in,
  and the index inside that part.
\<close>

fun locate :: "nat list \<Rightarrow> nat \<Rightarrow> nat \<times> nat" where
  "locate [] i = (0, i)"
| "locate (m # ms) i =
     (if i < m then (0, i) else (Suc (fst (locate ms (i - m))), snd (locate ms (i - m))))"

definition concat_arrays :: "'a ndarray list \<Rightarrow> nat \<Rightarrow> 'a ndarray" where
  "concat_arrays xs axis =
     (let sizes = map (\<lambda>t. dims t ! axis) xs
      in tabulate ((dims (hd xs))[axis := sum_list sizes])
           (\<lambda>ix. elem (xs ! fst (locate sizes (ix ! axis)))
                    (ix[axis := snd (locate sizes (ix ! axis))])))"

text \<open>\<^verbatim>\<open>tf.nn.bias_add\<close>: the bias of its channel is added to every element.\<close>

definition bias_add :: "'a::plus ndarray \<Rightarrow> 'a ndarray \<Rightarrow> string \<Rightarrow> 'a ndarray" where
  "bias_add x bias fmt = tabulate (dims x) (\<lambda>ix. elem x ix + elem bias [chan_of fmt ix])"

subsection \<open>Reshaping, summing, transposing\<close>

text \<open>\<^verbatim>\<open>tf.reshape\<close> keeps the elements in their row-major order under new dimensions.\<close>

definition reshape :: "'a ndarray \<Rightarrow> nat list \<Rightarrow> 'a ndarray" where
  "reshape x ds = x\<lparr>dims := ds\<rparr>"

text \<open>\<^verbatim>\<open>tf.reduce_sum\<close> over one axis, and over several (the highest axis first).\<close>

definition reduce_axis :: "'a::comm_monoid_add ndarray \<Rightarrow> nat \<Rightarrow> 'a ndarray" where
  "reduce_axis x axis =
     tabulate (take axis (dims x) @ drop (Suc axis) (dims x))
       (\<lambda>ix. \<Sum>c\<leftarrow>[0..<dims x ! axis]. elem x (take axis ix @ [c] @ drop axis ix))"

definition reduce_sum :: "'a::comm_monoid_add ndarray \<Rightarrow> nat list \<Rightarrow> 'a ndarray" where
  "reduce_sum x axes = fold (\<lambda>a t. reduce_axis t a) (rev (sort (remdups axes))) x"

text \<open>
  \<^verbatim>\<open>tf.transpose(a, perm)\<close>: dimension \<open>k\<close> of the result is dimension \<open>perm ! k\<close> of the
  input.
\<close>

fun index_of :: "nat list \<Rightarrow> nat \<Rightarrow> nat" where
  "index_of [] a = 0"
| "index_of (p # ps) a = (if p = a then 0 else Suc (index_of ps a))"

definition transpose_array :: "'a ndarray \<Rightarrow> nat list \<Rightarrow> 'a ndarray" where
  "transpose_array x perm =
     tabulate (map (\<lambda>p. dims x ! p) perm)
       (\<lambda>ix. elem x (map (\<lambda>a. ix ! index_of perm a) [0..<length perm]))"

text \<open>
  \<^verbatim>\<open>tf.image.resize_images\<close> resizes every channel of every image of a channels-last
  batch on its own. How a new pixel is interpolated depends on the method and is
  floating-point arithmetic; it is a parameter: \<open>interp method align_corners (h, w) (h', w') img y x\<close>
  is pixel \<open>(y, x)\<close> of the \<open>h' \<times> w'\<close> image made from the \<open>h \<times> w\<close> image \<open>img\<close>.
\<close>

type_synonym ('m, 'a) interpolation =
  "'m \<Rightarrow> bool \<Rightarrow> nat \<times> nat \<Rightarrow> nat \<times> nat \<Rightarrow> (nat \<Rightarrow> nat \<Rightarrow> 'a) \<Rightarrow> nat \<Rightarrow> nat \<Rightarrow> 'a"

definition resize_array ::
  "('m, 'a) interpolation \<Rightarrow> 'a ndarray \<Rightarrow> nat \<times> nat \<Rightarrow> 'm \<Rightarrow> bool \<Rightarrow> 'a ndarray" where
  "resize_array interp x sz method align_corners =
     tabulate [dims x ! 0, fst sz, snd sz, dims x ! 3]
       (\<lambda>ix. interp method align_corners (dims x ! 1, dims x ! 2) sz
                (\<lambda>i j. elem x [ix ! 0, i, j, ix ! 3]) (ix ! 1) (ix ! 2))"

section \<open>Tensors and the graph under construction\<close>

text \<open>
  A tensor is a node of the graph: its name, the static shape that
  \<^verbatim>\<open>get_shape().as_list()\<close> reports (\<open>None\<close> for a dimension unknown until the graph
  runs), the value it takes when the graph runs, and the two Python attributes the
  layers attach to their result. A node made by a TensorFlow operation has neither
  attribute.
\<close>

record 'a variable =
  v_name :: string
  v_value :: "'a ndarray"

text \<open>\<^verbatim>\<open>VariableHolder(W=...)\<close> with an optional attribute \<^verbatim>\<open>b\<close>; \<^verbatim>\<open>VariableHolder(flops=...)\<close>.\<close>

record 'a VariableHolder =
  var_W :: "'a variable"
  var_b :: "'a variable option"

record InfoHolder =
  flops :: real

record 'a tensor =
  t_name :: string
  t_shape :: "nat option list"
  t_value :: "'a ndarray"
  variables :: "'a VariableHolder option"
  info :: "InfoHolder option"

text \<open>
  What building a layer does to the graph: the variables made by \<^verbatim>\<open>tf.get_variable\<close>
  (name and shape), the operation nodes added (their operation type), and the
  regularisation losses registered (the regulariser and the name of what it is applied
  to). A regulariser is an opaque Python object, of type \<open>'r\<close>.
\<close>

record 'r graph =
  g_variables :: "(string \<times> nat list) list"
  g_nodes :: "string list"
  g_losses :: "('r \<times> string) list"

text \<open>
  An initialiser gives, for a shape, the value at each index. An activation is a
  TensorFlow operation constructor \<^verbatim>\<open>f(tensor, name=...)\<close>: it adds a node of the name
  it is given, whose value is a function of the value of its input.
\<close>

type_synonym 'a initializer = "nat list \<Rightarrow> nat list \<Rightarrow> 'a"

type_synonym 'a activation = "'a ndarray \<Rightarrow> 'a ndarray"

subsection \<open>Python numbers, lists and strings\<close>

text \<open>
  The interpreter and the TensorFlow release the code runs under: \<^verbatim>\<open>a / b\<close> on two
  integers is floor division in Python 2 and true division (a float) in Python 3, and
  \<^verbatim>\<open>get_tf_version_number()\<close> is read by \<open>Conv2D\<close>. The third field is the default weight
  initialiser \<^verbatim>\<open>variance_scaling_initializer(2.0)\<close>, which draws random numbers.
\<close>

record 'a environment =
  py3 :: bool
  tf_version_number :: real
  variance_scaling_initializer :: "'a initializer"

datatype pynum = PyInt int | PyFloat real

definition num_value :: "pynum \<Rightarrow> real" where
  "num_value v = (case v of PyInt i \<Rightarrow> real_of_int i | PyFloat r \<Rightarrow> r)"

definition py_mod :: "nat \<Rightarrow> nat \<Rightarrow> py_error + nat" where
  "py_mod a c = (if c = 0 then Inl ZeroDivisionError else Inr (a mod c))"

definition py_div :: "'a environment \<Rightarrow> pynum \<Rightarrow> nat \<Rightarrow> py_error + pynum" where
  "py_div env v c =
     (if c = 0 then Inl ZeroDivisionError
      else Inr (case v of
                  PyInt i \<Rightarrow> if py3 env then PyFloat (real_of_int i / real c) else PyInt (i div int c)
                | PyFloat r \<Rightarrow> PyFloat (r / real c)))"

text \<open>\<^verbatim>\<open>xs[i]\<close>: a negative index counts from the end, an index out of range raises.\<close>

definition py_index :: "'b list \<Rightarrow> int \<Rightarrow> py_error + 'b" where
  "py_index xs i =
     (if - int (length xs) \<le> i \<and> i < 0 then Inr (xs ! nat (int (length xs) + i))
      else if 0 \<le> i \<and> i < int (length xs) then Inr (xs ! nat i)
      else Inl IndexError)"

text \<open>\<^verbatim>\<open>a * b\<close> on two entries of a static shape: \<open>None\<close> is no number.\<close>

definition py_mul :: "nat option \<Rightarrow> nat option \<Rightarrow> py_error + nat" where
  "py_mul a c = (case (a, c) of (Some m, Some n) \<Rightarrow> Inr (m * n) | _ \<Rightarrow> Inl TypeError)"

definition upper_char :: "char \<Rightarrow> char" where
  "upper_char c =
     (if (97::nat) \<le> of_char c \<and> of_char c \<le> (122::nat) then char_of (of_char c - (32::nat)) else c)"

definition upper :: "string \<Rightarrow> string" where
  "upper s = map upper_char s"

subsection \<open>The helpers of \<^verbatim>\<open>utils/argtools.py\<close>\<close>

text \<open>A size argument is an int or an \<open>(h, w)\<close> tuple.\<close>

datatype size2 = Square nat | Pair nat nat

text \<open>
  Modelled from the spec: \<^verbatim>\<open>shape2d\<close>, \<^verbatim>\<open>shape4d\<close> and \<^verbatim>\<open>get_data_format\<close> of
  \<^verbatim>\<open>utils/argtools.py\<close> are not among the source files; the spec names only the
  "shape/stride/group arithmetic" they belong to. They are modelled as \<^verbatim>\<open>conv2d.py\<close>
  uses them: \<open>shape2d\<close> makes the two-element list \<open>[h, w]\<close> of a size argument
  ("(h,w) tuple or an int"), \<open>shape4d\<close> puts it at the two spatial places of a
  four-element list with ones elsewhere, and \<open>get_data_format\<close> translates between the
  names \<^verbatim>\<open>channels_last\<close>/\<^verbatim>\<open>channels_first\<close> and \<^verbatim>\<open>NHWC\<close>/\<^verbatim>\<open>NCHW\<close> (towards the former
  when \<open>tfmode\<close>) and, validation being by assertion, asserts that the result is one of
  the two names it translates to.
\<close>

definition shape2d :: "size2 \<Rightarrow> nat list" where
  "shape2d a = (case a of Square n \<Rightarrow> [n, n] | Pair h w \<Rightarrow> [h, w])"

definition get_data_format :: "string \<Rightarrow> bool \<Rightarrow> py_error + string" where
  "get_data_format data_format tfmode =
     (let dic = (if tfmode
                 then [(''NCHW'', ''channels_first''), (''NHWC'', ''channels_last'')]
                 else [(''channels_first'', ''NCHW''), (''channels_last'', ''NHWC'')]);
          r = (case map_of dic data_format of Some v \<Rightarrow> v | None \<Rightarrow> data_format)
      in if r \<in> set (map snd dic) then Inr r else Inl AssertionError)"

definition shape4d :: "size2 \<Rightarrow> string \<Rightarrow> py_error + nat list" where
  "shape4d a data_format =
     (case get_data_format data_format True of
        Inl e \<Rightarrow> Inl e
      | Inr f \<Rightarrow> Inr (if f = ''channels_last'' then [1] @ shape2d a @ [1] else [1, 1] @ shape2d a))"

subsection \<open>Graph operations\<close>

definition node :: "string \<Rightarrow> string \<Rightarrow> nat option list \<Rightarrow> 'a ndarray \<Rightarrow> ('r graph, 'a tensor) py" where
  "node op nm sh v =
     (\<lambda>g. (Inr \<lparr>t_name = nm, t_shape = sh, t_value = v, variables = None, info = None\<rparr>,
           g\<lparr>g_nodes := g_nodes g @ [op]\<rparr>))"

text \<open>
  \<^verbatim>\<open>tf.get_variable(name, shape, initializer=...)\<close>. A shape entry may be a float (the
  quotient of a true division); TensorFlow takes it when it is a whole number.
\<close>

definition as_dimension :: "pynum \<Rightarrow> py_error + nat" where
  "as_dimension v =
     (case v of
        PyInt i \<Rightarrow> if i < 0 then Inl ValueError else Inr (nat i)
      | PyFloat r \<Rightarrow> if r = real_of_int \<lfloor>r\<rfloor> \<and> 0 \<le> r then Inr (nat \<lfloor>r\<rfloor>) else Inl ValueError)"

fun as_shape :: "pynum list \<Rightarrow> py_error + nat list" where
  "as_shape [] = Inr []"
| "as_shape (v # vs) =
     (case as_dimension v of
        Inl e \<Rightarrow> Inl e
      | Inr d \<Rightarrow> (case as_shape vs of Inl e \<Rightarrow> Inl e | Inr ds \<Rightarrow> Inr (d # ds)))"

definition tf_get_variable :: "string \<Rightarrow> pynum list \<Rightarrow> 'a initializer \<Rightarrow> ('r graph, 'a variable) py" where
  "tf_get_variable nm shape init =
     bind (lift (as_shape shape)) (\<lambda>ds g.
       (Inr \<lparr>v_name = nm, v_value = tabulate ds (init ds)\<rparr>,
        g\<lparr>g_variables := g_variables g @ [(nm, ds)]\<rparr>))"

text \<open>A variable read as the input of an operation.\<close>

definition as_tensor :: "'a variable \<Rightarrow> 'a tensor" where
  "as_tensor v =
     \<lparr>t_name = v_name v, t_shape = map Some (dims (v_value v)), t_value = v_value v,
      variables = None, info = None\<rparr>"

definition tf_identity :: "'a tensor \<Rightarrow> string \<Rightarrow> ('r graph, 'a tensor) py" where
  "tf_identity x nm = node ''Identity'' nm (t_shape x) (t_value x)"

definition apply_op :: "'a activation \<Rightarrow> 'a tensor \<Rightarrow> string \<Rightarrow> ('r graph, 'a tensor) py" where
  "apply_op f x nm = node ''Activation'' nm (t_shape x) (f (t_value x))"

definition norm_axis :: "nat \<Rightarrow> int \<Rightarrow> nat" where
  "norm_axis rank a = (if a < 0 then nat (int rank + a) else nat a)"

definition tf_split :: "'a tensor \<Rightarrow> nat \<Rightarrow> int \<Rightarrow> ('r graph, 'a tensor list) py" where
  "tf_split x num axis =
     (let ax = norm_axis (length (t_shape x)) axis
      in if \<not> ax < length (t_shape x) \<or> num = 0 then raise ValueError
         else if (case t_shape x ! ax of None \<Rightarrow> False | Some d \<Rightarrow> d mod num \<noteq> 0)
         then raise ValueError
         else (\<lambda>g.
           (Inr (map (\<lambda>p. \<lparr>t_name = ''split'',
                            t_shape = (t_shape x)[ax := map_option (\<lambda>d. d div num) (t_shape x ! ax)],
                            t_value = split_part (t_value x) num ax p,
                            variables = None, info = None\<rparr>) [0..<num]),
            g\<lparr>g_nodes := g_nodes g @ [''Split'']\<rparr>)))"

fun sum_options :: "nat option list \<Rightarrow> nat option" where
  "sum_options [] = Some 0"
| "sum_options (None # ds) = None"
| "sum_options (Some d # ds) = map_option (\<lambda>s. d + s) (sum_options ds)"

definition tf_concat :: "'a tensor list \<Rightarrow> int \<Rightarrow> ('r graph, 'a tensor) py" where
  "tf_concat xs axis =
     (case xs of
        [] \<Rightarrow> raise ValueError
      | x # _ \<Rightarrow>
          let ax = norm_axis (length (t_shape x)) axis
          in if \<not> ax < length (t_shape x) then raise ValueError
             else node ''ConcatV2'' ''concat''
                    ((t_shape x)[ax := sum_options (map (\<lambda>t. t_shape t ! ax) xs)])
                    (concat_arrays (map t_value xs) ax))"

definition tf_nn_bias_add :: "'a::plus tensor \<Rightarrow> 'a tensor \<Rightarrow> string \<Rightarrow> ('r graph, 'a tensor) py" where
  "tf_nn_bias_add x bias fmt =
     node ''BiasAdd'' ''BiasAdd'' (t_shape x) (bias_add (t_value x) (t_value bias) fmt)"

text \<open>
  The two convolutions refuse an input or a kernel that is not 4-D and a padding other
  than \<^verbatim>\<open>SAME\<close> and \<^verbatim>\<open>VALID\<close>. \<^verbatim>\<open>tf.nn.conv2d\<close> is called with or without the keyword
  \<^verbatim>\<open>dilations\<close>; without it the dilation is one. Shape inference refuses as well a
  stride or a dilation of zero along the height or the width, and, under \<^verbatim>\<open>VALID\<close>, a
  height or width that is known when the graph is built and is shorter than the kernel
  with its dilation (\<open>window_fits\<close>).
\<close>

definition window_fits ::
  "string \<Rightarrow> nat option list \<Rightarrow> nat \<Rightarrow> nat \<Rightarrow> nat list \<Rightarrow> string \<Rightarrow> nat list \<Rightarrow> bool" where
  "window_fits fmt sh kh kw strides padding dilations \<longleftrightarrow>
     0 < height_of fmt strides \<and> 0 < width_of fmt strides \<and>
     0 < height_of fmt dilations \<and> 0 < width_of fmt dilations \<and>
     (padding = ''VALID'' \<longrightarrow>
        (case height_of fmt sh of
           None \<Rightarrow> True | Some h \<Rightarrow> kernel_extent kh (height_of fmt dilations) \<le> h) \<and>
        (case width_of fmt sh of
           None \<Rightarrow> True | Some w \<Rightarrow> kernel_extent kw (width_of fmt dilations) \<le> w))"

definition conv_shape ::
  "string \<Rightarrow> nat option list \<Rightarrow> nat \<Rightarrow> nat \<Rightarrow> nat \<Rightarrow> nat list \<Rightarrow> string \<Rightarrow> nat list \<Rightarrow> nat option list" where
  "conv_shape fmt sh co kh kw strides padding dilations =
     layout fmt (batch_of sh) (Some co)
       (map_option (\<lambda>h. out_size padding h kh (height_of fmt strides) (height_of fmt dilations))
          (height_of fmt sh))
       (map_option (\<lambda>w. out_size padding w kw (width_of fmt strides) (width_of fmt dilations))
          (width_of fmt sh))"

definition tf_nn_conv2d ::
  "'a::comm_semiring_0 tensor \<Rightarrow> 'a tensor \<Rightarrow> nat list \<Rightarrow> string \<Rightarrow> nat list option \<Rightarrow> string
     \<Rightarrow> ('r graph, 'a tensor) py" where
  "tf_nn_conv2d x k strides padding dilations fmt =
     (let dil = (case dilations of None \<Rightarrow> [1, 1, 1, 1] | Some d \<Rightarrow> d);
          kd = dims (t_value k)
      in if length (t_shape x) \<noteq> 4 \<or> length kd \<noteq> 4 \<or> length strides \<noteq> 4 \<or> length dil \<noteq> 4
            \<or> padding \<notin> {''SAME'', ''VALID''}
            \<or> \<not> window_fits fmt (t_shape x) (kd ! 0) (kd ! 1) strides padding dil
         then raise ValueError
         else node ''Conv2D'' ''Conv2D''
                (conv_shape fmt (t_shape x) (kd ! 3) (kd ! 0) (kd ! 1) strides padding dil)
                (conv2d (t_value x) (t_value k) strides padding dil fmt))"

definition tf_nn_depthwise_conv2d ::
  "'a::comm_semiring_0 tensor \<Rightarrow> 'a tensor \<Rightarrow> nat list \<Rightarrow> string \<Rightarrow> string
     \<Rightarrow> ('r graph, 'a tensor) py" where
  "tf_nn_depthwise_conv2d x k strides padding fmt =
     (let kd = dims (t_value k)
      in if length (t_shape x) \<noteq> 4 \<or> length kd \<noteq> 4 \<or> length strides \<noteq> 4
            \<or> padding \<notin> {''SAME'', ''VALID''}
            \<or> \<not> window_fits fmt (t_shape x) (kd ! 0) (kd ! 1) strides padding [1, 1, 1, 1]
         then raise ValueError
         else node ''DepthwiseConv2dNative'' ''depthwise''
                (conv_shape fmt (t_shape x) (kd ! 2 * kd ! 3) (kd ! 0) (kd ! 1) strides padding
                   [1, 1, 1, 1])
                (depthwise_conv2d (t_value x) (t_value k) strides padding fmt))"

text \<open>
  \<^verbatim>\<open>tf.reshape(x, shape)\<close>: the shape is a Python list; an entry \<open>None\<close> cannot be made a
  tensor, one entry may be \<open>-1\<close> and is then worked out from the number of elements,
  which the new shape must hold exactly.
\<close>

definition tf_reshape :: "'a tensor \<Rightarrow> int option list \<Rightarrow> ('r graph, 'a tensor) py" where
  "tf_reshape x shape =
     (if None \<in> set shape then raise TypeError
      else let want = map the shape;
               known = prod_list (map nat (filter (\<lambda>d. d \<noteq> - 1) want));
               total = prod_list (dims (t_value x))
           in if (\<exists>d \<in> set want. d < - 1) \<or> 1 < length (filter (\<lambda>d. d = - 1) want)
              then raise ValueError
              else if - 1 \<in> set want
              then (if known = 0 \<or> total mod known \<noteq> 0 then raise ValueError
                    else node ''Reshape'' ''Reshape''
                           (map (\<lambda>d. if d = - 1
                                      then (if None \<in> set (t_shape x) then None
                                            else Some (total div known))
                                      else Some (nat d)) want)
                           (reshape (t_value x)
                              (map (\<lambda>d. if d = - 1 then total div known else nat d) want)))
              else (if known \<noteq> total then raise ValueError
                    else node ''Reshape'' ''Reshape'' (map (\<lambda>d. Some (nat d)) want)
                           (reshape (t_value x) (map nat want))))"

definition drop_axes :: "nat list \<Rightarrow> 'b list \<Rightarrow> 'b list" where
  "drop_axes axes xs = map snd (filter (\<lambda>(i, _). i \<notin> set axes) (zip [0..<length xs] xs))"

definition tf_reduce_sum :: "'a::comm_monoid_add tensor \<Rightarrow> nat list \<Rightarrow> ('r graph, 'a tensor) py" where
  "tf_reduce_sum x axes =
     (if \<exists>a \<in> set axes. \<not> a < length (t_shape x) then raise ValueError
      else node ''Sum'' ''Sum'' (drop_axes axes (t_shape x)) (reduce_sum (t_value x) axes))"

definition tf_transpose :: "'a tensor \<Rightarrow> nat list \<Rightarrow> ('r graph, 'a tensor) py" where
  "tf_transpose x perm =
     (if length perm \<noteq> length (t_shape x) \<or> set perm \<noteq> {..<length perm} then raise ValueError
      else node ''Transpose'' ''transpose'' (map (\<lambda>p. t_shape x ! p) perm)
             (transpose_array (t_value x) perm))"

text \<open>
  \<^verbatim>\<open>tf.image.resize_images\<close> takes a 4-D channels-last batch, or one 3-D image
  \<open>[height, width, channels]\<close>, which it makes a batch of one, resizes and squeezes back;
  any other rank is refused.
\<close>

definition tf_image_resize_images ::
  "('m, 'a) interpolation \<Rightarrow> 'a tensor \<Rightarrow> nat \<times> nat \<Rightarrow> 'm \<Rightarrow> bool \<Rightarrow> ('r graph, 'a tensor) py" where
  "tf_image_resize_images interp images sz method align_corners =
     (if length (t_shape images) = 4
      then node ''ResizeImages'' ''resize_images''
             [t_shape images ! 0, Some (fst sz), Some (snd sz), t_shape images ! 3]
             (resize_array interp (t_value images) sz method align_corners)
      else if length (t_shape images) = 3
      then bind (node ''ExpandDims'' ''ExpandDims'' (Some 1 # t_shape images)
                   (reshape (t_value images) (1 # dims (t_value images)))) (\<lambda>batch.
           bind (node ''ResizeImages'' ''resize_images''
                   [t_shape batch ! 0, Some (fst sz), Some (snd sz), t_shape batch ! 3]
                   (resize_array interp (t_value batch) sz method align_corners)) (\<lambda>r.
           node ''Squeeze'' ''Squeeze'' (tl (t_shape r))
             (reshape (t_value r) (tl (dims (t_value r))))))
      else raise ValueError)"

subsection \<open>The layers of \<^verbatim>\<open>tf.layers\<close>\<close>

text \<open>
  \<^verbatim>\<open>rename_get_variable(mapping)\<close>: inside it a variable asked for under a name of the
  mapping is made under the mapped name.
\<close>

definition renamed :: "(string \<times> string) list \<Rightarrow> string \<Rightarrow> string" where
  "renamed mapping nm = (case map_of mapping nm of None \<Rightarrow> nm | Some nm' \<Rightarrow> nm')"

definition add_loss :: "'r option \<Rightarrow> string \<Rightarrow> ('r graph, unit) py" where
  "add_loss reg target =
     (case reg of
        None \<Rightarrow> ret ()
      | Some r \<Rightarrow> (\<lambda>g. (Inr (), g\<lparr>g_losses := g_losses g @ [(r, target)]\<rparr>)))"

definition tf_format :: "string \<Rightarrow> string" where
  "tf_format data_format = (if data_format = ''channels_first'' then ''NCHW'' else ''NHWC'')"

text \<open>
  \<^verbatim>\<open>tf.layers.Conv2D(...).apply(inputs)\<close>, with the layer's \<^verbatim>\<open>kernel\<close> and \<^verbatim>\<open>bias\<close>
  attributes returned beside the output. The constructor wants one of the two names for
  the data format, a padding that is \<^verbatim>\<open>same\<close> or \<^verbatim>\<open>valid\<close> in any case of letters, and
  positive strides, and raises before anything is made. Applied, the layer wants a 4-D
  input and a known number of input channels; it makes the kernel, then the bias,
  registers their regularisers, convolves, adds the bias, applies the activation if
  there is one, and registers the activity regulariser on the output. Its convolution
  does not take a stride above one together with a dilation above one.
\<close>

definition tf_layers_Conv2D ::
  "(string \<times> string) list \<Rightarrow> nat \<Rightarrow> size2 \<Rightarrow> size2 \<Rightarrow> string \<Rightarrow> string \<Rightarrow> size2
     \<Rightarrow> 'a::comm_semiring_0 activation option \<Rightarrow> bool \<Rightarrow> 'a initializer \<Rightarrow> 'a initializer
     \<Rightarrow> 'r option \<Rightarrow> 'r option \<Rightarrow> 'r option \<Rightarrow> 'a tensor
     \<Rightarrow> ('r graph, 'a tensor \<times> 'a variable \<times> 'a variable option) py" where
  "tf_layers_Conv2D mapping filters kernel_size strides padding data_format dilation_rate
     activation use_bias kernel_initializer bias_initializer kernel_regularizer
     bias_regularizer activity_regularizer inputs =
     (if data_format \<notin> {''channels_last'', ''channels_first''}
         \<or> upper padding \<notin> {''SAME'', ''VALID''}
         \<or> shape2d strides ! 0 = 0 \<or> shape2d strides ! 1 = 0
      then raise ValueError
      else if length (t_shape inputs) \<noteq> 4 then raise ValueError
      else case chan_of (tf_format data_format) (t_shape inputs) of
        None \<Rightarrow> raise ValueError
      | Some input_dim \<Rightarrow>
          bind (tf_get_variable (renamed mapping ''kernel'')
                  (map (\<lambda>d. PyInt (int d)) (shape2d kernel_size @ [input_dim, filters]))
                  kernel_initializer) (\<lambda>kernel.
          bind (add_loss kernel_regularizer (v_name kernel)) (\<lambda>_.
          bind (if use_bias
                then bind (tf_get_variable (renamed mapping ''bias'') [PyInt (int filters)]
                             bias_initializer) (\<lambda>bias.
                     bind (add_loss bias_regularizer (v_name bias)) (\<lambda>_. ret (Some bias)))
                else ret None) (\<lambda>bias.
          bind (if (1 < shape2d strides ! 0 \<or> 1 < shape2d strides ! 1)
                     \<and> (1 < shape2d dilation_rate ! 0 \<or> 1 < shape2d dilation_rate ! 1)
                then raise ValueError
                else tf_nn_conv2d inputs (as_tensor kernel)
                  (layout (tf_format data_format) 1 1 (shape2d strides ! 0) (shape2d strides ! 1))
                  (upper padding)
                  (Some (layout (tf_format data_format) 1 1
                           (shape2d dilation_rate ! 0) (shape2d dilation_rate ! 1)))
                  (tf_format data_format)) (\<lambda>outputs.
          bind (case bias of
                  None \<Rightarrow> ret outputs
                | Some bias \<Rightarrow> tf_nn_bias_add outputs (as_tensor bias) (tf_format data_format))
            (\<lambda>outputs.
          bind (case activation of
                  None \<Rightarrow> ret outputs
                | Some f \<Rightarrow> apply_op f outputs ''Activation'') (\<lambda>outputs.
          bind (add_loss activity_regularizer (t_name outputs)) (\<lambda>_.
          ret (outputs, kernel, bias)))))))))"

text \<open>
  \<^verbatim>\<open>tf.layers.Conv2DTranspose(...).apply(inputs)\<close>: the same constructor and the same
  steps, with a kernel of dimensions \<open>[kh, kw, filters, input_dim]\<close> and the transposed
  convolution.
\<close>

definition tf_layers_Conv2DTranspose ::
  "(string \<times> string) list \<Rightarrow> nat \<Rightarrow> size2 \<Rightarrow> size2 \<Rightarrow> string \<Rightarrow> string
     \<Rightarrow> 'a::comm_semiring_0 activation option \<Rightarrow> bool \<Rightarrow> 'a initializer \<Rightarrow> 'a initializer
     \<Rightarrow> 'r option \<Rightarrow> 'r option \<Rightarrow> 'r option \<Rightarrow> 'a tensor
     \<Rightarrow> ('r graph, 'a tensor \<times> 'a variable \<times> 'a variable option) py" where
  "tf_layers_Conv2DTranspose mapping filters kernel_size strides padding data_format
     activation use_bias kernel_initializer bias_initializer kernel_regularizer
     bias_regularizer activity_regularizer inputs =
     (if data_format \<notin> {''channels_last'', ''channels_first''}
         \<or> upper padding \<notin> {''SAME'', ''VALID''}
         \<or> shape2d strides ! 0 = 0 \<or> shape2d strides ! 1 = 0
      then raise ValueError
      else if length (t_shape inputs) \<noteq> 4 then raise ValueError
      else case chan_of (tf_format data_format) (t_shape inputs) of
        None \<Rightarrow> raise ValueError
      | Some input_dim \<Rightarrow>
          bind (tf_get_variable (renamed mapping ''kernel'')
                  (map (\<lambda>d. PyInt (int d)) (shape2d kernel_size @ [filters, input_dim]))
                  kernel_initializer) (\<lambda>kernel.
          bind (add_loss kernel_regularizer (v_name kernel)) (\<lambda>_.
          bind (if use_bias
                then bind (tf_get_variable (renamed mapping ''bias'') [PyInt (int filters)]
                             bias_initializer) (\<lambda>bias.
                     bind (add_loss bias_regularizer (v_name bias)) (\<lambda>_. ret (Some bias)))
                else ret None) (\<lambda>bias.
          bind (node ''Conv2DBackpropInput'' ''conv2d_transpose''
                  (layout (tf_format data_format) (batch_of (t_shape inputs)) (Some filters)
                     (map_option
                        (\<lambda>h. deconv_size (upper padding) h (shape2d kernel_size ! 0)
                               (shape2d strides ! 0))
                        (height_of (tf_format data_format) (t_shape inputs)))
                     (map_option
                        (\<lambda>w. deconv_size (upper padding) w (shape2d kernel_size ! 1)
                               (shape2d strides ! 1))
                        (width_of (tf_format data_format) (t_shape inputs))))
                  (conv2d_transpose (t_value inputs) (v_value kernel)
                     (layout (tf_format data_format) 1 1 (shape2d strides ! 0)
                        (shape2d strides ! 1))
                     (upper padding) (tf_format data_format))) (\<lambda>outputs.
          bind (case bias of
                  None \<Rightarrow> ret outputs
                | Some bias \<Rightarrow> tf_nn_bias_add outputs (as_tensor bias) (tf_format data_format))
            (\<lambda>outputs.
          bind (case activation of
                  None \<Rightarrow> ret outputs
                | Some f \<Rightarrow> apply_op f outputs ''Activation'') (\<lambda>outputs.
          bind (add_loss activity_regularizer (t_name outputs)) (\<lambda>_.
          ret (outputs, kernel, bias)))))))))"

section \<open>The layers of \<^verbatim>\<open>tensorpack/models/conv2d.py\<close>\<close>

text \<open>
  Each layer is the source function statement by statement; the arguments are the
  Python arguments in their order, after the environment (and, for \<open>ResizeImages\<close>, the
  interpolation of the framework). The decorators \<^verbatim>\<open>layer_register\<close> and
  \<^verbatim>\<open>convert_to_tflayer_args\<close> open a variable scope and rename keyword arguments before
  the call; they are not part of the functions.
\<close>

definition Conv2D ::
  "'a::comm_semiring_0 environment \<Rightarrow> 'a tensor \<Rightarrow> nat \<Rightarrow> size2 \<Rightarrow> size2 \<Rightarrow> string \<Rightarrow> string
     \<Rightarrow> size2 \<Rightarrow> 'a activation option \<Rightarrow> bool \<Rightarrow> 'a initializer \<Rightarrow> 'a initializer
     \<Rightarrow> 'r option \<Rightarrow> 'r option \<Rightarrow> 'r option \<Rightarrow> nat \<Rightarrow> ('r graph, 'a tensor) py" where
  "Conv2D env inputs filters kernel_size strides padding data_format dilation_rate activation
     use_bias kernel_initializer bias_initializer kernel_regularizer bias_regularizer
     activity_regularizer split =
     (if split = 1 then
        bind (tf_layers_Conv2D [(''kernel'', ''W''), (''bias'', ''b'')] filters kernel_size
                strides padding data_format dilation_rate activation use_bias
                kernel_initializer bias_initializer kernel_regularizer bias_regularizer
                activity_regularizer inputs) (\<lambda>(outputs, kernel, bias).
        bind (tf_identity outputs ''output'') (\<lambda>r.
        let r = r\<lparr>variables := Some \<lparr>var_W = kernel, var_b = None\<rparr>\<rparr>;
            r = (if use_bias then r\<lparr>variables := Some \<lparr>var_W = kernel, var_b = bias\<rparr>\<rparr> else r);
            in_shape = t_shape inputs;
            channel_axis = (if data_format = ''channels_last'' then 3 else 1);
            h_dim = (if data_format = ''channels_last'' then 1 else 2);
            w_dim = h_dim + 1
        in
        bind (lift (py_index in_shape channel_axis)) (\<lambda>in_channel.
        let out_channel = filters;
            kernel_shape = shape2d kernel_size
        in
        bind (lift (shape4d strides data_format)) (\<lambda>stride.
        bind (case in_channel of
                None \<Rightarrow> raise TypeError
              | Some c \<Rightarrow> ret (1.0 * real c * real out_channel * real (kernel_shape ! 0)
                              * real (kernel_shape ! 1))) (\<lambda>flops0.
        bind (lift (py_index in_shape h_dim)) (\<lambda>h.
        bind (if (case h of None \<Rightarrow> False | Some n \<Rightarrow> 0 < n)
              then bind (lift (py_index in_shape w_dim)) (\<lambda>w.
                   bind (lift (py_mul h w)) (\<lambda>hw.
                   bind (lift (py_index stride h_dim)) (\<lambda>sh.
                   bind (lift (py_div env (PyInt (int hw)) sh)) (\<lambda>q.
                   bind (lift (py_index stride w_dim)) (\<lambda>sw.
                   bind (lift (py_div env q sw)) (\<lambda>q.
                   ret (flops0 * num_value q)))))))
              else ret flops0) (\<lambda>flops1.
        ret (r\<lparr>info := Some \<lparr>flops = flops1\<rparr>\<rparr>))))))))
      else
        bind (lift (get_data_format data_format False)) (\<lambda>data_format.
        let in_shape = t_shape inputs;
            channel_axis = (if data_format = ''NHWC'' then - 1 else 1)
        in
        bind (lift (py_index in_shape channel_axis)) (\<lambda>in_channel.
        case in_channel of
          None \<Rightarrow> raise AssertionError
        | Some in_channel \<Rightarrow>
        bind (lift (py_mod in_channel split)) (\<lambda>m.
        bind (py_assert (m = 0)) (\<lambda>_.
        bind (py_assert (kernel_regularizer = None \<and> bias_regularizer = None
                          \<and> activity_regularizer = None)) (\<lambda>_.
        let out_channel = filters in
        bind (lift (py_mod out_channel split)) (\<lambda>m.
        bind (py_assert (m = 0)) (\<lambda>_.
        bind (py_assert (dilation_rate = Pair 1 1 \<or> 1.5 \<le> tf_version_number env)) (\<lambda>_.
        let kernel_shape = shape2d kernel_size in
        bind (lift (py_div env (PyInt (int in_channel)) split)) (\<lambda>q.
        let filter_shape = map (\<lambda>d. PyInt (int d)) kernel_shape @ [q, PyInt (int out_channel)] in
        bind (lift (shape4d strides data_format)) (\<lambda>stride.
        bind (if 1.5 \<le> tf_version_number env
              then bind (lift (shape4d dilation_rate data_format)) (\<lambda>d. ret (Some d))
              else ret None) (\<lambda>dilations.
        bind (tf_get_variable ''W'' filter_shape kernel_initializer) (\<lambda>W.
        bind (if use_bias
              then bind (tf_get_variable ''b'' [PyInt (int out_channel)] bias_initializer)
                     (\<lambda>b. ret (Some b))
              else ret None) (\<lambda>b.
        bind (tf_split inputs split channel_axis) (\<lambda>inputs.
        bind (tf_split (as_tensor W) split 3) (\<lambda>kernels.
        bind (for_each (\<lambda>(i, k). tf_nn_conv2d i k stride (upper padding) dilations data_format)
                (zip inputs kernels)) (\<lambda>outputs.
        bind (tf_concat outputs channel_axis) (\<lambda>conv.
        bind (case b of
                None \<Rightarrow> ret conv
              | Some b \<Rightarrow> tf_nn_bias_add conv (as_tensor b) data_format) (\<lambda>pre.
        bind ((case activation of None \<Rightarrow> tf_identity | Some f \<Rightarrow> apply_op f) pre ''output'')
          (\<lambda>r.
        ret (r\<lparr>variables := Some \<lparr>var_W = W, var_b = b\<rparr>\<rparr>)))))))))))))))))))))"

definition Conv2DTranspose ::
  "'a::comm_semiring_0 tensor \<Rightarrow> nat \<Rightarrow> size2 \<Rightarrow> size2 \<Rightarrow> string \<Rightarrow> string
     \<Rightarrow> 'a activation option \<Rightarrow> bool \<Rightarrow> 'a initializer \<Rightarrow> 'a initializer
     \<Rightarrow> 'r option \<Rightarrow> 'r option \<Rightarrow> 'r option \<Rightarrow> 'd \<Rightarrow> ('r graph, 'a tensor) py" where
  "Conv2DTranspose inputs filters kernel_size strides padding data_format activation use_bias
     kernel_initializer bias_initializer kernel_regularizer bias_regularizer
     activity_regularizer dyn_hw =
     bind (tf_layers_Conv2DTranspose [(''kernel'', ''W''), (''bias'', ''b'')] filters kernel_size
             strides padding data_format activation use_bias kernel_initializer
             bias_initializer kernel_regularizer bias_regularizer activity_regularizer inputs)
       (\<lambda>(outputs, kernel, bias).
     bind (tf_identity outputs ''output'') (\<lambda>r.
     let r = r\<lparr>variables := Some \<lparr>var_W = kernel, var_b = None\<rparr>\<rparr>;
         r = (if use_bias then r\<lparr>variables := Some \<lparr>var_W = kernel, var_b = bias\<rparr>\<rparr> else r)
     in ret r))"

definition ResizeImages ::
  "('m, 'a) interpolation \<Rightarrow> 'a tensor \<Rightarrow> nat \<times> nat \<Rightarrow> 'm \<Rightarrow> bool \<Rightarrow> string
     \<Rightarrow> ('r graph, 'a tensor) py" where
  "ResizeImages interp images sz method align_corners data_format =
     bind (if data_format = ''channels_first'' then tf_transpose images [0, 2, 3, 1]
           else ret images) (\<lambda>l.
     bind (tf_image_resize_images interp l sz method align_corners) (\<lambda>l.
     bind (if data_format = ''channels_first'' then tf_transpose l [0, 3, 1, 2] else ret l) (\<lambda>l.
     tf_identity l ''output'')))"

definition GroupedConv2D ::
  "'a::comm_semiring_0 environment \<Rightarrow> 'a tensor \<Rightarrow> nat \<Rightarrow> nat \<Rightarrow> size2 \<Rightarrow> bool \<Rightarrow> string \<Rightarrow> size2
     \<Rightarrow> 'a initializer option \<Rightarrow> 'a initializer option \<Rightarrow> 'a activation \<Rightarrow> bool \<Rightarrow> string
     \<Rightarrow> ('r graph, 'a tensor) py" where
  "GroupedConv2D env x num_paths path_ch_out kernel_shape sum_paths padding stride W_init b_init
     nl use_bias data_format =
     bind (lift (get_data_format data_format False)) (\<lambda>data_format.
     let in_shape = t_shape x;
         ch_dim = (if data_format = ''NHWC'' then 3 else 1)
     in
     bind (lift (py_index in_shape (int ch_dim))) (\<lambda>ch_in.
     case ch_in of
       None \<Rightarrow> raise TypeError
     | Some ch_in \<Rightarrow>
     bind (lift (py_mod ch_in num_paths)) (\<lambda>m.
     bind (py_assert (m = 0)) (\<lambda>_.
     let ch_in_per_path = ch_in div num_paths;
         ch_out = (if sum_paths then path_ch_out else num_paths * path_ch_out);
         kernel_shape = shape2d kernel_shape;
         padding = upper padding;
         filter_shape = kernel_shape @ [ch_in, path_ch_out]
     in
     bind (lift (shape4d stride data_format)) (\<lambda>stride.
     let W_init = (case W_init of None \<Rightarrow> variance_scaling_initializer env | Some i \<Rightarrow> i);
         b_init = (case b_init of None \<Rightarrow> (\<lambda>_ _. 0) | Some i \<Rightarrow> i)
     in
     bind (tf_get_variable ''W'' (map (\<lambda>d. PyInt (int d)) filter_shape) W_init) (\<lambda>W.
     bind (if use_bias
           then bind (tf_get_variable ''b'' [PyInt (int ch_out)] b_init) (\<lambda>b. ret (Some b))
           else ret None) (\<lambda>b.
     bind (tf_nn_depthwise_conv2d x (as_tensor W) stride padding data_format) (\<lambda>x.
     let out_shape = map (map_option int) (t_shape x);
         shape_depthwise = map (\<lambda>d. Some (int d)) [num_paths, ch_in_per_path, path_ch_out]
     in
     bind (if data_format = ''NHWC''
           then bind (lift (py_index out_shape 1)) (\<lambda>o1.
                bind (lift (py_index out_shape 2)) (\<lambda>o2.
                tf_reshape x ([Some (- 1), o1, o2] @ shape_depthwise)))
           else bind (lift (py_index out_shape 2)) (\<lambda>o2.
                bind (lift (py_index out_shape 3)) (\<lambda>o3.
                tf_reshape x ([Some (- 1)] @ shape_depthwise @ [o2, o3])))) (\<lambda>x.
     let sum_axis = (if sum_paths then [ch_dim, ch_dim + 1] else [ch_dim + 1]) in
     bind (tf_reduce_sum x sum_axis) (\<lambda>x.
     bind (if \<not> sum_paths
           then (if data_format = ''NHWC''
                 then bind (lift (py_index out_shape 1)) (\<lambda>o1.
                      bind (lift (py_index out_shape 2)) (\<lambda>o2.
                      tf_reshape x [Some (- 1), o1, o2, Some (int ch_out)]))
                 else bind (lift (py_index out_shape 2)) (\<lambda>o2.
                      bind (lift (py_index out_shape 3)) (\<lambda>o3.
                      tf_reshape x [Some (- 1), Some (int ch_out), o2, o3])))
           else ret x) (\<lambda>x.
     bind (case b of
             None \<Rightarrow> ret x
           | Some b \<Rightarrow> tf_nn_bias_add x (as_tensor b) data_format) (\<lambda>pre.
     bind (apply_op nl pre ''output'') (\<lambda>r.
     ret (r\<lparr>variables := Some \<lparr>var_W = W, var_b = b\<rparr>\<rparr>))))))))))))))"

section \<open>What the operations return\<close>

text \<open>
  Names for the conditions under which the framework accepts a call and for the nodes
  it then returns, used to state what the layers compute.
\<close>

definition layer_ok :: "string \<Rightarrow> string \<Rightarrow> 'a tensor \<Rightarrow> bool" where
  "layer_ok data_format padding inputs \<longleftrightarrow>
     data_format \<in> {''channels_last'', ''channels_first''} \<and> length (t_shape inputs) = 4 \<and>
     chan_of (tf_format data_format) (t_shape inputs) \<noteq> None \<and>
     upper padding \<in> {''SAME'', ''VALID''}"

text \<open>
  What \<^verbatim>\<open>tf.layers.Conv2D\<close> needs beyond \<open>layer_ok\<close> to return: positive strides, no
  stride above one together with a dilation above one, and a window that fits.
\<close>

definition layer_accepts ::
  "string \<Rightarrow> string \<Rightarrow> size2 \<Rightarrow> size2 \<Rightarrow> size2 \<Rightarrow> 'a tensor \<Rightarrow> bool" where
  "layer_accepts data_format padding kernel_size strides dilation_rate inputs \<longleftrightarrow>
     layer_ok data_format padding inputs \<and>
     \<not> ((1 < shape2d strides ! 0 \<or> 1 < shape2d strides ! 1)
        \<and> (1 < shape2d dilation_rate ! 0 \<or> 1 < shape2d dilation_rate ! 1)) \<and>
     window_fits (tf_format data_format) (t_shape inputs)
       (shape2d kernel_size ! 0) (shape2d kernel_size ! 1)
       (layout (tf_format data_format) 1 1 (shape2d strides ! 0) (shape2d strides ! 1))
       (upper padding)
       (layout (tf_format data_format) 1 1 (shape2d dilation_rate ! 0) (shape2d dilation_rate ! 1))"

definition transpose_accepts :: "string \<Rightarrow> string \<Rightarrow> size2 \<Rightarrow> 'a tensor \<Rightarrow> bool" where
  "transpose_accepts data_format padding strides inputs \<longleftrightarrow>
     layer_ok data_format padding inputs \<and> 0 < shape2d strides ! 0 \<and> 0 < shape2d strides ! 1"

definition split_node :: "'a tensor \<Rightarrow> nat \<Rightarrow> nat \<Rightarrow> nat \<Rightarrow> 'a tensor" where
  "split_node x num ax p =
     \<lparr>t_name = ''split'',
      t_shape = (t_shape x)[ax := map_option (\<lambda>d. d div num) (t_shape x ! ax)],
      t_value = split_part (t_value x) num ax p, variables = None, info = None\<rparr>"

definition conv_ok ::
  "nat list \<Rightarrow> string \<Rightarrow> nat list option \<Rightarrow> string \<Rightarrow> 'a tensor \<times> 'a tensor \<Rightarrow> bool" where
  "conv_ok strides padding dilations fmt z \<longleftrightarrow>
     length (t_shape (fst z)) = 4 \<and> length (dims (t_value (snd z))) = 4 \<and> length strides = 4 \<and>
     length (case dilations of None \<Rightarrow> [1, 1, 1, 1] | Some d \<Rightarrow> d) = 4 \<and>
     padding \<in> {''SAME'', ''VALID''} \<and>
     window_fits fmt (t_shape (fst z)) (dims (t_value (snd z)) ! 0) (dims (t_value (snd z)) ! 1)
       strides padding (case dilations of None \<Rightarrow> [1, 1, 1, 1] | Some d \<Rightarrow> d)"

definition conv_node ::
  "nat list \<Rightarrow> string \<Rightarrow> nat list option \<Rightarrow> string \<Rightarrow> 'a::comm_semiring_0 tensor \<times> 'a tensor \<Rightarrow> 'a tensor" where
  "conv_node strides padding dilations fmt z =
     (let dil = (case dilations of None \<Rightarrow> [1, 1, 1, 1] | Some d \<Rightarrow> d);
          kd = dims (t_value (snd z))
      in \<lparr>t_name = ''Conv2D'',
          t_shape = conv_shape fmt (t_shape (fst z)) (kd ! 3) (kd ! 0) (kd ! 1) strides padding dil,
          t_value = conv2d (t_value (fst z)) (t_value (snd z)) strides padding dil fmt,
          variables = None, info = None\<rparr>)"


definition transposed :: "'a tensor \<Rightarrow> nat list \<Rightarrow> 'a tensor" where
  "transposed x perm =
     \<lparr>t_name = ''transpose'', t_shape = map (\<lambda>p. t_shape x ! p) perm,
      t_value = transpose_array (t_value x) perm, variables = None, info = None\<rparr>"

definition resized ::
  "('m, 'a) interpolation \<Rightarrow> 'a tensor \<Rightarrow> nat \<times> nat \<Rightarrow> 'm \<Rightarrow> bool \<Rightarrow> 'a tensor" where
  "resized interp x sz method align_corners =
     \<lparr>t_name = ''resize_images'',
      t_shape = [t_shape x ! 0, Some (fst sz), Some (snd sz), t_shape x ! 3],
      t_value = resize_array interp (t_value x) sz method align_corners,
      variables = None, info = None\<rparr>"
text \<open>
  The conditions under which the group branch of \<^verbatim>\<open>Conv2D\<close> passes its checks: a data
  format that \<^verbatim>\<open>get_data_format\<close> knows, a known channel count \<open>c\<close> at the channel axis,
  a group count that is not zero and divides both the channel count and \<open>filters\<close>, no
  regulariser, and a dilation the TensorFlow version supports.
\<close>

definition group_ok ::
  "'a environment \<Rightarrow> 'a tensor \<Rightarrow> nat \<Rightarrow> string \<Rightarrow> size2 \<Rightarrow> 'r option \<Rightarrow> 'r option \<Rightarrow> 'r option
     \<Rightarrow> nat \<Rightarrow> string \<Rightarrow> nat \<Rightarrow> bool" where
  "group_ok env inputs filters data_format dilation_rate kernel_regularizer bias_regularizer
     activity_regularizer split fmt c \<longleftrightarrow>
     get_data_format data_format False = Inr fmt \<and>
     py_index (t_shape inputs) (if fmt = ''NHWC'' then - 1 else 1) = Inr (Some c) \<and>
     split \<noteq> 0 \<and> c mod split = 0 \<and> filters mod split = 0 \<and>
     kernel_regularizer = None \<and> bias_regularizer = None \<and> activity_regularizer = None \<and>
     (dilation_rate = Pair 1 1 \<or> 1.5 \<le> tf_version_number env)"

text \<open>The channel axis of a data format.\<close>

definition chan_axis :: "string \<Rightarrow> nat" where
  "chan_axis fmt = (if fmt = ''NHWC'' then 3 else 1)"

text \<open>
  The reference grouped convolution, in the words of the specification: the input is
  split into \<open>s\<close> equal channel groups, group \<open>i\<close> is convolved with slice \<open>i\<close> of the kernel
  and with nothing else, and the \<open>s\<close> results are concatenated along the channel axis. The
  kernel slices are taken along \<open>kernel_axis\<close>: the output-channel axis 3 of a kernel of
  dimensions \<open>[kh, kw, ch_in / s, filters]\<close>, or the input-channel axis 2 of a kernel
  of dimensions \<open>[kh, kw, ch_in, path_ch_out]\<close>, whose slices have dimensions
  \<open>[kh, kw, ch_in / s, path_ch_out]\<close>.
\<close>

definition grouped_convolution ::
  "'a::comm_semiring_0 ndarray \<Rightarrow> 'a ndarray \<Rightarrow> nat \<Rightarrow> nat \<Rightarrow> nat list \<Rightarrow> string \<Rightarrow> nat list \<Rightarrow> string
     \<Rightarrow> 'a ndarray" where
  "grouped_convolution x w s kernel_axis strides padding dilations fmt =
     concat_arrays
       (map (\<lambda>p. conv2d (split_part x s (chan_axis fmt) p) (split_part w s kernel_axis p)
                  strides padding dilations fmt) [0..<s])
       (chan_axis fmt)"

definition variable_of :: "string \<Rightarrow> nat list \<Rightarrow> 'a initializer \<Rightarrow> 'a variable" where
  "variable_of nm shape init = \<lparr>v_name = nm, v_value = tabulate shape (init shape)\<rparr>"

definition strides4 :: "string \<Rightarrow> size2 \<Rightarrow> nat list" where
  "strides4 fmt a = layout fmt 1 1 (shape2d a ! 0) (shape2d a ! 1)"

definition dilations4 :: "'a environment \<Rightarrow> string \<Rightarrow> size2 \<Rightarrow> nat list" where
  "dilations4 env fmt a = (if 1.5 \<le> tf_version_number env then strides4 fmt a else [1, 1, 1, 1])"

text \<open>
  What the group branch of \<^verbatim>\<open>Conv2D\<close> needs beyond \<open>group_ok\<close> to return: a 4-D input, a
  padding TensorFlow knows, and a window that fits.
\<close>

definition group_accepts ::
  "'a environment \<Rightarrow> 'a tensor \<Rightarrow> size2 \<Rightarrow> size2 \<Rightarrow> string \<Rightarrow> size2 \<Rightarrow> string \<Rightarrow> bool" where
  "group_accepts env inputs kernel_size strides padding dilation_rate fmt \<longleftrightarrow>
     length (t_shape inputs) = 4 \<and> upper padding \<in> {''SAME'', ''VALID''} \<and>
     window_fits fmt (t_shape inputs) (shape2d kernel_size ! 0) (shape2d kernel_size ! 1)
       (strides4 fmt strides) (upper padding) (dilations4 env fmt dilation_rate)"

definition with_bias :: "bool \<Rightarrow> 'a::plus ndarray \<Rightarrow> string \<Rightarrow> 'a ndarray \<Rightarrow> 'a ndarray" where
  "with_bias use_bias bv fmt v = (if use_bias then bias_add v bv fmt else v)"

definition activated :: "'a activation option \<Rightarrow> 'a ndarray \<Rightarrow> 'a ndarray" where
  "activated activation v = (case activation of None \<Rightarrow> v | Some f \<Rightarrow> f v)"

text \<open>Python's \<^verbatim>\<open>a / b\<close> on two integers, as a real number, under the interpreter in use.\<close>

definition py_quotient :: "'a environment \<Rightarrow> nat \<Rightarrow> nat \<Rightarrow> real" where
  "py_quotient env a c = (if py3 env then real a / real c else real (a div c))"

text \<open>A computation that never ends in AssertionError.\<close>

definition no_assert :: "('s, 'r) py \<Rightarrow> bool" where
  "no_assert m \<longleftrightarrow> (\<forall>s. fst (m s) \<noteq> Inl AssertionError)"

text \<open>The name of the node a \<^verbatim>\<open>tf.layers\<close> convolution ends with.\<close>

definition layer_output_name :: "'a activation option \<Rightarrow> bool \<Rightarrow> string" where
  "layer_output_name activation use_bias =
     (case activation of
        Some _ \<Rightarrow> ''Activation''
      | None \<Rightarrow> if use_bias then ''BiasAdd'' else ''Conv2D'')"

section \<open>Example inputs\<close>

text \<open>
  Two environments (Python 2 with TensorFlow 1.4, Python 3 with TensorFlow 1.5), the empty
  graph, an initialiser that numbers the elements of a variable from one, the zero
  initialiser, and two integer-valued \<^verbatim>\<open>NHWC\<close> inputs with batch size unknown until run
  time: a \<open>2 \<times> 2\<close> image with four channels, and one whose height and width are unknown
  too.
\<close>

definition python2_tf14 :: "int environment" where
  "python2_tf14 =
     \<lparr>py3 = False, tf_version_number = 1.4, variance_scaling_initializer = (\<lambda>sh ix. 1)\<rparr>"

definition python3_tf15 :: "int environment" where
  "python3_tf15 =
     \<lparr>py3 = True, tf_version_number = 1.5, variance_scaling_initializer = (\<lambda>sh ix. 1)\<rparr>"

definition empty_graph :: "string graph" where
  "empty_graph = \<lparr>g_variables = [], g_nodes = [], g_losses = []\<rparr>"

definition counting :: "int initializer" where
  "counting sh ix = int (offset sh ix) + 1"

definition zeros :: "int initializer" where
  "zeros sh ix = 0"

definition image4 :: "int tensor" where
  "image4 =
     \<lparr>t_name = ''input'', t_shape = [None, Some 2, Some 2, Some 4],
      t_value = \<lparr>dims = [1, 2, 2, 4], data = map int [1..<17]\<rparr>,
      variables = None, info = None\<rparr>"

definition image_unknown :: "int tensor" where
  "image_unknown =
     \<lparr>t_name = ''input'', t_shape = [None, None, None, Some 4],
      t_value = \<lparr>dims = [1, 2, 2, 4], data = map int [1..<17]\<rparr>,
      variables = None, info = None\<rparr>"


text \<open>
  An \<^verbatim>\<open>NCHW\<close> input, four channels of \<open>2 \<times> 2\<close> pixels, and nearest-neighbour
  interpolation as the resize method.
\<close>

definition nchw4 :: "int tensor" where
  "nchw4 =
     \<lparr>t_name = ''input'', t_shape = [None, Some 4, Some 2, Some 2],
      t_value = \<lparr>dims = [1, 4, 2, 2], data = map int [1..<17]\<rparr>,
      variables = None, info = None\<rparr>"

definition nearest :: "(unit, int) interpolation" where
  "nearest method align_corners old new img y x =
     img (y * fst old div fst new) (x * snd old div snd new)"
text \<open>A property of every result a computation can return.\<close>

definition post :: "('s, 'r) py \<Rightarrow> ('r \<Rightarrow> bool) \<Rightarrow> bool" where
  "post m P \<longleftrightarrow> (\<forall>s r s'. m s = (Inr r, s') \<longrightarrow> P r)"

text \<open>
  A computation that never ends in AssertionError and only adds to the variables of the
  graph.
\<close>

definition extends :: "('r graph, 'x) py \<Rightarrow> bool" where
  "extends m \<longleftrightarrow>
     (\<forall>g. fst (m g) \<noteq> Inl AssertionError \<and>
          (\<exists>vs. g_variables (snd (m g)) = g_variables g @ vs))"

text \<open>A computation that leaves the variables of the graph as they are when it returns.\<close>

definition keeps :: "('r graph, 'x) py \<Rightarrow> bool" where
  "keeps m \<longleftrightarrow> (\<forall>g r g'. m g = (Inr r, g') \<longrightarrow> g_variables g' = g_variables g)"

text \<open>
  What a layer with variables leaves behind when it returns \<open>r\<close>, having taken the graph
  from \<open>g\<close> to \<open>g'\<close>: the tensor is named \<open>output\<close>; its \<open>variables\<close> attribute holds the
  variable \<open>W\<close> the layer made, under the name \<open>W\<close>, and the variable \<open>b\<close> it made, under the
  name \<open>b\<close>, exactly when \<open>use_bias\<close>; and these are the variables the graph has gained, in
  this order and with the dimensions of their values.
\<close>

definition holds_variables ::
  "'a tensor \<Rightarrow> 'r graph \<Rightarrow> 'r graph \<Rightarrow> bool \<Rightarrow> 'a variable \<Rightarrow> 'a variable \<Rightarrow> bool" where
  "holds_variables r g g' use_bias W b \<longleftrightarrow>
     t_name r = ''output'' \<and> v_name W = ''W'' \<and> v_name b = ''b'' \<and>
     variables r = Some \<lparr>var_W = W, var_b = (if use_bias then Some b else None)\<rparr> \<and>
     g_variables g' = g_variables g @ [(''W'', dims (v_value W))]
        @ (if use_bias then [(''b'', dims (v_value b))] else [])"
section \<open>The two computations of a grouped convolution\<close>

text \<open>
  The array \<^verbatim>\<open>GroupedConv2D\<close> computes without \<open>sum_paths\<close>: the depthwise convolution,
  reshaped to show the paths, the channels of a path and the channel multiplier, summed
  over the channels of a path, and reshaped to \<open>num_paths * path_ch_out\<close> channels.
  \<open>window_sum\<close> is the sum over one kernel window of one input channel, and
  \<open>out_height\<close>, \<open>out_width\<close> are the output sizes of a convolution without dilation.
\<close>

definition depthwise_grouped ::
  "'a::comm_semiring_0 ndarray \<Rightarrow> 'a ndarray \<Rightarrow> nat \<Rightarrow> nat list \<Rightarrow> string \<Rightarrow> string \<Rightarrow> 'a ndarray" where
  "depthwise_grouped x w num_paths strides padding fmt =
     (let dw = depthwise_conv2d x w strides padding fmt;
          n = batch_of (dims dw); h = height_of fmt (dims dw); wd = width_of fmt (dims dw);
          per_path = dims w ! 2 div num_paths; m = dims w ! 3
      in if fmt = ''NHWC''
         then reshape (reduce_axis (reshape dw [n, h, wd, num_paths, per_path, m]) 4)
                [n, h, wd, num_paths * m]
         else reshape (reduce_axis (reshape dw [n, num_paths, per_path, m, h, wd]) 2)
                [n, num_paths * m, h, wd])"

definition window_sum ::
  "'a::comm_semiring_0 ndarray \<Rightarrow> 'a ndarray \<Rightarrow> nat list \<Rightarrow> string \<Rightarrow> string
     \<Rightarrow> nat \<Rightarrow> nat \<Rightarrow> nat \<Rightarrow> nat \<Rightarrow> nat \<Rightarrow> 'a" where
  "window_sum x w strides padding fmt n c q h v =
     (\<Sum>di\<leftarrow>[0..<dims w ! 0]. \<Sum>dj\<leftarrow>[0..<dims w ! 1].
        padded x fmt n c
          (h * height_of fmt strides + di)
          (pad_before padding (height_of fmt (dims x)) (dims w ! 0) (height_of fmt strides) 1)
          (v * width_of fmt strides + dj)
          (pad_before padding (width_of fmt (dims x)) (dims w ! 1) (width_of fmt strides) 1)
        * elem w [di, dj, c, q])"

definition out_height :: "'a ndarray \<Rightarrow> 'a ndarray \<Rightarrow> nat list \<Rightarrow> string \<Rightarrow> string \<Rightarrow> nat" where
  "out_height x w strides padding fmt =
     out_size padding (height_of fmt (dims x)) (dims w ! 0) (height_of fmt strides) 1"

definition out_width :: "'a ndarray \<Rightarrow> 'a ndarray \<Rightarrow> nat list \<Rightarrow> string \<Rightarrow> string \<Rightarrow> nat" where
  "out_width x w strides padding fmt =
     out_size padding (width_of fmt (dims x)) (dims w ! 1) (width_of fmt strides) 1"

text \<open>
  The conditions under which \<^verbatim>\<open>GroupedConv2D\<close> builds its graph: a data format that
  \<^verbatim>\<open>get_data_format\<close> knows; a 4-D input whose channel count, height and width are known
  statically (the batch size \<open>b\<close> need not be) and are those of its run-time value; a
  positive number of paths that divides the channel count; at least one input channel
  and one output channel per path; a padding TensorFlow knows; positive strides; and an
  output that is not empty.
\<close>

definition grouped_ok ::
  "'a tensor \<Rightarrow> nat \<Rightarrow> nat \<Rightarrow> size2 \<Rightarrow> string \<Rightarrow> size2 \<Rightarrow> string \<Rightarrow> string
     \<Rightarrow> nat option \<Rightarrow> nat \<Rightarrow> nat \<Rightarrow> nat \<Rightarrow> nat \<Rightarrow> bool" where
  "grouped_ok x num_paths path_ch_out kernel_shape padding stride data_format fmt b n c h w \<longleftrightarrow>
     get_data_format data_format False = Inr fmt \<and>
     t_shape x = layout fmt b (Some c) (Some h) (Some w) \<and>
     dims (t_value x) = layout fmt n c h w \<and>
     0 < num_paths \<and> c mod num_paths = 0 \<and> 0 < c \<and> 0 < path_ch_out \<and>
     upper padding \<in> {''SAME'', ''VALID''} \<and>
     0 < shape2d stride ! 0 \<and> 0 < shape2d stride ! 1 \<and>
     0 < out_size (upper padding) h (shape2d kernel_shape ! 0) (shape2d stride ! 0) 1 \<and>
     0 < out_size (upper padding) w (shape2d kernel_shape ! 1) (shape2d stride ! 1) 1"

text \<open>The initialiser in use: the one given, or the default when none is given.\<close>

definition initializer_or :: "'a initializer option \<Rightarrow> 'a initializer \<Rightarrow> 'a initializer" where
  "initializer_or given fallback = (case given of None \<Rightarrow> fallback | Some i \<Rightarrow> i)"

text \<open>
  The steps of \<^verbatim>\<open>GroupedConv2D\<close> that follow the making of its variables \<open>W\<close> and \<open>b\<close>, as
  a computation of its own: the depthwise convolution, the two reshapes around the sum,
  the bias and the activation.
\<close>

definition grouped_tail ::
  "'a::comm_semiring_0 tensor \<Rightarrow> nat \<Rightarrow> nat \<Rightarrow> bool \<Rightarrow> string \<Rightarrow> 'a activation \<Rightarrow> string \<Rightarrow> nat
     \<Rightarrow> nat list \<Rightarrow> 'a variable \<Rightarrow> 'a variable option \<Rightarrow> ('r graph, 'a tensor) py" where
  "grouped_tail x num_paths path_ch_out sum_paths padding nl data_format ch_in stride W b =
     (let ch_dim = (if data_format = ''NHWC'' then 3 else 1);
          ch_in_per_path = ch_in div num_paths;
          ch_out = (if sum_paths then path_ch_out else num_paths * path_ch_out)
      in
     bind (tf_nn_depthwise_conv2d x (as_tensor W) stride padding data_format) (\<lambda>x.
     let out_shape = map (map_option int) (t_shape x);
         shape_depthwise = map (\<lambda>d. Some (int d)) [num_paths, ch_in_per_path, path_ch_out]
     in
     bind (if data_format = ''NHWC''
           then bind (lift (py_index out_shape 1)) (\<lambda>o1.
                bind (lift (py_index out_shape 2)) (\<lambda>o2.
                tf_reshape x ([Some (- 1), o1, o2] @ shape_depthwise)))
           else bind (lift (py_index out_shape 2)) (\<lambda>o2.
                bind (lift (py_index out_shape 3)) (\<lambda>o3.
                tf_reshape x ([Some (- 1)] @ shape_depthwise @ [o2, o3])))) (\<lambda>x.
     let sum_axis = (if sum_paths then [ch_dim, ch_dim + 1] else [ch_dim + 1]) in
     bind (tf_reduce_sum x sum_axis) (\<lambda>x.
     bind (if \<not> sum_paths
           then (if data_format = ''NHWC''
                 then bind (lift (py_index out_shape 1)) (\<lambda>o1.
                      bind (lift (py_index out_shape 2)) (\<lambda>o2.
                      tf_reshape x [Some (- 1), o1, o2, Some (int ch_out)]))
                 else bind (lift (py_index out_shape 2)) (\<lambda>o2.
                      bind (lift (py_index out_shape 3)) (\<lambda>o3.
                      tf_reshape x [Some (- 1), Some (int ch_out), o2, o3])))
           else ret x) (\<lambda>x.
     bind (case b of
             None \<Rightarrow> ret x
           | Some b \<Rightarrow> tf_nn_bias_add x (as_tensor b) data_format) (\<lambda>pre.
     bind (apply_op nl pre ''output'') (\<lambda>r.
     ret (r\<lparr>variables := Some \<lparr>var_W = W, var_b = b\<rparr>\<rparr>))))))))"
section \<open>Running the effects\<close>

lemma bind_ret [simp]: "bind (ret x) f = f x"
  by (simp add: bind_def ret_def)

lemma bind_raise [simp]: "bind (raise e) f = raise e"
  by (simp add: bind_def raise_def fun_eq_iff)

lemma bind_apply:
  "bind m f s = (case m s of (Inl e, s') \<Rightarrow> (Inl e, s') | (Inr x, s') \<Rightarrow> f x s')"
  by (simp add: bind_def)

lemma raise_apply [simp]: "raise e s = (Inl e, s)"
  by (simp add: raise_def)

lemma ret_apply [simp]: "ret x s = (Inr x, s)"
  by (simp add: ret_def)

lemma call_apply [simp]: "call e x tr = (Inr x, tr @ [e])"
  by (simp add: call_def)

lemma py_assert_True [simp]: "py_assert True = ret ()"
  by (simp add: py_assert_def)

lemma py_assert_False [simp]: "py_assert False = raise AssertionError"
  by (simp add: py_assert_def)

lemma lift_Inr [simp]: "lift (Inr x) = ret x"
  by (simp add: lift_def)

lemma lift_Inl [simp]: "lift (Inl e) = raise e"
  by (simp add: lift_def)

section \<open>Indexing arrays\<close>

lemma dims_tabulate [simp]: "dims (tabulate ds f) = ds"
  by (simp add: tabulate_def)

lemma length_data_tabulate [simp]: "length (data (tabulate ds f)) = prod_list ds"
  by (simp add: tabulate_def)

lemma well_shaped_tabulate [simp]: "well_shaped (tabulate ds f)"
  by (simp add: well_shaped_def)

lemma inside_Nil [simp]: "inside [] ix \<longleftrightarrow> ix = []"
  by (simp add: inside_def)


lemma inside_Cons_Cons [simp]: "inside (d # ds) (i # ix) \<longleftrightarrow> i < d \<and> inside ds ix"
  by (simp add: inside_def)

lemma inside_length: "inside ds ix \<Longrightarrow> length ix = length ds"
  by (simp add: inside_def list_all2_lengthD)

lemma inside_nth: "inside ds ix \<Longrightarrow> k < length ds \<Longrightarrow> ix ! k < ds ! k"
  by (simp add: inside_def list_all2_nthD2)








section \<open>Running the graph operations\<close>

lemma bind_InrE:
  assumes "bind m f s = (Inr r, s')"
  obtains x s1 where "m s = (Inr x, s1)" and "f x s1 = (Inr r, s')"
  using assms by (auto simp: bind_apply split: prod.splits sum.splits)

lemma lift_Inr_iff [simp]: "lift v s = (Inr x, s') \<longleftrightarrow> v = Inr x \<and> s' = s"
  by (cases v) auto

lemma py_assert_Inr_iff [simp]: "py_assert c s = (Inr u, s') \<longleftrightarrow> c \<and> s' = s"
  by (cases c) auto

lemma node_apply [simp]:
  "node op nm sh v g =
     (Inr \<lparr>t_name = nm, t_shape = sh, t_value = v, variables = None, info = None\<rparr>,
      g\<lparr>g_nodes := g_nodes g @ [op]\<rparr>)"
  by (simp add: node_def)

lemma tf_identity_apply [simp]:
  "tf_identity x nm g =
     (Inr \<lparr>t_name = nm, t_shape = t_shape x, t_value = t_value x, variables = None, info = None\<rparr>,
      g\<lparr>g_nodes := g_nodes g @ [''Identity'']\<rparr>)"
  by (simp add: tf_identity_def)

lemma apply_op_apply [simp]:
  "apply_op f x nm g =
     (Inr \<lparr>t_name = nm, t_shape = t_shape x, t_value = f (t_value x), variables = None, info = None\<rparr>,
      g\<lparr>g_nodes := g_nodes g @ [''Activation'']\<rparr>)"
  by (simp add: apply_op_def)

lemma tf_get_variable_Inr:
  assumes "tf_get_variable nm shape init g = (Inr v, g')"
  obtains ds where "as_shape shape = Inr ds" and "v = \<lparr>v_name = nm, v_value = tabulate ds (init ds)\<rparr>"
    and "g' = g\<lparr>g_variables := g_variables g @ [(nm, ds)]\<rparr>"
  using assms by (auto simp: tf_get_variable_def elim!: bind_InrE)



lemma add_loss_apply [simp]:
  "add_loss reg target g =
     (Inr (), g\<lparr>g_losses := g_losses g @ (case reg of None \<Rightarrow> [] | Some r \<Rightarrow> [(r, target)])\<rparr>)"
  by (simp add: add_loss_def split: option.splits)

lemma as_shape_ints [simp]: "as_shape (map (\<lambda>d. PyInt (int d)) ds) = Inr ds"
  by (induction ds) (simp_all add: as_dimension_def)

lemma as_shape_append:
  "as_shape (xs @ ys) =
     (case as_shape xs of Inl e \<Rightarrow> Inl e
      | Inr a \<Rightarrow> (case as_shape ys of Inl e \<Rightarrow> Inl e | Inr b \<Rightarrow> Inr (a @ b)))"
  by (induction xs) (auto split: sum.splits)

lemma as_dimension_int [simp]: "as_dimension (PyInt (int d)) = Inr d"
  by (simp add: as_dimension_def)

lemma tf_get_variable_apply:
  "tf_get_variable nm shape init g =
     (case as_shape shape of
        Inl e \<Rightarrow> (Inl e, g)
      | Inr ds \<Rightarrow> (Inr \<lparr>v_name = nm, v_value = tabulate ds (init ds)\<rparr>,
                   g\<lparr>g_variables := g_variables g @ [(nm, ds)]\<rparr>))"
  by (simp add: tf_get_variable_def bind_apply split: sum.splits)

lemma tf_nn_bias_add_apply [simp]:
  "tf_nn_bias_add x bias fmt g =
     (Inr \<lparr>t_name = ''BiasAdd'', t_shape = t_shape x,
           t_value = bias_add (t_value x) (t_value bias) fmt, variables = None, info = None\<rparr>,
      g\<lparr>g_nodes := g_nodes g @ [''BiasAdd'']\<rparr>)"
  by (simp add: tf_nn_bias_add_def)

lemma bias_variable_apply:
  "(if use_bias
    then bind (tf_get_variable nm [PyInt (int d)] init) (\<lambda>bias.
         bind (add_loss reg (v_name bias)) (\<lambda>_. ret (Some bias)))
    else ret None) g =
   (Inr (if use_bias then Some \<lparr>v_name = nm, v_value = tabulate [d] (init [d])\<rparr> else None),
    g\<lparr>g_variables := g_variables g @ (if use_bias then [(nm, [d])] else []),
      g_losses := g_losses g @ (if use_bias then (case reg of None \<Rightarrow> [] | Some r \<Rightarrow> [(r, nm)]) else [])\<rparr>)"
  by (simp add: bind_apply tf_get_variable_apply)

lemma bias_node_apply:
  "(case bias of None \<Rightarrow> ret outputs | Some b \<Rightarrow> tf_nn_bias_add outputs (as_tensor b) fmt) g =
   (Inr (case bias of None \<Rightarrow> outputs
         | Some b \<Rightarrow> \<lparr>t_name = ''BiasAdd'', t_shape = t_shape outputs,
              t_value = bias_add (t_value outputs) (v_value b) fmt, variables = None, info = None\<rparr>),
    g\<lparr>g_nodes := g_nodes g @ (case bias of None \<Rightarrow> [] | Some _ \<Rightarrow> [''BiasAdd''])\<rparr>)"
  by (simp add: as_tensor_def split: option.splits)

lemma activation_node_apply:
  "(case activation of None \<Rightarrow> ret outputs | Some f \<Rightarrow> apply_op f outputs nm) g =
   (Inr (case activation of None \<Rightarrow> outputs
         | Some f \<Rightarrow> \<lparr>t_name = nm, t_shape = t_shape outputs,
              t_value = f (t_value outputs), variables = None, info = None\<rparr>),
    g\<lparr>g_nodes := g_nodes g @ (case activation of None \<Rightarrow> [] | Some _ \<Rightarrow> [''Activation''])\<rparr>)"
  by (simp split: option.splits)


lemma tf_nn_conv2d_apply:
  "tf_nn_conv2d x k strides padding dilations fmt g =
     (let dil = (case dilations of None \<Rightarrow> [1, 1, 1, 1] | Some d \<Rightarrow> d);
          kd = dims (t_value k)
      in if length (t_shape x) \<noteq> 4 \<or> length kd \<noteq> 4 \<or> length strides \<noteq> 4 \<or> length dil \<noteq> 4
            \<or> padding \<notin> {''SAME'', ''VALID''}
            \<or> \<not> window_fits fmt (t_shape x) (kd ! 0) (kd ! 1) strides padding dil
         then (Inl ValueError, g)
         else (Inr \<lparr>t_name = ''Conv2D'',
                t_shape = conv_shape fmt (t_shape x) (kd ! 3) (kd ! 0) (kd ! 1) strides padding dil,
                t_value = conv2d (t_value x) (t_value k) strides padding dil fmt,
                variables = None, info = None\<rparr>, g\<lparr>g_nodes := g_nodes g @ [''Conv2D'']\<rparr>))"
  by (simp add: tf_nn_conv2d_def Let_def)

lemma length_shape2d [simp]: "length (shape2d a) = 2"
  by (cases a) (simp_all add: shape2d_def)

lemma length_layout [simp]: "length (layout fmt n c h w) = 4"
  by (simp add: layout_def)

lemma layout_readers [simp]:
  "height_of fmt (layout fmt n c h w) = h" "width_of fmt (layout fmt n c h w) = w"
  "chan_of fmt (layout fmt n c h w) = c" "batch_of (layout fmt n c h w) = n"
  by (simp_all add: height_of_def width_of_def chan_of_def batch_of_def layout_def)

lemma layer_accepts_ok:
  "layer_accepts data_format padding kernel_size strides dilation_rate inputs \<Longrightarrow>
   layer_ok data_format padding inputs"
  by (simp add: layer_accepts_def)

lemma tf_layers_Conv2D_accepts:
  assumes "tf_layers_Conv2D mapping filters kernel_size strides padding data_format dilation_rate
     activation use_bias kernel_initializer bias_initializer kernel_regularizer
     bias_regularizer activity_regularizer inputs g = (Inr res, g')"
  shows "layer_accepts data_format padding kernel_size strides dilation_rate inputs"
  using assms
  by (simp add: tf_layers_Conv2D_def layer_accepts_def layer_ok_def bind_apply bias_variable_apply
      bias_node_apply activation_node_apply as_tensor_def tf_get_variable_apply as_shape_append
      tf_nn_conv2d_apply raise_apply Let_def nth_append split: if_split_asm option.split_asm)

lemma tf_layers_Conv2D_closed:
  assumes acc: "layer_accepts data_format padding kernel_size strides dilation_rate inputs"
    and c: "chan_of (tf_format data_format) (t_shape inputs) = Some c"
  shows "tf_layers_Conv2D mapping filters kernel_size strides padding data_format dilation_rate
     activation use_bias kernel_initializer bias_initializer kernel_regularizer
     bias_regularizer activity_regularizer inputs g =
     bind (tf_get_variable (renamed mapping ''kernel'')
             (map (\<lambda>d. PyInt (int d)) (shape2d kernel_size @ [c, filters]))
             kernel_initializer) (\<lambda>kernel.
     bind (add_loss kernel_regularizer (v_name kernel)) (\<lambda>_.
     bind (if use_bias
           then bind (tf_get_variable (renamed mapping ''bias'') [PyInt (int filters)]
                        bias_initializer) (\<lambda>bias.
                bind (add_loss bias_regularizer (v_name bias)) (\<lambda>_. ret (Some bias)))
           else ret None) (\<lambda>bias.
     bind (tf_nn_conv2d inputs (as_tensor kernel)
             (layout (tf_format data_format) 1 1 (shape2d strides ! 0) (shape2d strides ! 1))
             (upper padding)
             (Some (layout (tf_format data_format) 1 1
                      (shape2d dilation_rate ! 0) (shape2d dilation_rate ! 1)))
             (tf_format data_format)) (\<lambda>outputs.
     bind (case bias of
             None \<Rightarrow> ret outputs
           | Some bias \<Rightarrow> tf_nn_bias_add outputs (as_tensor bias) (tf_format data_format))
       (\<lambda>outputs.
     bind (case activation of
             None \<Rightarrow> ret outputs
           | Some f \<Rightarrow> apply_op f outputs ''Activation'') (\<lambda>outputs.
     bind (add_loss activity_regularizer (t_name outputs)) (\<lambda>_.
     ret (outputs, kernel, bias)))))))) g"
proof -
  have 1: "\<not> (data_format \<notin> {''channels_last'', ''channels_first''}
         \<or> upper padding \<notin> {''SAME'', ''VALID''}
         \<or> shape2d strides ! 0 = 0 \<or> shape2d strides ! 1 = 0)"
    using acc by (auto simp: layer_accepts_def layer_ok_def window_fits_def)
  have 2: "\<not> length (t_shape inputs) \<noteq> 4"
    using acc by (simp add: layer_accepts_def layer_ok_def)
  have 3: "\<not> ((1 < shape2d strides ! 0 \<or> 1 < shape2d strides ! 1)
        \<and> (1 < shape2d dilation_rate ! 0 \<or> 1 < shape2d dilation_rate ! 1))"
    using acc by (simp add: layer_accepts_def)
  show ?thesis
    unfolding tf_layers_Conv2D_def
    by (simp only: 1 2 3 c if_False option.case)
qed

lemma tf_layers_Conv2D_Inr:
  assumes "tf_layers_Conv2D mapping filters kernel_size strides padding data_format dilation_rate
     activation use_bias kernel_initializer bias_initializer kernel_regularizer
     bias_regularizer activity_regularizer inputs g = (Inr (outputs, kern, bias), g')"
  shows "layer_ok data_format padding inputs"
    and "kern = \<lparr>v_name = renamed mapping ''kernel'',
                 v_value = tabulate (shape2d kernel_size @ [the (chan_of (tf_format data_format) (t_shape inputs)), filters])
                   (kernel_initializer (shape2d kernel_size @ [the (chan_of (tf_format data_format) (t_shape inputs)), filters]))\<rparr>"
    and "bias = (if use_bias then Some \<lparr>v_name = renamed mapping ''bias'',
                   v_value = tabulate [filters] (bias_initializer [filters])\<rparr> else None)"
    and "g_losses g' = g_losses g
       @ (case kernel_regularizer of None \<Rightarrow> [] | Some k \<Rightarrow> [(k, renamed mapping ''kernel'')])
       @ (if use_bias then (case bias_regularizer of None \<Rightarrow> []
          | Some k \<Rightarrow> [(k, renamed mapping ''bias'')]) else [])
       @ (case activity_regularizer of None \<Rightarrow> [] | Some k \<Rightarrow> [(k, t_name outputs)])"
    and "t_name outputs = layer_output_name activation use_bias"
    and "g_variables g' = g_variables g
       @ [(renamed mapping ''kernel'',
           shape2d kernel_size @ [the (chan_of (tf_format data_format) (t_shape inputs)), filters])]
       @ (if use_bias then [(renamed mapping ''bias'', [filters])] else [])"
    and "layer_accepts data_format padding kernel_size strides dilation_rate inputs"
proof -
  have acc: "layer_accepts data_format padding kernel_size strides dilation_rate inputs"
    by (rule tf_layers_Conv2D_accepts [OF assms])
  then have ok: "layer_ok data_format padding inputs"
    by (rule layer_accepts_ok)
  then obtain c where c: "chan_of (tf_format data_format) (t_shape inputs) = Some c"
    by (auto simp: layer_ok_def)
  have run: "(Inr (outputs, kern, bias), g') = tf_layers_Conv2D mapping filters kernel_size strides padding data_format dilation_rate
     activation use_bias kernel_initializer bias_initializer kernel_regularizer
     bias_regularizer activity_regularizer inputs g"
    using assms by simp
  note run' = run [unfolded tf_layers_Conv2D_closed [OF acc c]]
  show "layer_ok data_format padding inputs"
    by (rule ok)
  show "layer_accepts data_format padding kernel_size strides dilation_rate inputs"
    by (rule acc)
  show "kern = \<lparr>v_name = renamed mapping ''kernel'',
                 v_value = tabulate (shape2d kernel_size @ [the (chan_of (tf_format data_format) (t_shape inputs)), filters])
                   (kernel_initializer (shape2d kernel_size @ [the (chan_of (tf_format data_format) (t_shape inputs)), filters]))\<rparr>"
    using c run'
    by (simp add: bind_apply bias_variable_apply
        bias_node_apply activation_node_apply as_tensor_def tf_get_variable_apply as_shape_append
        tf_nn_conv2d_apply Let_def split: if_split_asm)
  show "bias = (if use_bias then Some \<lparr>v_name = renamed mapping ''bias'',
                   v_value = tabulate [filters] (bias_initializer [filters])\<rparr> else None)"
    using c run'
    by (simp add: bind_apply bias_variable_apply
        bias_node_apply activation_node_apply as_tensor_def tf_get_variable_apply as_shape_append
        tf_nn_conv2d_apply Let_def split: if_split_asm)
  show "g_losses g' = g_losses g
       @ (case kernel_regularizer of None \<Rightarrow> [] | Some k \<Rightarrow> [(k, renamed mapping ''kernel'')])
       @ (if use_bias then (case bias_regularizer of None \<Rightarrow> []
          | Some k \<Rightarrow> [(k, renamed mapping ''bias'')]) else [])
       @ (case activity_regularizer of None \<Rightarrow> [] | Some k \<Rightarrow> [(k, t_name outputs)])"
    using c run'
    by (auto simp: bind_apply bias_variable_apply
        bias_node_apply activation_node_apply as_tensor_def tf_get_variable_apply as_shape_append
        tf_nn_conv2d_apply Let_def split: option.splits if_split_asm)
  show "t_name outputs = layer_output_name activation use_bias"
    using c run'
    by (auto simp: bind_apply bias_variable_apply
        bias_node_apply activation_node_apply as_tensor_def tf_get_variable_apply as_shape_append
        tf_nn_conv2d_apply Let_def layer_output_name_def split: option.splits if_split_asm)
  show "g_variables g' = g_variables g
       @ [(renamed mapping ''kernel'',
           shape2d kernel_size @ [the (chan_of (tf_format data_format) (t_shape inputs)), filters])]
       @ (if use_bias then [(renamed mapping ''bias'', [filters])] else [])"
    using c run'
    by (auto simp: bind_apply bias_variable_apply
        bias_node_apply activation_node_apply as_tensor_def tf_get_variable_apply as_shape_append
        tf_nn_conv2d_apply Let_def split: option.splits if_split_asm)
qed


lemma lift_apply:
  "lift v g = (case v of Inl e \<Rightarrow> (Inl e, g) | Inr x \<Rightarrow> (Inr x, g))"
  by (simp split: sum.splits)

lemma py_assert_apply:
  "py_assert c g = (if c then (Inr (), g) else (Inl AssertionError, g))"
  by simp

lemma tf_split_apply:
  "tf_split x num axis g =
     (if \<not> norm_axis (length (t_shape x)) axis < length (t_shape x) \<or> num = 0
         \<or> (case t_shape x ! norm_axis (length (t_shape x)) axis of
               None \<Rightarrow> False | Some d \<Rightarrow> d mod num \<noteq> 0)
      then (Inl ValueError, g)
      else (Inr (map (split_node x num (norm_axis (length (t_shape x)) axis)) [0..<num]),
            g\<lparr>g_nodes := g_nodes g @ [''Split'']\<rparr>))"
  by (simp add: tf_split_def Let_def split_node_def)

lemma tf_nn_conv2d_pair:
  "tf_nn_conv2d (fst z) (snd z) strides padding dilations fmt g =
     (if conv_ok strides padding dilations fmt z
      then (Inr (conv_node strides padding dilations fmt z), g\<lparr>g_nodes := g_nodes g @ [''Conv2D'']\<rparr>)
      else (Inl ValueError, g))"
  by (auto simp: tf_nn_conv2d_def conv_ok_def conv_node_def Let_def)

lemma for_each_conv:
  "for_each (\<lambda>(i, k). tf_nn_conv2d i k strides padding dilations fmt) zs g =
     (if list_all (conv_ok strides padding dilations fmt) zs
      then (Inr (map (conv_node strides padding dilations fmt) zs),
            g\<lparr>g_nodes := g_nodes g @ replicate (length zs) ''Conv2D''\<rparr>)
      else (Inl ValueError,
            g\<lparr>g_nodes := g_nodes g
               @ replicate (length (takeWhile (conv_ok strides padding dilations fmt) zs)) ''Conv2D''\<rparr>))"
proof (induction zs arbitrary: g)
  case Nil
  then show ?case by simp
next
  case (Cons z zs)
  have step: "(case z of (i, k) \<Rightarrow> tf_nn_conv2d i k strides padding dilations fmt) g =
      tf_nn_conv2d (fst z) (snd z) strides padding dilations fmt g"
    by (cases z) simp
  show ?case
    by (simp add: bind_apply step tf_nn_conv2d_pair Cons.IH replicate_app_Cons_same)
qed

lemma tf_concat_apply:
  "tf_concat xs axis g =
     (case xs of
        [] \<Rightarrow> (Inl ValueError, g)
      | x # _ \<Rightarrow>
          if \<not> norm_axis (length (t_shape x)) axis < length (t_shape x) then (Inl ValueError, g)
          else (Inr \<lparr>t_name = ''concat'',
                 t_shape = (t_shape x)[norm_axis (length (t_shape x)) axis :=
                    sum_options (map (\<lambda>t. t_shape t ! norm_axis (length (t_shape x)) axis) xs)],
                 t_value = concat_arrays (map t_value xs) (norm_axis (length (t_shape x)) axis),
                 variables = None, info = None\<rparr>,
                g\<lparr>g_nodes := g_nodes g @ [''ConcatV2'']\<rparr>))"
  by (simp add: tf_concat_def Let_def split: list.splits)


lemma get_data_format_False:
  "get_data_format data_format False = Inr fmt \<Longrightarrow> fmt = ''NHWC'' \<or> fmt = ''NCHW''"
  by (auto simp: get_data_format_def Let_def split: if_splits)

lemma shape4d_layout:
  "fmt = ''NHWC'' \<or> fmt = ''NCHW'' \<Longrightarrow>
     shape4d a fmt = Inr (layout fmt 1 1 (shape2d a ! 0) (shape2d a ! 1))"
  by (cases a) (auto simp: shape4d_def get_data_format_def layout_def shape2d_def)

lemma as_dimension_quotient:
  assumes "split \<noteq> 0" and "c mod split = 0"
  shows "\<exists>q. py_div env (PyInt (int c)) split = Inr q \<and> as_dimension q = Inr (c div split)"
proof (cases "py3 env")
  case True
  have dvd: "split dvd c"
    using assms by auto
  have "real c / real split = real (c div split)"
    using dvd by (simp add: real_of_nat_div)
  then show ?thesis
    using True assms by (simp add: py_div_def as_dimension_def)
next
  case False
  have "int c div int split = int (c div split)"
    by (simp add: zdiv_int)
  then show ?thesis
    using False assms by (simp add: py_div_def as_dimension_def)
qed


subsection \<open>Computations without assertions\<close>

lemma no_assert_ret [simp]: "no_assert (ret x)"
  by (simp add: no_assert_def)

lemma no_assert_raise [simp]: "no_assert (raise e) \<longleftrightarrow> e \<noteq> AssertionError"
  by (simp add: no_assert_def)

lemma no_assert_bind: "no_assert m \<Longrightarrow> (\<And>x. no_assert (f x)) \<Longrightarrow> no_assert (bind m f)"
  by (auto simp: no_assert_def bind_apply split: prod.splits sum.splits) (metis fst_conv)+

lemma no_assert_lift: "v \<noteq> Inl AssertionError \<Longrightarrow> no_assert (lift v)"
  by (cases v) auto

lemma no_assert_node [simp]: "no_assert (node op nm sh v)"
  by (simp add: no_assert_def)

lemma no_assert_tf_identity [simp]: "no_assert (tf_identity x nm)"
  by (simp add: no_assert_def)

lemma no_assert_apply_op [simp]: "no_assert (apply_op f x nm)"
  by (simp add: no_assert_def)

lemma no_assert_add_loss [simp]: "no_assert (add_loss reg nm)"
  by (simp add: no_assert_def)

lemma no_assert_bias_add [simp]: "no_assert (tf_nn_bias_add x b fmt)"
  by (simp add: no_assert_def)

lemma as_shape_no_assert: "as_shape vs \<noteq> Inl AssertionError"
  by (induction vs) (auto simp: as_dimension_def split: sum.splits pynum.splits if_splits)

lemma no_assert_get_variable [simp]: "no_assert (tf_get_variable nm shape init)"
  using as_shape_no_assert [of shape]
  by (auto simp: no_assert_def tf_get_variable_apply split: sum.splits)

lemma no_assert_conv2d [simp]: "no_assert (tf_nn_conv2d x k strides padding dilations fmt)"
  by (simp add: no_assert_def tf_nn_conv2d_apply Let_def)

lemma py_no_assert [simp]:
  "py_index xs i \<noteq> Inl AssertionError"
  "py_mul u v \<noteq> Inl AssertionError" "py_div env q n \<noteq> Inl AssertionError"
  by (auto simp: py_index_def py_mul_def py_div_def Let_def
      split: option.splits sum.splits if_splits)

lemma no_assert_layer:
  "no_assert (tf_layers_Conv2D mapping filters kernel_size strides padding data_format
     dilation_rate activation use_bias kernel_initializer bias_initializer kernel_regularizer
     bias_regularizer activity_regularizer inputs)"
  unfolding tf_layers_Conv2D_def
  by (auto intro!: no_assert_bind split: option.splits)

section \<open>The grouped branch of \<open>Conv2D\<close>\<close>

lemma Conv2D_group_Inr:
  assumes "Conv2D env inputs filters kernel_size strides padding data_format dilation_rate
     activation use_bias kernel_initializer bias_initializer kernel_regularizer bias_regularizer
     activity_regularizer split g = (Inr r, g')" and "split \<noteq> 1"
  shows "\<exists>fmt c. group_ok env inputs filters data_format dilation_rate kernel_regularizer
     bias_regularizer activity_regularizer split fmt c"
  using assms
  by (auto simp: Conv2D_def group_ok_def bind_apply lift_apply py_assert_apply py_mod_def Let_def
      split: sum.split_asm option.split_asm if_split_asm)


lemma py_index_4:
  "length xs = 4 \<Longrightarrow> py_index xs (- 1) = Inr (xs ! 3) \<and> py_index xs 1 = Inr (xs ! 1)
     \<and> py_index xs 2 = Inr (xs ! 2) \<and> py_index xs 3 = Inr (xs ! 3)"
  by (simp add: py_index_def)

lemma norm_axis_4 [simp]: "norm_axis 4 (- 1) = 3" "norm_axis 4 1 = 1" "norm_axis 4 3 = 3"
  by (simp_all add: norm_axis_def)

lemma split_node_simps [simp]:
  "t_value (split_node x num ax p) = split_part (t_value x) num ax p"
  "length (t_shape (split_node x num ax p)) = length (t_shape x)"
  "variables (split_node x num ax p) = None"
  by (simp_all add: split_node_def)

lemma dims_split_part [simp]:
  "dims (split_part x num ax p) = (dims x)[ax := dims x ! ax div num]"
  by (simp add: split_part_def Let_def)

lemma conv_node_simps [simp]:
  "t_value (conv_node strides padding dilations fmt z) =
     conv2d (t_value (fst z)) (t_value (snd z)) strides padding
       (case dilations of None \<Rightarrow> [1, 1, 1, 1] | Some d \<Rightarrow> d) fmt"
  "length (t_shape (conv_node strides padding dilations fmt z)) = 4"
  by (simp_all add: conv_node_def Let_def conv_shape_def)

lemma tf_concat_hd:
  "tf_concat xs axis g =
     (if xs = [] \<or> \<not> norm_axis (length (t_shape (hd xs))) axis < length (t_shape (hd xs))
      then (Inl ValueError, g)
      else (Inr \<lparr>t_name = ''concat'',
             t_shape = (t_shape (hd xs))[norm_axis (length (t_shape (hd xs))) axis :=
                sum_options (map (\<lambda>t. t_shape t ! norm_axis (length (t_shape (hd xs))) axis) xs)],
             t_value = concat_arrays (map t_value xs) (norm_axis (length (t_shape (hd xs))) axis),
             variables = None, info = None\<rparr>,
            g\<lparr>g_nodes := g_nodes g @ [''ConcatV2'']\<rparr>))"
  by (cases xs) (simp_all add: tf_concat_apply)

lemma window_fits_split:
  assumes "ax \<noteq> (if fmt = ''NHWC'' then 1 else 2)" and "ax \<noteq> (if fmt = ''NHWC'' then 2 else 3)"
  shows "window_fits fmt (t_shape (split_node x n ax p)) kh kw strides padding dil
     = window_fits fmt (t_shape x) kh kw strides padding dil"
  using assms by (simp add: window_fits_def split_node_def height_of_def width_of_def)

lemma conv_ok_split:
  assumes "length (t_shape x) = 4" and "length (dims (t_value k)) = 4" and "length strides = 4"
    and "length (case dilations of None \<Rightarrow> [1, 1, 1, 1] | Some d \<Rightarrow> d) = 4"
    and "padding \<in> {''SAME'', ''VALID''}"
    and "window_fits fmt (t_shape x) (dims (t_value k) ! 0) (dims (t_value k) ! 1) strides padding
           (case dilations of None \<Rightarrow> [1, 1, 1, 1] | Some d \<Rightarrow> d)"
    and "ax \<noteq> (if fmt = ''NHWC'' then 1 else 2)" and "ax \<noteq> (if fmt = ''NHWC'' then 2 else 3)"
  shows "list_all (conv_ok strides padding dilations fmt)
      (zip (map (split_node x n ax) ps) (map (split_node k n 3) ps))"
  using assms(1-6)
  by (auto simp: list_all_iff conv_ok_def zip_map_map window_fits_split [OF assms(7,8)])

lemma conv_nodes_split:
  "map (conv_node strides padding dilations fmt)
      (zip (map (split_node x n ax) ps) (map (split_node k n kax) ps)) =
   map (\<lambda>p. conv_node strides padding dilations fmt (split_node x n ax p, split_node k n kax p)) ps"
  by (simp add: zip_map_map zip_same_conv_map)

lemma length_strides4 [simp]: "length (strides4 fmt a) = 4"
  by (simp add: strides4_def)

lemma Conv2D_group_run:
  fixes env :: "'a::comm_semiring_0 environment" and g :: "'r graph"
  assumes ok: "group_ok env inputs filters data_format dilation_rate kernel_regularizer
     bias_regularizer activity_regularizer split fmt c"
    and split: "split \<noteq> 1"
    and good: "group_accepts env inputs kernel_size strides padding dilation_rate fmt"
  shows "\<exists>r g'. Conv2D env inputs filters kernel_size strides padding data_format dilation_rate
     activation use_bias kernel_initializer bias_initializer kernel_regularizer bias_regularizer
     activity_regularizer split g = (Inr r, g') \<and>
     t_name r = ''output'' \<and> info r = None \<and>
     variables r = Some
       \<lparr>var_W = variable_of ''W'' (shape2d kernel_size @ [c div split, filters]) kernel_initializer,
        var_b = (if use_bias then Some (variable_of ''b'' [filters] bias_initializer) else None)\<rparr> \<and>
     t_value r = activated activation
       (with_bias use_bias (v_value (variable_of ''b'' [filters] bias_initializer)) fmt
          (grouped_convolution (t_value inputs)
             (v_value (variable_of ''W'' (shape2d kernel_size @ [c div split, filters])
                kernel_initializer))
             split 3 (strides4 fmt strides) (upper padding) (dilations4 env fmt dilation_rate) fmt)) \<and>
     g_variables g' = g_variables g @ [(''W'', shape2d kernel_size @ [c div split, filters])]
        @ (if use_bias then [(''b'', [filters])] else []) \<and>
     g_nodes g' = g_nodes g @ [''Split'', ''Split''] @ replicate split ''Conv2D'' @ [''ConcatV2'']
        @ (if use_bias then [''BiasAdd''] else [])
        @ [case activation of None \<Rightarrow> ''Identity'' | Some _ \<Rightarrow> ''Activation''] \<and>
     g_losses g' = g_losses g"
proof -
  let ?axis = "if fmt = ''NHWC'' then - 1 else 1 :: int"
  have fmt: "fmt = ''NHWC'' \<or> fmt = ''NCHW''"
    using ok by (auto simp: group_ok_def dest: get_data_format_False)
  have rank: "length (t_shape inputs) = 4" and pad: "upper padding \<in> {''SAME'', ''VALID''}"
    using good by (simp_all add: group_accepts_def)
  have fits: "1.5 \<le> tf_version_number env \<Longrightarrow> window_fits fmt (t_shape inputs)
      ((shape2d kernel_size @ [c div split, filters]) ! 0)
      ((shape2d kernel_size @ [c div split, filters]) ! 1)
      (strides4 fmt strides) (upper padding) (strides4 fmt dilation_rate)"
    "\<not> 1.5 \<le> tf_version_number env \<Longrightarrow> window_fits fmt (t_shape inputs)
      ((shape2d kernel_size @ [c div split, filters]) ! 0)
      ((shape2d kernel_size @ [c div split, filters]) ! 1)
      (strides4 fmt strides) (upper padding) [1, 1, 1, 1]"
    using good by (simp_all add: group_accepts_def nth_append dilations4_def)
  have pos: "split \<noteq> 0" and dvd: "c mod split = 0" "filters mod split = 0"
    using ok by (simp_all add: group_ok_def)
  obtain q where q: "py_div env (PyInt (int c)) split = Inr q" "as_dimension q = Inr (c div split)"
    using as_dimension_quotient [of split c env] pos dvd by auto
  have ch: "t_shape inputs ! chan_axis fmt = Some c"
    using ok rank fmt by (auto simp: group_ok_def chan_axis_def py_index_4)
  have gfmt: "get_data_format data_format False = Inr fmt"
    using ok by (simp add: group_ok_def)
  have idx: "py_index (t_shape inputs) ?axis = Inr (Some c)"
    using ok by (simp add: group_ok_def)
  have regs: "kernel_regularizer = None" "bias_regularizer = None" "activity_regularizer = None"
    using ok by (simp_all add: group_ok_def)
  have dilok: "dilation_rate = Pair 1 1 \<or> 1.5 \<le> tf_version_number env"
    using ok by (simp add: group_ok_def)
  have s4d: "shape4d strides fmt = Inr (strides4 fmt strides)"
    "shape4d dilation_rate fmt = Inr (strides4 fmt dilation_rate)"
    using shape4d_layout [OF fmt] by (simp_all add: strides4_def)
  have wsome: "(map Some (shape2d kernel_size) @ [Some (c div split), Some filters]) ! 3 = Some filters"
    by (simp add: nth_append)
  have wlen: "(shape2d kernel_size @ [c div split, filters]) ! 3 = filters"
    by (simp add: nth_append)
  from fmt show ?thesis
  proof
    assume f: "fmt = ''NHWC''"
    have ch3: "t_shape inputs ! 3 = Some c"
      using ch f by (simp add: chan_axis_def)
    have idx3: "py_index (t_shape inputs) (- 1) = Inr (Some c)"
      using idx f by simp
    show ?thesis
      using split rank pad ch3 dvd pos dilok wsome wlen fits
      apply (simp add: Conv2D_def bind_apply gfmt f idx3 regs py_mod_def q Let_def
          s4d [unfolded f] tf_get_variable_apply as_shape_append)
      apply (simp add: bind_apply tf_split_apply variable_of_def as_tensor_def)
      apply (simp add: bind_apply for_each_conv conv_ok_split conv_nodes_split)
      apply (simp add: bind_apply tf_concat_hd hd_map)
      apply (simp add: activated_def with_bias_def grouped_convolution_def chan_axis_def
          dilations4_def comp_def split: option.splits)
      done
  next
    assume f: "fmt = ''NCHW''"
    have ch1: "t_shape inputs ! 1 = Some c"
      using ch f by (simp add: chan_axis_def)
    have idx1: "py_index (t_shape inputs) 1 = Inr (Some c)"
      using idx f by simp
    show ?thesis
      using split rank pad ch1 dvd pos dilok wsome wlen fits
      apply (simp add: Conv2D_def bind_apply gfmt f idx1 regs py_mod_def q Let_def
          s4d [unfolded f] tf_get_variable_apply as_shape_append)
      apply (simp add: bind_apply tf_split_apply variable_of_def as_tensor_def)
      apply (simp add: bind_apply for_each_conv conv_ok_split conv_nodes_split)
      apply (simp add: bind_apply tf_concat_hd hd_map)
      apply (simp add: activated_def with_bias_def grouped_convolution_def chan_axis_def
          dilations4_def comp_def split: option.splits)
      done
  qed
qed

lemma py_index_last:
  assumes "py_index xs (- 1) = Inr v"
  shows "xs \<noteq> [] \<and> norm_axis (length xs) (- 1) = length xs - 1 \<and> xs ! (length xs - 1) = v"
  using assms
  by (auto simp: py_index_def norm_axis_def Let_def nat_diff_distrib' split: if_splits)

lemma py_index_second:
  assumes "py_index xs 1 = Inr v"
  shows "1 < length xs \<and> norm_axis (length xs) 1 = 1 \<and> xs ! 1 = v"
  using assms by (auto simp: py_index_def norm_axis_def Let_def split: if_splits)

lemma conv_bad_split:
  assumes "\<not> (length (t_shape x) = 4 \<and> padding \<in> {''SAME'', ''VALID''} \<and>
       window_fits fmt (t_shape x) (dims (t_value k) ! 0) (dims (t_value k) ! 1) strides padding
         (case dilations of None \<Rightarrow> [1, 1, 1, 1] | Some d \<Rightarrow> d))"
    and "ps \<noteq> []"
    and "length (t_shape x) = 4 \<longrightarrow>
       ax \<noteq> (if fmt = ''NHWC'' then 1 else 2) \<and> ax \<noteq> (if fmt = ''NHWC'' then 2 else 3)"
  shows "\<not> list_all (conv_ok strides padding dilations fmt)
      (zip (map (split_node x n ax) ps) (map (split_node k n 3) ps))"
proof -
  obtain p ps' where ps: "ps = p # ps'"
    using assms(2) by (cases ps) auto
  show ?thesis
  proof (cases "length (t_shape x) = 4")
    case True
    then have ax: "ax \<noteq> (if fmt = ''NHWC'' then 1 else 2)" "ax \<noteq> (if fmt = ''NHWC'' then 2 else 3)"
      using assms(3) by simp_all
    show ?thesis
      using assms(1) by (auto simp: ps conv_ok_def window_fits_split [OF ax])
  next
    case False
    then show ?thesis
      by (simp add: ps conv_ok_def)
  qed
qed

lemma Conv2D_group_bad:
  fixes env :: "'a::comm_semiring_0 environment" and g :: "'r graph"
  assumes ok: "group_ok env inputs filters data_format dilation_rate kernel_regularizer
     bias_regularizer activity_regularizer split fmt c"
    and split: "split \<noteq> 1"
    and bad: "\<not> group_accepts env inputs kernel_size strides padding dilation_rate fmt"
  shows "\<exists>g'. Conv2D env inputs filters kernel_size strides padding data_format dilation_rate
     activation use_bias kernel_initializer bias_initializer kernel_regularizer bias_regularizer
     activity_regularizer split g = (Inl ValueError, g') \<and>
     g_variables g' = g_variables g @ [(''W'', shape2d kernel_size @ [c div split, filters])]
        @ (if use_bias then [(''b'', [filters])] else [])"
proof -
  have fmt: "fmt = ''NHWC'' \<or> fmt = ''NCHW''"
    using ok by (auto simp: group_ok_def dest: get_data_format_False)
  have pos: "split \<noteq> 0" and dvd: "c mod split = 0" "filters mod split = 0"
    using ok by (simp_all add: group_ok_def)
  obtain q where q: "py_div env (PyInt (int c)) split = Inr q" "as_dimension q = Inr (c div split)"
    using as_dimension_quotient [of split c env] pos dvd by auto
  have gfmt: "get_data_format data_format False = Inr fmt"
    using ok by (simp add: group_ok_def)
  have idx: "py_index (t_shape inputs) (if fmt = ''NHWC'' then - 1 else 1) = Inr (Some c)"
    using ok by (simp add: group_ok_def)
  have regs: "kernel_regularizer = None" "bias_regularizer = None" "activity_regularizer = None"
    using ok by (simp_all add: group_ok_def)
  have dilok: "dilation_rate = Pair 1 1 \<or> 1.5 \<le> tf_version_number env"
    using ok by (simp add: group_ok_def)
  have s4d: "shape4d strides fmt = Inr (strides4 fmt strides)"
    "shape4d dilation_rate fmt = Inr (strides4 fmt dilation_rate)"
    using shape4d_layout [OF fmt] by (simp_all add: strides4_def)
  have wsome: "(map Some (shape2d kernel_size) @ [Some (c div split), Some filters]) ! 3 = Some filters"
    by (simp add: nth_append)
  have ne: "[0..<split] \<noteq> []"
    using pos by simp
  let ?W = "as_tensor (variable_of ''W'' (shape2d kernel_size @ [c div split, filters])
      kernel_initializer)"
  let ?ax = "norm_axis (length (t_shape inputs)) (if fmt = ''NHWC'' then - 1 else 1)"
  have axok: "length (t_shape inputs) = 4 \<longrightarrow>
      ?ax \<noteq> (if fmt = ''NHWC'' then 1 else 2) \<and> ?ax \<noteq> (if fmt = ''NHWC'' then 2 else 3)"
    using fmt by (auto simp: norm_axis_def)
  have kd: "dims (t_value ?W) ! 0 = shape2d kernel_size ! 0"
    "dims (t_value ?W) ! 1 = shape2d kernel_size ! 1"
    by (simp_all add: as_tensor_def variable_of_def nth_append)
  have nobad: "\<not> list_all (conv_ok (strides4 fmt strides) (upper padding)
        (if 1.5 \<le> tf_version_number env then Some (strides4 fmt dilation_rate) else None) fmt)
      (zip (map (split_node inputs split ?ax) [0..<split]) (map (split_node ?W split 3) [0..<split]))"
    apply (rule conv_bad_split [OF _ ne axok])
    using bad kd by (auto simp: group_accepts_def dilations4_def)
  have nobad': "1.5 \<le> tf_version_number env \<Longrightarrow>
      \<not> list_all (conv_ok (strides4 fmt strides) (upper padding)
        (Some (strides4 fmt dilation_rate)) fmt)
      (zip (map (split_node inputs split ?ax) [0..<split]) (map (split_node ?W split 3) [0..<split]))"
    "\<not> 1.5 \<le> tf_version_number env \<Longrightarrow>
      \<not> list_all (conv_ok (strides4 fmt strides) (upper padding) None fmt)
      (zip (map (split_node inputs split ?ax) [0..<split]) (map (split_node ?W split 3) [0..<split]))"
    using nobad by simp_all
  from fmt show ?thesis
  proof
    assume f: "fmt = ''NHWC''"
    have idx3: "py_index (t_shape inputs) (- 1) = Inr (Some c)"
      using idx f by simp
    note ax = py_index_last [OF idx3]
    show ?thesis
      using split dvd pos dilok wsome ax nobad'
      apply (simp add: Conv2D_def bind_apply gfmt f idx3 regs py_mod_def q Let_def
          s4d [unfolded f] tf_get_variable_apply as_shape_append)
      apply (simp add: bind_apply tf_split_apply variable_of_def as_tensor_def)
      apply (simp add: bind_apply for_each_conv)
      done
  next
    assume f: "fmt = ''NCHW''"
    have idx1: "py_index (t_shape inputs) 1 = Inr (Some c)"
      using idx f by simp
    note ax = py_index_second [OF idx1]
    show ?thesis
      using split dvd pos dilok wsome ax nobad'
      apply (simp add: Conv2D_def bind_apply gfmt f idx1 regs py_mod_def q Let_def
          s4d [unfolded f] tf_get_variable_apply as_shape_append)
      apply (simp add: bind_apply tf_split_apply variable_of_def as_tensor_def)
      apply (simp add: bind_apply for_each_conv)
      done
  qed
qed

lemma upper_same [simp]: "upper ''same'' = ''SAME''" "upper ''valid'' = ''VALID''"
  "upper ''SAME'' = ''SAME''" "upper ''VALID'' = ''VALID''"
  by code_simp+

lemma Conv2D_group_asserts:
  fixes g :: "'r graph"
  assumes split: "1 < split"
    and fmt: "get_data_format data_format False = Inr fmt"
    and idx: "py_index (t_shape inputs) (if fmt = ''NHWC'' then - 1 else 1) = Inr ch"
    and bad: "(\<exists>c. ch = Some c \<and> c mod split \<noteq> 0)
         \<or> kernel_regularizer \<noteq> None \<or> bias_regularizer \<noteq> None \<or> activity_regularizer \<noteq> None
         \<or> filters mod split \<noteq> 0"
  shows "Conv2D env inputs filters kernel_size strides padding data_format dilation_rate
     activation use_bias kernel_initializer bias_initializer kernel_regularizer bias_regularizer
     activity_regularizer split g = (Inl AssertionError, g)"
proof (cases ch)
  case None
  then show ?thesis
    using split by (simp add: Conv2D_def bind_apply fmt idx Let_def split del: if_split)
next
  case (Some c)
  have pos: "split \<noteq> 0" "split \<noteq> 1"
    using split by simp_all
  show ?thesis
  proof (cases "c mod split = 0")
    case False
    then have "py_assert (c mod split = 0) = (raise AssertionError :: ('r graph, unit) py)"
      by simp
    then show ?thesis
      using Some pos
      by (simp add: Conv2D_def bind_apply fmt idx Let_def py_mod_def split del: if_split)
  next
    case True
    show ?thesis
    proof (cases "kernel_regularizer = None \<and> bias_regularizer = None \<and> activity_regularizer = None")
      case False
      then have "py_assert (kernel_regularizer = None \<and> bias_regularizer = None
            \<and> activity_regularizer = None) = (raise AssertionError :: ('r graph, unit) py)"
        by (auto simp: py_assert_def)
      then show ?thesis
        using Some True pos
        by (simp add: Conv2D_def bind_apply fmt idx Let_def py_mod_def split del: if_split)
    next
      case regs: True
      then have "filters mod split \<noteq> 0"
        using bad Some True by auto
      then have "py_assert (filters mod split = 0) = (raise AssertionError :: ('r graph, unit) py)"
        by simp
      then show ?thesis
        using Some True regs pos
        by (simp add: Conv2D_def bind_apply fmt idx Let_def py_mod_def split del: if_split)
    qed
  qed
qed


lemma Conv2D_group_regularized:
  fixes g :: "'r graph"
  assumes split: "split \<noteq> 1"
    and regs: "kernel_regularizer \<noteq> None \<or> bias_regularizer \<noteq> None \<or> activity_regularizer \<noteq> None"
  shows "\<exists>e. Conv2D env inputs filters kernel_size strides padding data_format dilation_rate
     activation use_bias kernel_initializer bias_initializer kernel_regularizer bias_regularizer
     activity_regularizer split g = (Inl e, g)"
proof (cases "get_data_format data_format False")
  case (Inl e)
  then show ?thesis
    using split by (simp add: Conv2D_def bind_apply)
next
  case fmt: (Inr fmt)
  show ?thesis
  proof (cases "py_index (t_shape inputs) (if fmt = ''NHWC'' then - 1 else 1)")
    case (Inl e)
    then show ?thesis
      using split by (simp add: Conv2D_def bind_apply fmt Let_def split del: if_split)
  next
    case idx: (Inr ch)
    show ?thesis
    proof (cases "split = 0")
      case True
      show ?thesis
      proof (cases ch)
        case None
        then show ?thesis
          using True by (simp add: Conv2D_def bind_apply fmt idx Let_def split del: if_split)
      next
        case (Some c)
        then show ?thesis
          using True
          by (simp add: Conv2D_def bind_apply fmt idx Let_def py_mod_def split del: if_split)
      qed
    next
      case False
      then have "1 < split"
        using split by simp
      have "(\<exists>c. ch = Some c \<and> c mod split \<noteq> 0)
         \<or> kernel_regularizer \<noteq> None \<or> bias_regularizer \<noteq> None \<or> activity_regularizer \<noteq> None
         \<or> filters mod split \<noteq> 0"
        using regs by blast
      from Conv2D_group_asserts [OF \<open>1 < split\<close> fmt idx this] show ?thesis
        by blast
    qed
  qed
qed

section \<open>The \<^verbatim>\<open>tf.layers\<close> branch of \<open>Conv2D\<close>\<close>

lemma py_div_twice:
  assumes "py_div env (PyInt (int a)) sh = Inr q1" and "py_div env q1 sw = Inr q2"
  shows "sh \<noteq> 0 \<and> sw \<noteq> 0 \<and> num_value q2 = py_quotient env a (sh * sw)"
proof -
  have nz: "sh \<noteq> 0" "sw \<noteq> 0"
    using assms by (auto simp: py_div_def split: if_splits)
  show ?thesis
  proof (cases "py3 env")
    case True
    then show ?thesis
      using assms nz by (auto simp: py_div_def py_quotient_def num_value_def)
  next
    case False
    have "int a div int sh div int sw = int (a div (sh * sw))"
      by (simp add: zdiv_int div_mult2_eq)
    then show ?thesis
      using assms nz False by (auto simp: py_div_def py_quotient_def num_value_def)
  qed
qed

lemma shape4d_tf:
  assumes "data_format \<in> {''channels_last'', ''channels_first''}"
  shows "shape4d a data_format = Inr (layout (tf_format data_format) 1 1 (shape2d a ! 0) (shape2d a ! 1))"
  using assms by (cases a) (auto simp: shape4d_def get_data_format_def layout_def shape2d_def tf_format_def)


lemma py_index_known:
  "length xs = 4 \<Longrightarrow> py_index xs 1 = Inr (xs ! 1) \<and> py_index xs 2 = Inr (xs ! 2)
     \<and> py_index xs 3 = Inr (xs ! 3)"
  by (simp add: py_index_def)

lemma Conv2D_layer_Inr:
  fixes env :: "'a::comm_semiring_0 environment" and g :: "'r graph"
  assumes run: "Conv2D env inputs filters kernel_size strides padding data_format dilation_rate
     activation use_bias kernel_initializer bias_initializer kernel_regularizer bias_regularizer
     activity_regularizer 1 g = (Inr r, g')"
  shows "layer_ok data_format padding inputs"
    and "t_name r = ''output''"
    and "variables r = Some
       \<lparr>var_W = variable_of ''W''
          (shape2d kernel_size @ [the (chan_of (tf_format data_format) (t_shape inputs)), filters])
          kernel_initializer,
        var_b = (if use_bias then Some (variable_of ''b'' [filters] bias_initializer) else None)\<rparr>"
    and "\<exists>fl. info r = Some \<lparr>flops = fl\<rparr> \<and>
       (let base = real (the (chan_of (tf_format data_format) (t_shape inputs))) * real filters
                     * real (shape2d kernel_size ! 0) * real (shape2d kernel_size ! 1)
        in case height_of (tf_format data_format) (t_shape inputs) of
             None \<Rightarrow> fl = base
           | Some h \<Rightarrow>
               if 0 < h
               then \<exists>w. width_of (tf_format data_format) (t_shape inputs) = Some w \<and>
                      fl = base * py_quotient env (h * w) (shape2d strides ! 0 * shape2d strides ! 1)
               else fl = base)"
    and "g_losses g' = g_losses g
       @ (case kernel_regularizer of None \<Rightarrow> [] | Some k \<Rightarrow> [(k, ''W'')])
       @ (if use_bias then (case bias_regularizer of None \<Rightarrow> [] | Some k \<Rightarrow> [(k, ''b'')]) else [])
       @ (case activity_regularizer of None \<Rightarrow> []
          | Some k \<Rightarrow> [(k, layer_output_name activation use_bias)])"
    and "g_variables g' = g_variables g
       @ [(''W'', shape2d kernel_size
             @ [the (chan_of (tf_format data_format) (t_shape inputs)), filters])]
       @ (if use_bias then [(''b'', [filters])] else [])"
    and "layer_accepts data_format padding kernel_size strides dilation_rate inputs"
proof -
  obtain outputs kern bias g1 where
    layer: "tf_layers_Conv2D [(''kernel'', ''W''), (''bias'', ''b'')] filters kernel_size
                strides padding data_format dilation_rate activation use_bias
                kernel_initializer bias_initializer kernel_regularizer bias_regularizer
                activity_regularizer inputs g = (Inr (outputs, kern, bias), g1)"
    using run by (auto simp: Conv2D_def elim!: bind_InrE)
  note facts = tf_layers_Conv2D_Inr [OF layer]
  have ok: "layer_ok data_format padding inputs"
    by (rule facts(1))
  then obtain c where c: "chan_of (tf_format data_format) (t_shape inputs) = Some c"
    by (auto simp: layer_ok_def)
  have df: "data_format \<in> {''channels_last'', ''channels_first''}" and rank: "length (t_shape inputs) = 4"
    using ok by (simp_all add: layer_ok_def)
  note ix = py_index_known [OF rank]
  have kern: "kern = variable_of ''W'' (shape2d kernel_size @ [c, filters]) kernel_initializer"
    using facts(2) c by (simp add: variable_of_def renamed_def)
  have bias: "bias = (if use_bias then Some (variable_of ''b'' [filters] bias_initializer) else None)"
    using facts(3) by (simp add: variable_of_def renamed_def)
  have losses: "g_losses g1 = g_losses g
       @ (case kernel_regularizer of None \<Rightarrow> [] | Some k \<Rightarrow> [(k, ''W'')])
       @ (if use_bias then (case bias_regularizer of None \<Rightarrow> [] | Some k \<Rightarrow> [(k, ''b'')]) else [])
       @ (case activity_regularizer of None \<Rightarrow> []
          | Some k \<Rightarrow> [(k, layer_output_name activation use_bias)])"
    using facts(4) facts(5) by (auto simp: renamed_def split: option.splits)
  from df show "g_losses g' = g_losses g
       @ (case kernel_regularizer of None \<Rightarrow> [] | Some k \<Rightarrow> [(k, ''W'')])
       @ (if use_bias then (case bias_regularizer of None \<Rightarrow> [] | Some k \<Rightarrow> [(k, ''b'')]) else [])
       @ (case activity_regularizer of None \<Rightarrow> []
          | Some k \<Rightarrow> [(k, layer_output_name activation use_bias)])"
    unfolding losses [symmetric]
    using run layer c ix
    by (auto simp: Conv2D_def bind_apply Let_def shape4d_tf tf_format_def chan_of_def
        lift_apply split: if_split_asm sum.split_asm option.split_asm)
  show "layer_ok data_format padding inputs"
    by (rule ok)
  show "layer_accepts data_format padding kernel_size strides dilation_rate inputs"
    by (rule facts(7))
  have gvars: "g_variables g1 = g_variables g
       @ [(''W'', shape2d kernel_size
             @ [the (chan_of (tf_format data_format) (t_shape inputs)), filters])]
       @ (if use_bias then [(''b'', [filters])] else [])"
    using facts(6) by (simp add: renamed_def)
  from df show "g_variables g' = g_variables g
       @ [(''W'', shape2d kernel_size
             @ [the (chan_of (tf_format data_format) (t_shape inputs)), filters])]
       @ (if use_bias then [(''b'', [filters])] else [])"
    unfolding gvars [symmetric]
    using run layer c ix
    by (auto simp: Conv2D_def bind_apply Let_def shape4d_tf tf_format_def chan_of_def
        lift_apply split: if_split_asm sum.split_asm option.split_asm)
  from df show "t_name r = ''output''"
    using run layer c ix
    by (auto simp: Conv2D_def bind_apply Let_def shape4d_tf tf_format_def chan_of_def
        lift_apply split: if_split_asm sum.split_asm option.split_asm)
  from df show "variables r = Some
       \<lparr>var_W = variable_of ''W''
          (shape2d kernel_size @ [the (chan_of (tf_format data_format) (t_shape inputs)), filters])
          kernel_initializer,
        var_b = (if use_bias then Some (variable_of ''b'' [filters] bias_initializer) else None)\<rparr>"
    using run layer c ix kern bias
    by (auto simp: Conv2D_def bind_apply Let_def shape4d_tf tf_format_def chan_of_def
        lift_apply split: if_split_asm sum.split_asm option.split_asm)
  show "\<exists>fl. info r = Some \<lparr>flops = fl\<rparr> \<and>
       (let base = real (the (chan_of (tf_format data_format) (t_shape inputs))) * real filters
                     * real (shape2d kernel_size ! 0) * real (shape2d kernel_size ! 1)
        in case height_of (tf_format data_format) (t_shape inputs) of
             None \<Rightarrow> fl = base
           | Some h \<Rightarrow>
               if 0 < h
               then \<exists>w. width_of (tf_format data_format) (t_shape inputs) = Some w \<and>
                      fl = base * py_quotient env (h * w) (shape2d strides ! 0 * shape2d strides ! 1)
               else fl = base)"
  proof -
    have idx_lit: "\<And>a b c d. py_index [a, b, c, d :: nat] 1 = Inr b \<and> py_index [a, b, c, d] 2 = Inr c
        \<and> py_index [a, b, c, d] 3 = Inr d"
      by (simp add: py_index_def)
    from df show ?thesis
      using run layer c ix
      by (auto simp: Conv2D_def bind_apply Let_def shape4d_tf tf_format_def chan_of_def
          height_of_def width_of_def layout_def idx_lit py_mul_def
          lift_apply dest!: py_div_twice
          split: if_split_asm sum.split_asm option.split_asm)
  qed
qed

lemma tf_layers_Conv2D_run:
  assumes "layer_accepts data_format padding kernel_size strides dilation_rate inputs"
  shows "\<exists>res g1. tf_layers_Conv2D mapping filters kernel_size strides padding data_format
     dilation_rate activation use_bias kernel_initializer bias_initializer kernel_regularizer
     bias_regularizer activity_regularizer inputs g = (Inr res, g1)"
proof -
  obtain c where c: "chan_of (tf_format data_format) (t_shape inputs) = Some c"
    using assms by (auto simp: layer_accepts_def layer_ok_def)
  show ?thesis
    unfolding tf_layers_Conv2D_closed [OF assms c]
    using assms
    by (auto simp: layer_accepts_def layer_ok_def bind_apply bias_variable_apply
        bias_node_apply activation_node_apply as_tensor_def tf_get_variable_apply as_shape_append
        tf_nn_conv2d_apply Let_def nth_append)
qed

lemma Conv2D_layer_run:
  fixes env :: "'a::comm_semiring_0 environment" and g :: "'r graph"
  assumes acc: "layer_accepts data_format padding kernel_size strides dilation_rate inputs"
    and hw: "\<And>h. height_of (tf_format data_format) (t_shape inputs) = Some h \<Longrightarrow> 0 < h \<Longrightarrow>
       width_of (tf_format data_format) (t_shape inputs) \<noteq> None"
  shows "\<exists>r g'. Conv2D env inputs filters kernel_size strides padding data_format dilation_rate
     activation use_bias kernel_initializer bias_initializer kernel_regularizer bias_regularizer
     activity_regularizer 1 g = (Inr r, g')"
proof -
  obtain outputs kern bias g1 where
    layer: "tf_layers_Conv2D [(''kernel'', ''W''), (''bias'', ''b'')] filters kernel_size
                strides padding data_format dilation_rate activation use_bias
                kernel_initializer bias_initializer kernel_regularizer bias_regularizer
                activity_regularizer inputs g = (Inr (outputs, kern, bias), g1)"
    using tf_layers_Conv2D_run [OF acc] by (metis prod_cases3)
  have ok: "layer_ok data_format padding inputs"
    using acc by (rule layer_accepts_ok)
  have pos: "shape2d strides ! 0 \<noteq> 0" "shape2d strides ! 1 \<noteq> 0"
    using acc by (simp_all add: layer_accepts_def window_fits_def)
  obtain c where c: "chan_of (tf_format data_format) (t_shape inputs) = Some c"
    using ok by (auto simp: layer_ok_def)
  have df: "data_format \<in> {''channels_last'', ''channels_first''}" and rank: "length (t_shape inputs) = 4"
    using ok by (simp_all add: layer_ok_def)
  note ix = py_index_known [OF rank]
  have idx_lit: "\<And>a b c d. py_index [a, b, c, d :: nat] 1 = Inr b \<and> py_index [a, b, c, d] 2 = Inr c
      \<and> py_index [a, b, c, d] 3 = Inr d"
    by (simp add: py_index_def)
  from df show ?thesis
    using layer c ix hw pos
    by (auto simp: Conv2D_def bind_apply Let_def shape4d_tf tf_format_def chan_of_def
        height_of_def width_of_def layout_def idx_lit py_mul_def py_div_def
        split: option.splits)
qed
section \<open>Properties of returned tensors\<close>

lemma post_ret [simp]: "post (ret x) P \<longleftrightarrow> P x"
  by (simp add: post_def ret_def)

lemma post_raise [simp]: "post (raise e) P"
  by (simp add: post_def raise_def)

lemma post_bind_strong:
  assumes "post m Q" and "\<And>x. Q x \<Longrightarrow> post (f x) P"
  shows "post (bind m f) P"
proof -
  have "P r" if run: "bind m f s = (Inr r, s')" for s r s'
  proof -
    obtain x s1 where m: "m s = (Inr x, s1)" and f: "f x s1 = (Inr r, s')"
      using run by (auto simp: bind_apply split: sum.split_asm prod.split_asm)
    have "Q x"
      using assms(1) m by (auto simp: post_def)
    then show ?thesis
      using assms(2) f by (auto simp: post_def)
  qed
  then show ?thesis
    by (auto simp: post_def)
qed

lemma post_case_option:
  "(\<And>c. post (f c) P) \<Longrightarrow> post (case x of None \<Rightarrow> raise e | Some c \<Rightarrow> f c) P"
  by (cases x) simp_all

lemma post_bind: "(\<And>x. post (f x) P) \<Longrightarrow> post (bind m f) P"
  by (rule post_bind_strong [where Q = "\<lambda>_. True"]) (simp_all add: post_def)

lemma post_node: "post (node op nm sh v) (\<lambda>r. t_name r = nm \<and> variables r = None \<and> info r = None)"
  by (simp add: post_def node_apply)

lemma post_tf_identity:
  "post (tf_identity x nm) (\<lambda>r. t_name r = nm \<and> variables r = None \<and> info r = None)"
  by (simp add: post_def tf_identity_apply)

lemma post_apply_op:
  "post (apply_op f x nm) (\<lambda>r. t_name r = nm \<and> variables r = None \<and> info r = None)"
  by (simp add: post_def apply_op_apply)

lemma post_get_variable: "post (tf_get_variable nm shape init) (\<lambda>v. v_name v = nm)"
  by (auto simp: post_def tf_get_variable_def bind_apply lift_apply split: sum.split_asm)

lemma post_bias_variable:
  "post (if use_bias then bind (tf_get_variable nm shape init) (\<lambda>b. ret (Some b)) else ret None)
     (\<lambda>b. (b \<noteq> None \<longleftrightarrow> use_bias) \<and> (\<forall>bv. b = Some bv \<longrightarrow> v_name bv = nm))"
  by (auto intro!: post_bind_strong [OF post_get_variable])

lemma postD: "post m P \<Longrightarrow> m s = (Inr r, s') \<Longrightarrow> P r"
  by (auto simp: post_def)

lemma GroupedConv2D_post:
  "post (GroupedConv2D env x num_paths path_ch_out kernel_shape sum_paths padding stride W_init
           b_init nl use_bias data_format)
     (\<lambda>r. t_name r = ''output'' \<and> info r = None \<and>
        (\<exists>W b. variables r = Some \<lparr>var_W = W, var_b = b\<rparr> \<and> v_name W = ''W'' \<and>
           (b \<noteq> None \<longleftrightarrow> use_bias) \<and> (\<forall>bv. b = Some bv \<longrightarrow> v_name bv = ''b'')))"
  unfolding GroupedConv2D_def Let_def
  apply (rule post_bind)
  apply (rule post_bind)
  apply (rule post_case_option)
  apply (rule post_bind)
  apply (rule post_bind)
  apply (rule post_bind)
  apply (rule post_bind_strong [OF post_get_variable])
  apply (rule post_bind_strong [OF post_bias_variable])
  apply (rule post_bind)
  apply (rule post_bind)
  apply (rule post_bind)
  apply (rule post_bind)
  apply (rule post_bind)
  apply (rule post_bind_strong [OF post_apply_op])
  apply simp
  done


lemma post_if: "(c \<Longrightarrow> post a P) \<Longrightarrow> (\<not> c \<Longrightarrow> post b P) \<Longrightarrow> post (if c then a else b) P"
  by simp

lemma post_layer_bias:
  "post (if use_bias
         then bind (tf_get_variable nm shape init) (\<lambda>bias.
              bind (add_loss reg (v_name bias)) (\<lambda>_. ret (Some bias)))
         else ret None)
     (\<lambda>b. (b \<noteq> None \<longleftrightarrow> use_bias) \<and> (\<forall>bv. b = Some bv \<longrightarrow> v_name bv = nm))"
proof (cases use_bias)
  case True
  have "post (bind (tf_get_variable nm shape init) (\<lambda>bias.
              bind (add_loss reg (v_name bias)) (\<lambda>_. ret (Some bias))))
     (\<lambda>b. b \<noteq> None \<and> (\<forall>bv. b = Some bv \<longrightarrow> v_name bv = nm))"
    by (rule post_bind_strong [OF post_get_variable], rule post_bind) simp
  then show ?thesis
    using True by simp
next
  case False
  then show ?thesis
    by simp
qed

lemma tf_layers_Conv2DTranspose_post:
  "post (tf_layers_Conv2DTranspose mapping filters kernel_size strides padding data_format
           activation use_bias kernel_initializer bias_initializer kernel_regularizer
           bias_regularizer activity_regularizer inputs)
     (\<lambda>(outputs, kern, bias). v_name kern = renamed mapping ''kernel'' \<and>
        (bias \<noteq> None \<longleftrightarrow> use_bias) \<and>
        (\<forall>bv. bias = Some bv \<longrightarrow> v_name bv = renamed mapping ''bias''))"
  unfolding tf_layers_Conv2DTranspose_def
  apply (rule post_if, simp)
  apply (rule post_if, simp)
  apply (rule post_case_option)
  apply (rule post_bind_strong [OF post_get_variable])
  apply (rule post_bind)
  apply (rule post_bind_strong [OF post_layer_bias])
  apply (rule post_bind)
  apply (rule post_bind)
  apply (rule post_bind)
  apply (rule post_bind)
  apply simp
  done

lemma Conv2DTranspose_post:
  "post (Conv2DTranspose inputs filters kernel_size strides padding data_format activation
           use_bias kernel_initializer bias_initializer kernel_regularizer bias_regularizer
           activity_regularizer dyn_hw)
     (\<lambda>r. t_name r = ''output'' \<and> info r = None \<and>
        (\<exists>W b. variables r = Some \<lparr>var_W = W, var_b = b\<rparr> \<and> v_name W = ''W'' \<and>
           (b \<noteq> None \<longleftrightarrow> use_bias) \<and> (\<forall>bv. b = Some bv \<longrightarrow> v_name bv = ''b'')))"
  unfolding Conv2DTranspose_def Let_def
  apply (rule post_bind_strong [OF tf_layers_Conv2DTranspose_post])
  apply (clarsimp simp: renamed_def)
  apply (rule post_bind_strong [OF post_tf_identity])
  apply auto
  done

lemma ResizeImages_post:
  "post (ResizeImages interp images sz method align_corners data_format)
     (\<lambda>r. t_name r = ''output'' \<and> variables r = None \<and> info r = None)"
  unfolding ResizeImages_def
  apply (rule post_bind)
  apply (rule post_bind)
  apply (rule post_bind)
  apply (rule post_tf_identity)
  done

section \<open>The closed form of \<^verbatim>\<open>ResizeImages\<close>\<close>

lemma perm_sets:
  "set [0, 2, 3, 1 :: nat] = {..<length [0, 2, 3, 1 :: nat]}"
  "set [0, 3, 1, 2 :: nat] = {..<length [0, 3, 1, 2 :: nat]}"
  by auto

lemma tf_transpose_apply:
  "length perm = length (t_shape x) \<Longrightarrow> set perm = {..<length perm} \<Longrightarrow>
   tf_transpose x perm g = (Inr (transposed x perm), g\<lparr>g_nodes := g_nodes g @ [''Transpose'']\<rparr>)"
  by (simp add: tf_transpose_def transposed_def node_apply)

lemma tf_transpose_rank:
  "length perm \<noteq> length (t_shape x) \<Longrightarrow> tf_transpose x perm g = (Inl ValueError, g)"
  by (simp add: tf_transpose_def)

lemma tf_image_resize_images_apply:
  "length (t_shape x) = 4 \<Longrightarrow>
   tf_image_resize_images interp x sz method align_corners g =
     (Inr (resized interp x sz method align_corners),
      g\<lparr>g_nodes := g_nodes g @ [''ResizeImages'']\<rparr>)"
  by (simp add: tf_image_resize_images_def resized_def node_apply)

lemma tf_image_resize_images_rank:
  "length (t_shape x) \<noteq> 4 \<Longrightarrow> length (t_shape x) \<noteq> 3 \<Longrightarrow>
   tf_image_resize_images interp x sz method align_corners g = (Inl ValueError, g)"
  by (simp add: tf_image_resize_images_def)

lemma tf_image_resize_images_single:
  "length (t_shape x) = 3 \<Longrightarrow>
   tf_image_resize_images interp x sz method align_corners g =
     (Inr \<lparr>t_name = ''Squeeze'', t_shape = [Some (fst sz), Some (snd sz), t_shape x ! 2],
           t_value = reshape
             (resize_array interp (reshape (t_value x) (1 # dims (t_value x))) sz method
                align_corners)
             [fst sz, snd sz, dims (t_value x) ! 2],
           variables = None, info = None\<rparr>,
      g\<lparr>g_nodes := g_nodes g @ [''ExpandDims'', ''ResizeImages'', ''Squeeze'']\<rparr>)"
  by (simp add: tf_image_resize_images_def node_apply bind_apply resize_array_def reshape_def
      dims_tabulate)

lemma length_transposed [simp]: "length (t_shape (transposed x perm)) = length perm"
  by (simp add: transposed_def)

lemma length_resized [simp]: "length (t_shape (resized interp x sz method ac)) = 4"
  by (simp add: resized_def)

lemma tf_identity_named:
  "variables x = None \<Longrightarrow> info x = None \<Longrightarrow>
   tf_identity x nm g = (Inr (x\<lparr>t_name := nm\<rparr>), g\<lparr>g_nodes := g_nodes g @ [''Identity'']\<rparr>)"
  by (simp add: tf_identity_apply)

lemma ResizeImages_first:
  assumes "length (t_shape images) = 4"
  shows "ResizeImages interp images sz method align_corners ''channels_first'' g =
     (Inr ((transposed (resized interp (transposed images [0, 2, 3, 1]) sz method align_corners)
              [0, 3, 1, 2])\<lparr>t_name := ''output''\<rparr>),
      g\<lparr>g_nodes := g_nodes g @ [''Transpose'', ''ResizeImages'', ''Transpose'', ''Identity'']\<rparr>)"
proof -
  let ?a = "transposed images [0, 2, 3, 1]"
  let ?b = "resized interp ?a sz method align_corners"
  let ?c = "transposed ?b [0, 3, 1, 2]"
  have 1: "tf_transpose images [0, 2, 3, 1] g
      = (Inr ?a, g\<lparr>g_nodes := g_nodes g @ [''Transpose'']\<rparr>)"
    by (rule tf_transpose_apply) (simp add: assms, rule perm_sets)
  have 2: "\<And>g. tf_image_resize_images interp ?a sz method align_corners g
      = (Inr ?b, g\<lparr>g_nodes := g_nodes g @ [''ResizeImages'']\<rparr>)"
    by (simp add: tf_image_resize_images_apply)
  have 3: "\<And>g. tf_transpose ?b [0, 3, 1, 2] g
      = (Inr ?c, g\<lparr>g_nodes := g_nodes g @ [''Transpose'']\<rparr>)"
    by (rule tf_transpose_apply) (simp, rule perm_sets)
  have 4: "\<And>g. tf_identity ?c ''output'' g
      = (Inr (?c\<lparr>t_name := ''output''\<rparr>), g\<lparr>g_nodes := g_nodes g @ [''Identity'']\<rparr>)"
    by (rule tf_identity_named) (simp_all add: transposed_def)
  show ?thesis
    unfolding ResizeImages_def
    by (simp only: bind_apply 1 2 3 4 if_True simp_thms prod.case sum.case) simp
qed

lemma ResizeImages_last:
  assumes "length (t_shape images) = 4" and "data_format \<noteq> ''channels_first''"
  shows "ResizeImages interp images sz method align_corners data_format g =
     (Inr ((resized interp images sz method align_corners)\<lparr>t_name := ''output''\<rparr>),
      g\<lparr>g_nodes := g_nodes g @ [''ResizeImages'', ''Identity'']\<rparr>)"
  using assms
  by (simp add: ResizeImages_def bind_apply tf_image_resize_images_apply tf_identity_apply
      resized_def)

lemma ResizeImages_rank:
  assumes "length (t_shape images) \<noteq> 4"
    and "length (t_shape images) \<noteq> 3 \<or> data_format = ''channels_first''"
  shows "\<exists>g'. ResizeImages interp images sz method align_corners data_format g = (Inl ValueError, g')"
  using assms
  by (auto simp: ResizeImages_def bind_apply tf_image_resize_images_rank tf_transpose_rank)

lemma ResizeImages_single:
  assumes "length (t_shape images) = 3" and "data_format \<noteq> ''channels_first''"
  shows "\<exists>r g'. ResizeImages interp images sz method align_corners data_format g = (Inr r, g') \<and>
     t_name r = ''output'' \<and> variables r = None \<and>
     t_value r = reshape
       (resize_array interp (reshape (t_value images) (1 # dims (t_value images))) sz method
          align_corners)
       [fst sz, snd sz, dims (t_value images) ! 2] \<and>
     g_nodes g' = g_nodes g @ [''ExpandDims'', ''ResizeImages'', ''Squeeze'', ''Identity'']"
  using assms
  by (simp add: ResizeImages_def bind_apply tf_image_resize_images_single tf_identity_apply)
section \<open>Grouped convolution by depthwise convolution\<close>










lemma access_NHWC [simp]:
  "batch_of [a, b, c, d] = a" "height_of ''NHWC'' [a, b, c, d] = b"
  "width_of ''NHWC'' [a, b, c, d] = c" "chan_of ''NHWC'' [a, b, c, d] = d"
  "layout ''NHWC'' a d b c = [a, b, c, d]"
  by (simp_all add: batch_of_def height_of_def width_of_def chan_of_def layout_def)

lemma access_NCHW [simp]:
  "height_of ''NCHW'' [a, b, c, d] = c" "width_of ''NCHW'' [a, b, c, d] = d"
  "chan_of ''NCHW'' [a, b, c, d] = b" "layout ''NCHW'' a b c d = [a, b, c, d]"
  by (simp_all add: height_of_def width_of_def chan_of_def layout_def)



lemma depthwise_window:
  "depthwise_conv2d x w strides padding fmt =
     tabulate (layout fmt (batch_of (dims x)) (dims w ! 2 * dims w ! 3)
                 (out_height x w strides padding fmt) (out_width x w strides padding fmt))
       (\<lambda>ix. window_sum x w strides padding fmt (batch_of ix) (chan_of fmt ix div dims w ! 3)
               (chan_of fmt ix mod dims w ! 3) (height_of fmt ix) (width_of fmt ix))"
  by (simp add: depthwise_conv2d_def window_sum_def out_height_def out_width_def Let_def)














section \<open>The closed form of \<^verbatim>\<open>GroupedConv2D\<close>\<close>

lemma dims_depthwise [simp]:
  "dims (depthwise_conv2d x w strides padding fmt) =
     layout fmt (batch_of (dims x)) (dims w ! 2 * dims w ! 3)
       (out_height x w strides padding fmt) (out_width x w strides padding fmt)"
  by (simp add: depthwise_window)

lemma tf_nn_depthwise_conv2d_apply:
  "tf_nn_depthwise_conv2d x k strides padding fmt g =
     (let kd = dims (t_value k)
      in if length (t_shape x) \<noteq> 4 \<or> length kd \<noteq> 4 \<or> length strides \<noteq> 4
            \<or> padding \<notin> {''SAME'', ''VALID''}
            \<or> \<not> window_fits fmt (t_shape x) (kd ! 0) (kd ! 1) strides padding [1, 1, 1, 1]
         then (Inl ValueError, g)
         else (Inr \<lparr>t_name = ''depthwise'',
                t_shape = conv_shape fmt (t_shape x) (kd ! 2 * kd ! 3) (kd ! 0) (kd ! 1) strides
                   padding [1, 1, 1, 1],
                t_value = depthwise_conv2d (t_value x) (t_value k) strides padding fmt,
                variables = None, info = None\<rparr>,
               g\<lparr>g_nodes := g_nodes g @ [''DepthwiseConv2dNative'']\<rparr>))"
  by (simp add: tf_nn_depthwise_conv2d_def node_apply Let_def)

lemma out_size_fits:
  "0 < out_size ''VALID'' n k s d \<Longrightarrow> kernel_extent k d \<le> n"
  by (simp add: out_size_def split: if_splits)

lemma grouped_ok_fits:
  assumes "grouped_ok x num_paths path_ch_out kernel_shape padding stride data_format fmt b n c h w"
  shows "window_fits fmt (layout fmt b (Some c) (Some h) (Some w))
     (shape2d kernel_shape ! 0) (shape2d kernel_shape ! 1)
     (strides4 fmt stride) (upper padding) [1, 1, 1, 1]"
  using assms
  by (auto simp: grouped_ok_def window_fits_def strides4_def height_of_def width_of_def
      layout_def dest: out_size_fits)

lemma filter_ints:
  "filter (\<lambda>d. d \<noteq> - 1) (map int ds) = map int ds" "filter (\<lambda>d. d = - 1) (map int ds) = []"
  by (induction ds) auto

lemma tf_reshape_infer:
  assumes "0 < prod_list ds" and "prod_list (dims (t_value x)) mod prod_list ds = 0"
  shows "tf_reshape x (Some (- 1) # map (\<lambda>d. Some (int d)) ds) g =
     (Inr \<lparr>t_name = ''Reshape'',
            t_shape = (if None \<in> set (t_shape x) then None
                       else Some (prod_list (dims (t_value x)) div prod_list ds)) # map Some ds,
            t_value = reshape (t_value x) (prod_list (dims (t_value x)) div prod_list ds # ds),
            variables = None, info = None\<rparr>,
      g\<lparr>g_nodes := g_nodes g @ [''Reshape'']\<rparr>)"
proof -
  have none: "None \<notin> set (Some (- 1) # map (\<lambda>d. Some (int d)) ds)"
    by auto
  have want: "map the (Some (- 1) # map (\<lambda>d. Some (int d)) ds) = - 1 # map int ds"
    by (simp add: comp_def)
  have known: "prod_list (map nat (filter (\<lambda>d. d \<noteq> - 1) (- 1 # map int ds))) = prod_list ds"
    by (simp add: filter_ints comp_def)
  have ones: "length (filter (\<lambda>d. d = - 1) (- 1 # map int ds)) = 1"
    by (simp add: filter_ints)
  have low: "\<not> (\<exists>d \<in> set (- 1 # map int ds). d < - 1)"
    by auto
  have mem: "- 1 \<in> set (- 1 # map int ds)"
    by simp
  have shp: "map (\<lambda>d. if d = - 1 then (if None \<in> set (t_shape x) then None
                  else Some (prod_list (dims (t_value x)) div prod_list ds))
               else Some (nat d)) (- 1 # map int ds)
      = (if None \<in> set (t_shape x) then None
         else Some (prod_list (dims (t_value x)) div prod_list ds)) # map Some ds"
    by (simp add: comp_def)
  have val: "map (\<lambda>d. if d = - 1 then prod_list (dims (t_value x)) div prod_list ds else nat d)
               (- 1 # map int ds)
      = prod_list (dims (t_value x)) div prod_list ds # ds"
    by (simp add: comp_def map_idI)
  show ?thesis
    unfolding tf_reshape_def want Let_def known
    using assms none ones low mem
    by (simp only: if_False if_True shp val node_apply simp_thms) simp
qed

lemma reduce_sum_single: "reduce_sum x [a] = reduce_axis x a"
  by (simp add: reduce_sum_def)

lemma tf_reduce_sum_single:
  "a < length (t_shape x) \<Longrightarrow>
   tf_reduce_sum x [a] g =
     (Inr \<lparr>t_name = ''Sum'', t_shape = drop_axes [a] (t_shape x),
            t_value = reduce_axis (t_value x) a, variables = None, info = None\<rparr>,
      g\<lparr>g_nodes := g_nodes g @ [''Sum'']\<rparr>)"
  by (simp add: tf_reduce_sum_def node_apply reduce_sum_single)

lemma bias_plain_apply:
  "(if use_bias then bind (tf_get_variable nm [PyInt (int d)] init) (\<lambda>b. ret (Some b))
    else ret None) g =
   (Inr (if use_bias then Some \<lparr>v_name = nm, v_value = tabulate [d] (init [d])\<rparr> else None),
    g\<lparr>g_variables := g_variables g @ (if use_bias then [(nm, [d])] else [])\<rparr>)"
  by (simp add: bind_apply tf_get_variable_apply)

lemma reshape_paths_NHWC:
  assumes "dims (t_value y) = [n, H, W, P * q * m]" and "0 < H" and "0 < W" and "0 < P"
    and "0 < q" and "0 < m"
  shows "tf_reshape y [Some (- 1), Some (int H), Some (int W), Some (int P), Some (int q),
           Some (int m)] g =
     (Inr \<lparr>t_name = ''Reshape'',
            t_shape = [if None \<in> set (t_shape y) then None else Some n, Some H, Some W, Some P,
                       Some q, Some m],
            t_value = reshape (t_value y) [n, H, W, P, q, m],
            variables = None, info = None\<rparr>,
      g\<lparr>g_nodes := g_nodes g @ [''Reshape'']\<rparr>)"
proof -
  have pos: "0 < prod_list [H, W, P, q, m]"
    using assms by simp
  have tot: "prod_list (dims (t_value y)) = n * prod_list [H, W, P, q, m]"
    by (simp add: assms(1) algebra_simps)
  have dvd: "prod_list (dims (t_value y)) mod prod_list [H, W, P, q, m] = 0"
    unfolding tot by simp
  have quot: "prod_list (dims (t_value y)) div prod_list [H, W, P, q, m] = n"
    unfolding tot using pos by simp
  show ?thesis
    using tf_reshape_infer [OF pos dvd, of g] unfolding quot by simp
qed

lemma reshape_merge_NHWC:
  assumes "dims (t_value y) = [n, H, W, P, m]" and "0 < H" and "0 < W" and "0 < P" and "0 < m"
  shows "tf_reshape y [Some (- 1), Some (int H), Some (int W), Some (int (P * m))] g =
     (Inr \<lparr>t_name = ''Reshape'',
            t_shape = [if None \<in> set (t_shape y) then None else Some n, Some H, Some W,
                       Some (P * m)],
            t_value = reshape (t_value y) [n, H, W, P * m],
            variables = None, info = None\<rparr>,
      g\<lparr>g_nodes := g_nodes g @ [''Reshape'']\<rparr>)"
proof -
  have pos: "0 < prod_list [H, W, P * m]"
    using assms by simp
  have tot: "prod_list (dims (t_value y)) = n * prod_list [H, W, P * m]"
    by (simp add: assms(1) algebra_simps)
  have dvd: "prod_list (dims (t_value y)) mod prod_list [H, W, P * m] = 0"
    unfolding tot by simp
  have quot: "prod_list (dims (t_value y)) div prod_list [H, W, P * m] = n"
    unfolding tot using pos by simp
  show ?thesis
    using tf_reshape_infer [OF pos dvd, of g] unfolding quot by simp
qed


lemma GroupedConv2D_run_NHWC:
  fixes env :: "'a::comm_semiring_0 environment" and g :: "'r graph"
  assumes ok: "grouped_ok x num_paths path_ch_out kernel_shape padding stride data_format
                 ''NHWC'' b n c h w"
  shows "\<exists>r g'. GroupedConv2D env x num_paths path_ch_out kernel_shape False padding stride W_init b_init
       nl use_bias data_format g = (Inr r, g') \<and> t_name r = ''output'' \<and>
     t_value r = nl (with_bias use_bias
        (v_value (variable_of ''b'' [num_paths * path_ch_out] (initializer_or b_init (\<lambda>_ _. 0)))) ''NHWC''
        (depthwise_grouped (t_value x)
           (v_value (variable_of ''W'' (shape2d kernel_shape @ [c, path_ch_out]) (initializer_or W_init (variance_scaling_initializer env))))
           num_paths (strides4 ''NHWC'' stride) (upper padding) ''NHWC'')) \<and>
     variables r = Some
       \<lparr>var_W = variable_of ''W'' (shape2d kernel_shape @ [c, path_ch_out]) (initializer_or W_init (variance_scaling_initializer env)),
        var_b = (if use_bias then Some (variable_of ''b'' [num_paths * path_ch_out] (initializer_or b_init (\<lambda>_ _. 0)))
                 else None)\<rparr> \<and>
     g_variables g' = g_variables g @ [(''W'', shape2d kernel_shape @ [c, path_ch_out])]
        @ (if use_bias then [(''b'', [num_paths * path_ch_out])] else []) \<and>
     g_nodes g' = g_nodes g @ [''DepthwiseConv2dNative'', ''Reshape'', ''Sum'', ''Reshape'']
        @ (if use_bias then [''BiasAdd''] else []) @ [''Activation'']"
proof -
  let ?kh = "shape2d kernel_shape ! 0" and ?kw = "shape2d kernel_shape ! 1"
  let ?H = "out_size (upper padding) h ?kh (shape2d stride ! 0) 1"
  let ?W = "out_size (upper padding) w ?kw (shape2d stride ! 1) 1"
  let ?q = "c div num_paths"
  let ?Wv = "tabulate (shape2d kernel_shape @ [c, path_ch_out])
               ((initializer_or W_init (variance_scaling_initializer env)) (shape2d kernel_shape @ [c, path_ch_out]))"
  let ?dwv = "depthwise_conv2d (t_value x) ?Wv (strides4 ''NHWC'' stride) (upper padding) ''NHWC''"
  let ?DW = "\<lparr>t_name = ''depthwise'',
      t_shape = conv_shape ''NHWC'' (t_shape x) (c * path_ch_out) ?kh ?kw
                  (strides4 ''NHWC'' stride) (upper padding) [1, 1, 1, 1],
      t_value = ?dwv, variables = None, info = None\<rparr>"
  let ?R1 = "\<lparr>t_name = ''Reshape'',
      t_shape = [if None \<in> set (t_shape ?DW) then None else Some n, Some ?H, Some ?W,
                 Some num_paths, Some ?q, Some path_ch_out],
      t_value = reshape (t_value ?DW) [n, ?H, ?W, num_paths, ?q, path_ch_out],
      variables = None, info = None\<rparr>"
  let ?S = "\<lparr>t_name = ''Sum'', t_shape = drop_axes [4] (t_shape ?R1),
      t_value = reduce_axis (t_value ?R1) 4, variables = None, info = None\<rparr>"
  let ?R2 = "\<lparr>t_name = ''Reshape'',
      t_shape = [if None \<in> set (t_shape ?S) then None else Some n, Some ?H, Some ?W,
                 Some (num_paths * path_ch_out)],
      t_value = reshape (t_value ?S) [n, ?H, ?W, num_paths * path_ch_out],
      variables = None, info = None\<rparr>"
  have gfmt: "get_data_format data_format False = Inr ''NHWC''"
    and sx: "t_shape x = [b, Some h, Some w, Some c]"
    and dx: "dims (t_value x) = [n, h, w, c]"
    and P: "0 < num_paths" and dvd: "c mod num_paths = 0" and c: "0 < c" and m: "0 < path_ch_out"
    and pad: "upper padding \<in> {''SAME'', ''VALID''}"
    and H: "0 < ?H" and W: "0 < ?W"
    using ok by (simp_all add: grouped_ok_def)
  note fits = grouped_ok_fits [OF ok, unfolded layout_def, simplified]
  have cq: "num_paths * ?q = c"
    using dvd by auto
  have q: "0 < ?q"
    using c cq by (metis mult_0_right neq0_conv)
  have idx': "py_index [b, Some h, Some w, Some c] 3 = Inr (Some c)"
    by (simp add: py_index_def)
  have s4d: "shape4d stride ''NHWC'' = Inr (strides4 ''NHWC'' stride)"
    using shape4d_layout [of "''NHWC''" stride] by (simp add: strides4_def)
  have wd: "(shape2d kernel_shape @ [c, path_ch_out]) ! 0 = ?kh"
    "(shape2d kernel_shape @ [c, path_ch_out]) ! 1 = ?kw"
    "(shape2d kernel_shape @ [c, path_ch_out]) ! 2 = c"
    "(shape2d kernel_shape @ [c, path_ch_out]) ! 3 = path_ch_out"
    by (simp_all add: nth_append)
  have cs: "conv_shape ''NHWC'' [b, Some h, Some w, Some c] (c * path_ch_out) ?kh ?kw
                  (strides4 ''NHWC'' stride) (upper padding) [1, 1, 1, 1]
      = [b, Some ?H, Some ?W, Some (c * path_ch_out)]"
    by (simp add: conv_shape_def strides4_def)
  have ddw: "dims ?dwv = [n, ?H, ?W, num_paths * ?q * path_ch_out]"
    using wd by (simp add: out_height_def out_width_def dx strides4_def cq)
  have ddw': "dims (t_value ?DW) = [n, ?H, ?W, num_paths * ?q * path_ch_out]"
    using ddw by simp
  have r1: "\<And>g :: 'r graph. tf_reshape ?DW [Some (- 1), Some (int ?H), Some (int ?W),
       Some (int num_paths), Some (int ?q), Some (int path_ch_out)] g
      = (Inr ?R1, g\<lparr>g_nodes := g_nodes g @ [''Reshape'']\<rparr>)"
    by (rule reshape_paths_NHWC [OF ddw' H W P q m])
  have r2: "\<And>g :: 'r graph. tf_reduce_sum ?R1 [4] g
      = (Inr ?S, g\<lparr>g_nodes := g_nodes g @ [''Sum'']\<rparr>)"
    by (rule tf_reduce_sum_single) simp
  have dS: "dims (t_value ?S) = [n, ?H, ?W, num_paths, path_ch_out]"
    by (simp add: reduce_axis_def reshape_def)
  have r3: "\<And>g :: 'r graph. tf_reshape ?S [Some (- 1), Some (int ?H), Some (int ?W),
       Some (int (num_paths * path_ch_out))] g
      = (Inr ?R2, g\<lparr>g_nodes := g_nodes g @ [''Reshape'']\<rparr>)"
    by (rule reshape_merge_NHWC [OF dS H W P m])
  have val: "t_value ?R2 = depthwise_grouped (t_value x) ?Wv num_paths (strides4 ''NHWC'' stride)
      (upper padding) ''NHWC''"
    using wd ddw by (simp add: depthwise_grouped_def Let_def)
  have i1: "py_index [map_option int b, Some (int ?H), Some (int ?W), Some (int (c * path_ch_out))] 1
      = Inr (Some (int ?H))"
    "py_index [map_option int b, Some (int ?H), Some (int ?W), Some (int (c * path_ch_out))] 2
      = Inr (Some (int ?W))"
    by (simp_all add: py_index_def)
  show ?thesis
    using P dvd c m pad H W wd cs i1 r1 r2 r3 val fits
    apply (simp add: GroupedConv2D_def bind_apply gfmt idx' py_mod_def Let_def sx
        s4d tf_get_variable_apply as_shape_append bias_plain_apply
        tf_nn_depthwise_conv2d_apply as_tensor_def initializer_or_def split del: if_split)
    apply (cases use_bias)
     apply (simp_all add: bind_apply apply_op_apply with_bias_def variable_of_def as_tensor_def
        initializer_or_def)
    done
qed

lemma reshape_paths_NCHW:
  assumes "dims (t_value y) = [n, P * q * m, H, W]" and "0 < H" and "0 < W" and "0 < P"
    and "0 < q" and "0 < m"
  shows "tf_reshape y [Some (- 1), Some (int P), Some (int q), Some (int m), Some (int H),
           Some (int W)] g =
     (Inr \<lparr>t_name = ''Reshape'',
            t_shape = [if None \<in> set (t_shape y) then None else Some n, Some P, Some q, Some m,
                       Some H, Some W],
            t_value = reshape (t_value y) [n, P, q, m, H, W],
            variables = None, info = None\<rparr>,
      g\<lparr>g_nodes := g_nodes g @ [''Reshape'']\<rparr>)"
proof -
  have pos: "0 < prod_list [P, q, m, H, W]"
    using assms by simp
  have tot: "prod_list (dims (t_value y)) = n * prod_list [P, q, m, H, W]"
    by (simp add: assms(1) algebra_simps)
  have dvd: "prod_list (dims (t_value y)) mod prod_list [P, q, m, H, W] = 0"
    unfolding tot by simp
  have quot: "prod_list (dims (t_value y)) div prod_list [P, q, m, H, W] = n"
    unfolding tot using pos by simp
  show ?thesis
    using tf_reshape_infer [OF pos dvd, of g] unfolding quot by simp
qed

lemma reshape_merge_NCHW:
  assumes "dims (t_value y) = [n, P, m, H, W]" and "0 < H" and "0 < W" and "0 < P" and "0 < m"
  shows "tf_reshape y [Some (- 1), Some (int (P * m)), Some (int H), Some (int W)] g =
     (Inr \<lparr>t_name = ''Reshape'',
            t_shape = [if None \<in> set (t_shape y) then None else Some n, Some (P * m), Some H,
                       Some W],
            t_value = reshape (t_value y) [n, P * m, H, W],
            variables = None, info = None\<rparr>,
      g\<lparr>g_nodes := g_nodes g @ [''Reshape'']\<rparr>)"
proof -
  have pos: "0 < prod_list [P * m, H, W]"
    using assms by simp
  have tot: "prod_list (dims (t_value y)) = n * prod_list [P * m, H, W]"
    by (simp add: assms(1) algebra_simps)
  have dvd: "prod_list (dims (t_value y)) mod prod_list [P * m, H, W] = 0"
    unfolding tot by simp
  have quot: "prod_list (dims (t_value y)) div prod_list [P * m, H, W] = n"
    unfolding tot using pos by simp
  show ?thesis
    using tf_reshape_infer [OF pos dvd, of g] unfolding quot by simp
qed


lemma GroupedConv2D_run_NCHW:
  fixes env :: "'a::comm_semiring_0 environment" and g :: "'r graph"
  assumes ok: "grouped_ok x num_paths path_ch_out kernel_shape padding stride data_format
                 ''NCHW'' b n c h w"
  shows "\<exists>r g'. GroupedConv2D env x num_paths path_ch_out kernel_shape False padding stride W_init b_init
       nl use_bias data_format g = (Inr r, g') \<and> t_name r = ''output'' \<and>
     t_value r = nl (with_bias use_bias
        (v_value (variable_of ''b'' [num_paths * path_ch_out] (initializer_or b_init (\<lambda>_ _. 0)))) ''NCHW''
        (depthwise_grouped (t_value x)
           (v_value (variable_of ''W'' (shape2d kernel_shape @ [c, path_ch_out]) (initializer_or W_init (variance_scaling_initializer env))))
           num_paths (strides4 ''NCHW'' stride) (upper padding) ''NCHW'')) \<and>
     variables r = Some
       \<lparr>var_W = variable_of ''W'' (shape2d kernel_shape @ [c, path_ch_out]) (initializer_or W_init (variance_scaling_initializer env)),
        var_b = (if use_bias then Some (variable_of ''b'' [num_paths * path_ch_out] (initializer_or b_init (\<lambda>_ _. 0)))
                 else None)\<rparr> \<and>
     g_variables g' = g_variables g @ [(''W'', shape2d kernel_shape @ [c, path_ch_out])]
        @ (if use_bias then [(''b'', [num_paths * path_ch_out])] else []) \<and>
     g_nodes g' = g_nodes g @ [''DepthwiseConv2dNative'', ''Reshape'', ''Sum'', ''Reshape'']
        @ (if use_bias then [''BiasAdd''] else []) @ [''Activation'']"
proof -
  let ?kh = "shape2d kernel_shape ! 0" and ?kw = "shape2d kernel_shape ! 1"
  let ?H = "out_size (upper padding) h ?kh (shape2d stride ! 0) 1"
  let ?W = "out_size (upper padding) w ?kw (shape2d stride ! 1) 1"
  let ?q = "c div num_paths"
  let ?Wv = "tabulate (shape2d kernel_shape @ [c, path_ch_out])
               ((initializer_or W_init (variance_scaling_initializer env)) (shape2d kernel_shape @ [c, path_ch_out]))"
  let ?dwv = "depthwise_conv2d (t_value x) ?Wv (strides4 ''NCHW'' stride) (upper padding) ''NCHW''"
  let ?DW = "\<lparr>t_name = ''depthwise'',
      t_shape = conv_shape ''NCHW'' (t_shape x) (c * path_ch_out) ?kh ?kw
                  (strides4 ''NCHW'' stride) (upper padding) [1, 1, 1, 1],
      t_value = ?dwv, variables = None, info = None\<rparr>"
  let ?R1 = "\<lparr>t_name = ''Reshape'',
      t_shape = [if None \<in> set (t_shape ?DW) then None else Some n, Some num_paths, Some ?q,
                 Some path_ch_out, Some ?H, Some ?W],
      t_value = reshape (t_value ?DW) [n, num_paths, ?q, path_ch_out, ?H, ?W],
      variables = None, info = None\<rparr>"
  let ?S = "\<lparr>t_name = ''Sum'', t_shape = drop_axes [2] (t_shape ?R1),
      t_value = reduce_axis (t_value ?R1) 2, variables = None, info = None\<rparr>"
  let ?R2 = "\<lparr>t_name = ''Reshape'',
      t_shape = [if None \<in> set (t_shape ?S) then None else Some n,
                 Some (num_paths * path_ch_out), Some ?H, Some ?W],
      t_value = reshape (t_value ?S) [n, num_paths * path_ch_out, ?H, ?W],
      variables = None, info = None\<rparr>"
  have gfmt: "get_data_format data_format False = Inr ''NCHW''"
    and sx: "t_shape x = [b, Some c, Some h, Some w]"
    and dx: "dims (t_value x) = [n, c, h, w]"
    and P: "0 < num_paths" and dvd: "c mod num_paths = 0" and c: "0 < c" and m: "0 < path_ch_out"
    and pad: "upper padding \<in> {''SAME'', ''VALID''}"
    and H: "0 < ?H" and W: "0 < ?W"
    using ok by (simp_all add: grouped_ok_def)
  note fits = grouped_ok_fits [OF ok, unfolded layout_def, simplified]
  have cq: "num_paths * ?q = c"
    using dvd by auto
  have q: "0 < ?q"
    using c cq by (metis mult_0_right neq0_conv)
  have idx': "py_index [b, Some c, Some h, Some w] 1 = Inr (Some c)"
    by (simp add: py_index_def)
  have s4d: "shape4d stride ''NCHW'' = Inr (strides4 ''NCHW'' stride)"
    using shape4d_layout [of "''NCHW''" stride] by (simp add: strides4_def)
  have wd: "(shape2d kernel_shape @ [c, path_ch_out]) ! 0 = ?kh"
    "(shape2d kernel_shape @ [c, path_ch_out]) ! 1 = ?kw"
    "(shape2d kernel_shape @ [c, path_ch_out]) ! 2 = c"
    "(shape2d kernel_shape @ [c, path_ch_out]) ! 3 = path_ch_out"
    by (simp_all add: nth_append)
  have cs: "conv_shape ''NCHW'' [b, Some c, Some h, Some w] (c * path_ch_out) ?kh ?kw
                  (strides4 ''NCHW'' stride) (upper padding) [1, 1, 1, 1]
      = [b, Some (c * path_ch_out), Some ?H, Some ?W]"
    by (simp add: conv_shape_def strides4_def)
  have ddw: "dims ?dwv = [n, num_paths * ?q * path_ch_out, ?H, ?W]"
    using wd by (simp add: out_height_def out_width_def dx strides4_def cq)
  have ddw': "dims (t_value ?DW) = [n, num_paths * ?q * path_ch_out, ?H, ?W]"
    using ddw by simp
  have r1: "\<And>g :: 'r graph. tf_reshape ?DW [Some (- 1), Some (int num_paths), Some (int ?q),
       Some (int path_ch_out), Some (int ?H), Some (int ?W)] g
      = (Inr ?R1, g\<lparr>g_nodes := g_nodes g @ [''Reshape'']\<rparr>)"
    by (rule reshape_paths_NCHW [OF ddw' H W P q m])
  have "\<And>g :: 'r graph. tf_reduce_sum ?R1 [2] g
      = (Inr ?S, g\<lparr>g_nodes := g_nodes g @ [''Sum'']\<rparr>)"
    by (rule tf_reduce_sum_single) simp
  then have r2: "\<And>g :: 'r graph. tf_reduce_sum ?R1 [Suc (Suc 0)] g
      = (Inr ?S, g\<lparr>g_nodes := g_nodes g @ [''Sum'']\<rparr>)"
    by (simp only: numeral_2_eq_2)
  have dS: "dims (t_value ?S) = [n, num_paths, path_ch_out, ?H, ?W]"
    by (simp add: reduce_axis_def reshape_def)
  have r3: "\<And>g :: 'r graph. tf_reshape ?S [Some (- 1), Some (int (num_paths * path_ch_out)), Some (int ?H),
       Some (int ?W)] g
      = (Inr ?R2, g\<lparr>g_nodes := g_nodes g @ [''Reshape'']\<rparr>)"
    by (rule reshape_merge_NCHW [OF dS H W P m])
  have val: "t_value ?R2 = depthwise_grouped (t_value x) ?Wv num_paths (strides4 ''NCHW'' stride)
      (upper padding) ''NCHW''"
    using wd ddw by (simp add: depthwise_grouped_def Let_def)
  have i1: "py_index [map_option int b, Some (int (c * path_ch_out)), Some (int ?H), Some (int ?W)] 2
      = Inr (Some (int ?H))"
    "py_index [map_option int b, Some (int (c * path_ch_out)), Some (int ?H), Some (int ?W)] 3
      = Inr (Some (int ?W))"
    by (simp_all add: py_index_def)
  show ?thesis
    using P dvd c m pad H W wd cs i1 r1 r2 r3 val fits
    apply (simp add: GroupedConv2D_def bind_apply gfmt idx' py_mod_def Let_def sx
        s4d tf_get_variable_apply as_shape_append bias_plain_apply
        tf_nn_depthwise_conv2d_apply as_tensor_def initializer_or_def split del: if_split)
    apply (cases use_bias)
     apply (simp_all add: bind_apply apply_op_apply with_bias_def variable_of_def as_tensor_def
        initializer_or_def)
    done
qed

lemma GroupedConv2D_run:
  fixes env :: "'a::comm_semiring_0 environment" and g :: "'r graph"
  assumes ok: "grouped_ok x num_paths path_ch_out kernel_shape padding stride data_format
                 fmt b n c h w"
  shows "\<exists>r g'. GroupedConv2D env x num_paths path_ch_out kernel_shape False padding stride W_init b_init
       nl use_bias data_format g = (Inr r, g') \<and> t_name r = ''output'' \<and>
     t_value r = nl (with_bias use_bias
        (v_value (variable_of ''b'' [num_paths * path_ch_out] (initializer_or b_init (\<lambda>_ _. 0)))) fmt
        (depthwise_grouped (t_value x)
           (v_value (variable_of ''W'' (shape2d kernel_shape @ [c, path_ch_out]) (initializer_or W_init (variance_scaling_initializer env))))
           num_paths (strides4 fmt stride) (upper padding) fmt)) \<and>
     variables r = Some
       \<lparr>var_W = variable_of ''W'' (shape2d kernel_shape @ [c, path_ch_out]) (initializer_or W_init (variance_scaling_initializer env)),
        var_b = (if use_bias then Some (variable_of ''b'' [num_paths * path_ch_out] (initializer_or b_init (\<lambda>_ _. 0)))
                 else None)\<rparr> \<and>
     g_variables g' = g_variables g @ [(''W'', shape2d kernel_shape @ [c, path_ch_out])]
        @ (if use_bias then [(''b'', [num_paths * path_ch_out])] else []) \<and>
     g_nodes g' = g_nodes g @ [''DepthwiseConv2dNative'', ''Reshape'', ''Sum'', ''Reshape'']
        @ (if use_bias then [''BiasAdd''] else []) @ [''Activation'']"
proof -
  have "fmt = ''NHWC'' \<or> fmt = ''NCHW''"
    using ok by (auto simp: grouped_ok_def dest: get_data_format_False)
  then show ?thesis
  proof
    assume f: "fmt = ''NHWC''"
    show ?thesis
      unfolding f by (rule GroupedConv2D_run_NHWC [OF ok [unfolded f]])
  next
    assume f: "fmt = ''NCHW''"
    show ?thesis
      unfolding f by (rule GroupedConv2D_run_NCHW [OF ok [unfolded f]])
  qed
qed

section \<open>Names and variables of the results\<close>

lemma tf_layers_Conv2DTranspose_run:
  assumes "transpose_accepts data_format padding strides inputs"
  shows "\<exists>res g1. tf_layers_Conv2DTranspose mapping filters kernel_size strides padding data_format
     activation use_bias kernel_initializer bias_initializer kernel_regularizer
     bias_regularizer activity_regularizer inputs g = (Inr res, g1)"
  using assms
  by (auto simp: tf_layers_Conv2DTranspose_def transpose_accepts_def layer_ok_def bind_apply
      bias_variable_apply bias_node_apply activation_node_apply as_tensor_def
      tf_get_variable_apply as_shape_append node_apply Let_def)

lemma Conv2DTranspose_run:
  assumes "transpose_accepts data_format padding strides inputs"
  shows "\<exists>r g'. Conv2DTranspose inputs filters kernel_size strides padding data_format activation
     use_bias kernel_initializer bias_initializer kernel_regularizer bias_regularizer
     activity_regularizer dyn_hw g = (Inr r, g')"
proof -
  obtain outputs kern bias g1 where
    "tf_layers_Conv2DTranspose [(''kernel'', ''W''), (''bias'', ''b'')] filters kernel_size
       strides padding data_format activation use_bias kernel_initializer bias_initializer
       kernel_regularizer bias_regularizer activity_regularizer inputs g
     = (Inr (outputs, kern, bias), g1)"
    using tf_layers_Conv2DTranspose_run [OF assms] by (metis prod_cases3)
  then show ?thesis
    by (simp add: Conv2DTranspose_def bind_apply tf_identity_apply Let_def)
qed

lemma tf_layers_Conv2DTranspose_Inr:
  assumes "tf_layers_Conv2DTranspose mapping filters kernel_size strides padding data_format
     activation use_bias kernel_initializer bias_initializer kernel_regularizer
     bias_regularizer activity_regularizer inputs g = (Inr (outputs, kern, bias), g')"
  shows "transpose_accepts data_format padding strides inputs"
    and "kern = \<lparr>v_name = renamed mapping ''kernel'',
                 v_value = tabulate (shape2d kernel_size @ [filters, the (chan_of (tf_format data_format) (t_shape inputs))])
                   (kernel_initializer (shape2d kernel_size @ [filters, the (chan_of (tf_format data_format) (t_shape inputs))]))\<rparr>"
    and "bias = (if use_bias then Some \<lparr>v_name = renamed mapping ''bias'',
                   v_value = tabulate [filters] (bias_initializer [filters])\<rparr> else None)"
    and "g_variables g' = g_variables g
       @ [(renamed mapping ''kernel'',
           shape2d kernel_size @ [filters, the (chan_of (tf_format data_format) (t_shape inputs))])]
       @ (if use_bias then [(renamed mapping ''bias'', [filters])] else [])"
proof -
  show acc: "transpose_accepts data_format padding strides inputs"
    using assms
    by (simp add: tf_layers_Conv2DTranspose_def transpose_accepts_def layer_ok_def
        split: if_split_asm option.split_asm)
  then obtain c where c: "chan_of (tf_format data_format) (t_shape inputs) = Some c"
    by (auto simp: transpose_accepts_def layer_ok_def)
  have run: "(Inr (outputs, kern, bias), g') = tf_layers_Conv2DTranspose mapping filters
     kernel_size strides padding data_format activation use_bias kernel_initializer
     bias_initializer kernel_regularizer bias_regularizer activity_regularizer inputs g"
    using assms by simp
  show "kern = \<lparr>v_name = renamed mapping ''kernel'',
                 v_value = tabulate (shape2d kernel_size @ [filters, the (chan_of (tf_format data_format) (t_shape inputs))])
                   (kernel_initializer (shape2d kernel_size @ [filters, the (chan_of (tf_format data_format) (t_shape inputs))]))\<rparr>"
    using acc c run
    by (auto simp: tf_layers_Conv2DTranspose_def transpose_accepts_def layer_ok_def bind_apply
        bias_variable_apply bias_node_apply activation_node_apply as_tensor_def
        tf_get_variable_apply as_shape_append node_apply Let_def split: option.splits)
  show "bias = (if use_bias then Some \<lparr>v_name = renamed mapping ''bias'',
                   v_value = tabulate [filters] (bias_initializer [filters])\<rparr> else None)"
    using acc c run
    by (auto simp: tf_layers_Conv2DTranspose_def transpose_accepts_def layer_ok_def bind_apply
        bias_variable_apply bias_node_apply activation_node_apply as_tensor_def
        tf_get_variable_apply as_shape_append node_apply Let_def split: option.splits)
  show "g_variables g' = g_variables g
       @ [(renamed mapping ''kernel'',
           shape2d kernel_size @ [filters, the (chan_of (tf_format data_format) (t_shape inputs))])]
       @ (if use_bias then [(renamed mapping ''bias'', [filters])] else [])"
    using acc c run
    by (auto simp: tf_layers_Conv2DTranspose_def transpose_accepts_def layer_ok_def bind_apply
        bias_variable_apply bias_node_apply activation_node_apply as_tensor_def
        tf_get_variable_apply as_shape_append node_apply Let_def split: option.splits)
qed

lemma Conv2DTranspose_Inr:
  assumes run: "Conv2DTranspose inputs filters kernel_size strides padding data_format activation
     use_bias kernel_initializer bias_initializer kernel_regularizer bias_regularizer
     activity_regularizer dyn_hw g = (Inr r, g')"
  shows "t_name r = ''output''"
    and "variables r = Some
       \<lparr>var_W = variable_of ''W''
          (shape2d kernel_size @ [filters, the (chan_of (tf_format data_format) (t_shape inputs))])
          kernel_initializer,
        var_b = (if use_bias then Some (variable_of ''b'' [filters] bias_initializer) else None)\<rparr>"
    and "g_variables g' = g_variables g
       @ [(''W'', shape2d kernel_size
             @ [filters, the (chan_of (tf_format data_format) (t_shape inputs))])]
       @ (if use_bias then [(''b'', [filters])] else [])"
    and "transpose_accepts data_format padding strides inputs"
proof -
  obtain outputs kern bias g1 where
    layer: "tf_layers_Conv2DTranspose [(''kernel'', ''W''), (''bias'', ''b'')] filters kernel_size
       strides padding data_format activation use_bias kernel_initializer bias_initializer
       kernel_regularizer bias_regularizer activity_regularizer inputs g
     = (Inr (outputs, kern, bias), g1)"
    using run by (auto simp: Conv2DTranspose_def elim!: bind_InrE)
  note facts = tf_layers_Conv2DTranspose_Inr [OF layer]
  have kern: "kern = variable_of ''W''
      (shape2d kernel_size @ [filters, the (chan_of (tf_format data_format) (t_shape inputs))])
      kernel_initializer"
    using facts(2) by (simp add: variable_of_def renamed_def)
  have bias: "bias = (if use_bias then Some (variable_of ''b'' [filters] bias_initializer) else None)"
    using facts(3) by (simp add: variable_of_def renamed_def)
  have gv: "g_variables g1 = g_variables g
       @ [(''W'', shape2d kernel_size
             @ [filters, the (chan_of (tf_format data_format) (t_shape inputs))])]
       @ (if use_bias then [(''b'', [filters])] else [])"
    using facts(4) by (simp add: renamed_def)
  show "transpose_accepts data_format padding strides inputs"
    by (rule facts(1))
  show "t_name r = ''output''"
    using run layer
    by (auto simp: Conv2DTranspose_def bind_apply tf_identity_apply Let_def split: if_split_asm)
  show "variables r = Some
       \<lparr>var_W = variable_of ''W''
          (shape2d kernel_size @ [filters, the (chan_of (tf_format data_format) (t_shape inputs))])
          kernel_initializer,
        var_b = (if use_bias then Some (variable_of ''b'' [filters] bias_initializer) else None)\<rparr>"
    using run layer kern bias
    by (auto simp: Conv2DTranspose_def bind_apply tf_identity_apply Let_def split: if_split_asm)
  show "g_variables g' = g_variables g
       @ [(''W'', shape2d kernel_size
             @ [filters, the (chan_of (tf_format data_format) (t_shape inputs))])]
       @ (if use_bias then [(''b'', [filters])] else [])"
    unfolding gv [symmetric]
    using run layer
    by (auto simp: Conv2DTranspose_def bind_apply tf_identity_apply Let_def split: if_split_asm)
qed

lemma no_assert_bind_post:
  assumes "no_assert m" and "post m Q" and "\<And>x. Q x \<Longrightarrow> no_assert (f x)"
  shows "no_assert (bind m f)"
proof -
  have "fst (bind m f s) \<noteq> Inl AssertionError" for s
  proof (cases "m s")
    case (Pair res s1)
    show ?thesis
    proof (cases res)
      case (Inl e)
      then have "e \<noteq> AssertionError"
        using assms(1) Pair by (auto simp: no_assert_def dest: spec [of _ s])
      then show ?thesis
        using Pair Inl by (simp add: bind_apply)
    next
      case (Inr x)
      then have "Q x"
        using assms(2) Pair by (auto simp: post_def)
      then have "no_assert (f x)"
        by (rule assms(3))
      then show ?thesis
        using Pair Inr by (simp add: bind_apply no_assert_def)
    qed
  qed
  then show ?thesis
    by (simp add: no_assert_def)
qed

lemma tf_layers_Conv2D_post:
  "post (tf_layers_Conv2D mapping filters kernel_size strides padding data_format dilation_rate
           activation use_bias kernel_initializer bias_initializer kernel_regularizer
           bias_regularizer activity_regularizer inputs)
     (\<lambda>_. layer_ok data_format padding inputs)"
  unfolding post_def
proof (intro allI impI)
  fix s r s'
  assume run: "tf_layers_Conv2D mapping filters kernel_size strides padding data_format dilation_rate
           activation use_bias kernel_initializer bias_initializer kernel_regularizer
           bias_regularizer activity_regularizer inputs s = (Inr r, s')"
  obtain outputs kern bias where r: "r = (outputs, kern, bias)"
    by (cases r) auto
  show "layer_ok data_format padding inputs"
    by (rule tf_layers_Conv2D_Inr(1) [OF run [unfolded r]])
qed

lemma Conv2D_layer_no_assert:
  "no_assert (Conv2D env inputs filters kernel_size strides padding data_format dilation_rate
     activation use_bias kernel_initializer bias_initializer kernel_regularizer bias_regularizer
     activity_regularizer 1)"
  unfolding Conv2D_def Let_def
  apply (simp only: refl if_True)
  apply (rule no_assert_bind_post [OF no_assert_layer tf_layers_Conv2D_post])
  apply (subgoal_tac "shape4d strides data_format \<noteq> Inl AssertionError")
   apply (auto intro!: no_assert_bind no_assert_lift split: option.splits)[1]
  apply (simp add: layer_ok_def shape4d_tf)
  done

lemma extends_ret [simp]: "extends (ret x)"
  by (simp add: extends_def)

lemma extends_raise [simp]: "extends (raise e) \<longleftrightarrow> e \<noteq> AssertionError"
  by (simp add: extends_def)

lemma extends_lift: "v \<noteq> Inl AssertionError \<Longrightarrow> extends (lift v)"
  by (cases v) (simp_all add: extends_def)

lemma extends_bind:
  assumes "extends m" and "\<And>x. extends (f x)"
  shows "extends (bind m f)"
proof -
  have "fst (bind m f g) \<noteq> Inl AssertionError \<and>
        (\<exists>vs. g_variables (snd (bind m f g)) = g_variables g @ vs)" for g
  proof (cases "m g")
    case (Pair res g1)
    obtain vs where vs: "g_variables g1 = g_variables g @ vs" and na: "res \<noteq> Inl AssertionError"
      using assms(1) Pair by (auto simp: extends_def dest: spec [of _ g])
    show ?thesis
    proof (cases res)
      case (Inl e)
      then show ?thesis
        using Pair vs na by (simp add: bind_apply)
    next
      case (Inr x)
      obtain ws where "g_variables (snd (f x g1)) = g_variables g1 @ ws"
        and "fst (f x g1) \<noteq> Inl AssertionError"
        using assms(2) [of x] by (auto simp: extends_def dest: spec [of _ g1])
      then show ?thesis
        using Pair Inr vs by (simp add: bind_apply)
    qed
  qed
  then show ?thesis
    by (simp add: extends_def)
qed

lemma extends_node [simp]: "extends (node op nm sh v)"
  by (simp add: extends_def node_apply)

lemma extends_apply_op [simp]: "extends (apply_op f x nm)"
  by (simp add: extends_def apply_op_apply)

lemma extends_bias_add [simp]: "extends (tf_nn_bias_add x b fmt)"
  by (simp add: extends_def)

lemma extends_get_variable [simp]: "extends (tf_get_variable nm shape init)"
  using as_shape_no_assert [of shape]
  by (auto simp: extends_def tf_get_variable_apply split: sum.splits)

lemma extends_depthwise [simp]: "extends (tf_nn_depthwise_conv2d x k strides padding fmt)"
  by (simp add: extends_def tf_nn_depthwise_conv2d_apply Let_def)

lemma extends_reshape [simp]: "extends (tf_reshape x shape)"
  by (simp add: tf_reshape_def Let_def)

lemma extends_reduce_sum [simp]: "extends (tf_reduce_sum x axes)"
  by (simp add: tf_reduce_sum_def)


lemma bind_lift_Inr [simp]: "bind (lift (Inr v)) f = f v"
  by (rule ext) (simp add: bind_apply)

lemma bind_assert_True [simp]: "bind (py_assert True) f = f ()"
  by (rule ext) (simp add: bind_apply)

lemma extends_after_variable:
  assumes "as_shape shape = Inr ds" and "\<And>W. extends (f W)"
  shows "\<exists>res g'. bind (tf_get_variable nm shape init) f g = (res, g') \<and>
     res \<noteq> Inl AssertionError \<and> (\<exists>vs. g_variables g' = g_variables g @ (nm, ds) # vs)"
proof -
  let ?W = "\<lparr>v_name = nm, v_value = tabulate ds (init ds)\<rparr>"
  let ?g1 = "g\<lparr>g_variables := g_variables g @ [(nm, ds)]\<rparr>"
  have eq: "bind (tf_get_variable nm shape init) f g = f ?W ?g1"
    by (simp add: bind_apply tf_get_variable_apply assms(1))
  obtain vs where "g_variables (snd (f ?W ?g1)) = g_variables ?g1 @ vs"
    and "fst (f ?W ?g1) \<noteq> Inl AssertionError"
    using assms(2) [of ?W] by (auto simp: extends_def dest: spec [of _ ?g1])
  then show ?thesis
    unfolding eq by (cases "f ?W ?g1") auto
qed

lemma GroupedConv2D_asserts:
  fixes g :: "'r graph"
  assumes fmt: "get_data_format data_format False = Inr fmt"
    and idx: "py_index (t_shape x) (int (if fmt = ''NHWC'' then 3 else 1)) = Inr (Some c)"
    and P: "0 < num_paths" and bad: "c mod num_paths \<noteq> 0"
  shows "GroupedConv2D env x num_paths path_ch_out kernel_shape sum_paths padding stride W_init
     b_init nl use_bias data_format g = (Inl AssertionError, g)"
  using P bad
  by (simp add: GroupedConv2D_def fmt idx py_mod_def Let_def bind_apply split del: if_split)

lemma GroupedConv2D_proceeds:
  fixes g :: "'r graph"
  assumes fmt: "get_data_format data_format False = Inr fmt"
    and idx: "py_index (t_shape x) (int (if fmt = ''NHWC'' then 3 else 1)) = Inr (Some c)"
    and P: "0 < num_paths" and dvd: "c mod num_paths = 0"
  shows "\<exists>res g' vs. GroupedConv2D env x num_paths path_ch_out kernel_shape sum_paths padding
       stride W_init b_init nl use_bias data_format g = (res, g') \<and>
     res \<noteq> Inl AssertionError \<and>
     g_variables g' = g_variables g @ [(''W'', shape2d kernel_shape @ [c, path_ch_out])] @ vs"
proof -
  have f: "fmt = ''NHWC'' \<or> fmt = ''NCHW''"
    using fmt by (rule get_data_format_False)
  have s4d: "shape4d stride fmt = Inr (strides4 fmt stride)"
    using shape4d_layout [OF f] by (simp add: strides4_def)
  have shp: "as_shape (map (\<lambda>d. PyInt (int d)) (shape2d kernel_shape @ [c, path_ch_out]))
      = Inr (shape2d kernel_shape @ [c, path_ch_out])"
    by (rule as_shape_ints)
  show ?thesis
    using P dvd
    apply (simp add: GroupedConv2D_def fmt idx py_mod_def Let_def s4d split del: if_split
        del: map_append)
    apply (rule extends_after_variable [OF shp])
    apply (intro extends_bind)
    apply (auto intro!: extends_bind extends_lift split: option.splits)
    done
qed

section \<open>The variables a layer makes\<close>

lemma keepsD: "keeps m \<Longrightarrow> m g = (Inr r, g') \<Longrightarrow> g_variables g' = g_variables g"
  by (auto simp: keeps_def)

lemma keeps_ret [simp]: "keeps (ret x)"
  by (simp add: keeps_def)

lemma keeps_raise [simp]: "keeps (raise e)"
  by (simp add: keeps_def)

lemma keeps_lift [simp]: "keeps (lift v)"
  by (cases v) (simp_all add: keeps_def)

lemma keeps_bind:
  assumes "keeps m" and "\<And>x. keeps (f x)"
  shows "keeps (bind m f)"
  unfolding keeps_def
proof (intro allI impI)
  fix g r g'
  assume run: "bind m f g = (Inr r, g')"
  then obtain x g1 where 1: "m g = (Inr x, g1)" and 2: "f x g1 = (Inr r, g')"
    by (rule bind_InrE)
  show "g_variables g' = g_variables g"
    using keepsD [OF assms(1) 1] keepsD [OF assms(2) 2] by simp
qed

lemma keeps_node [simp]: "keeps (node op nm sh v)"
  by (simp add: keeps_def node_apply)

lemma keeps_apply_op [simp]: "keeps (apply_op f x nm)"
  by (simp add: keeps_def apply_op_apply)

lemma keeps_identity [simp]: "keeps (tf_identity x nm)"
  by (simp add: keeps_def tf_identity_apply)

lemma keeps_bias_add [simp]: "keeps (tf_nn_bias_add x b fmt)"
  by (simp add: keeps_def)

lemma keeps_depthwise [simp]: "keeps (tf_nn_depthwise_conv2d x k strides padding fmt)"
  by (simp add: keeps_def tf_nn_depthwise_conv2d_apply Let_def)

lemma keeps_reshape [simp]: "keeps (tf_reshape x shape)"
  by (simp add: tf_reshape_def Let_def)

lemma keeps_reduce_sum [simp]: "keeps (tf_reduce_sum x axes)"
  by (simp add: tf_reduce_sum_def)

lemma keeps_transpose [simp]: "keeps (tf_transpose x perm)"
  by (simp add: tf_transpose_def)

lemma keeps_resize [simp]: "keeps (tf_image_resize_images interp x sz method align_corners)"
  by (simp add: tf_image_resize_images_def keeps_bind)

lemma keeps_ResizeImages:
  "keeps (ResizeImages interp images sz method align_corners data_format)"
  unfolding ResizeImages_def by (intro keeps_bind) simp_all

lemma keeps_grouped_tail:
  "keeps (grouped_tail x num_paths path_ch_out sum_paths padding nl fmt ch_in stride W b)"
  unfolding grouped_tail_def Let_def
  by (intro keeps_bind) (simp_all add: keeps_bind split: option.splits)

lemma post_grouped_tail:
  "post (grouped_tail x num_paths path_ch_out sum_paths padding nl fmt ch_in stride W b)
     (\<lambda>r. t_name r = ''output'' \<and> variables r = Some \<lparr>var_W = W, var_b = b\<rparr>)"
  unfolding grouped_tail_def Let_def
  apply (rule post_bind)
  apply (rule post_bind)
  apply (rule post_bind)
  apply (rule post_bind)
  apply (rule post_bind)
  apply (rule post_bind_strong [OF post_apply_op])
  apply simp
  done

lemma GroupedConv2D_split:
  "GroupedConv2D env x num_paths path_ch_out kernel_shape sum_paths padding stride W_init b_init
     nl use_bias data_format =
   bind (lift (get_data_format data_format False)) (\<lambda>fmt.
   bind (lift (py_index (t_shape x) (int (if fmt = ''NHWC'' then 3 else 1)))) (\<lambda>ch_in.
   case ch_in of
     None \<Rightarrow> raise TypeError
   | Some ch_in \<Rightarrow>
   bind (lift (py_mod ch_in num_paths)) (\<lambda>m.
   bind (py_assert (m = 0)) (\<lambda>_.
   bind (lift (shape4d stride fmt)) (\<lambda>stride4.
   bind (tf_get_variable ''W''
           (map (\<lambda>d. PyInt (int d)) (shape2d kernel_shape @ [ch_in, path_ch_out]))
           (initializer_or W_init (variance_scaling_initializer env))) (\<lambda>W.
   bind (if use_bias
         then bind (tf_get_variable ''b''
                      [PyInt (int (if sum_paths then path_ch_out else num_paths * path_ch_out))]
                      (initializer_or b_init (\<lambda>_ _. 0))) (\<lambda>b. ret (Some b))
         else ret None) (\<lambda>b.
   grouped_tail x num_paths path_ch_out sum_paths (upper padding) nl fmt ch_in stride4 W b)))))))"
  unfolding GroupedConv2D_def grouped_tail_def Let_def initializer_or_def
  by (rule refl)

lemma GroupedConv2D_Inr:
  fixes env :: "'a::comm_semiring_0 environment" and g :: "'r graph"
  assumes run: "GroupedConv2D env x num_paths path_ch_out kernel_shape sum_paths padding stride
     W_init b_init nl use_bias data_format g = (Inr r, g')"
  shows "\<exists>fmt c. get_data_format data_format False = Inr fmt \<and>
     py_index (t_shape x) (int (if fmt = ''NHWC'' then 3 else 1)) = Inr (Some c) \<and>
     t_name r = ''output'' \<and>
     variables r = Some
       \<lparr>var_W = variable_of ''W'' (shape2d kernel_shape @ [c, path_ch_out])
          (initializer_or W_init (variance_scaling_initializer env)),
        var_b = (if use_bias
                 then Some (variable_of ''b''
                        [if sum_paths then path_ch_out else num_paths * path_ch_out]
                        (initializer_or b_init (\<lambda>_ _. 0)))
                 else None)\<rparr> \<and>
     g_variables g' = g_variables g @ [(''W'', shape2d kernel_shape @ [c, path_ch_out])]
        @ (if use_bias
           then [(''b'', [if sum_paths then path_ch_out else num_paths * path_ch_out])]
           else [])"
proof -
  let ?sh = "shape2d kernel_shape"
  let ?d = "if sum_paths then path_ch_out else num_paths * path_ch_out"
  let ?Wi = "initializer_or W_init (variance_scaling_initializer env)"
  let ?bi = "initializer_or b_init (\<lambda>_ _. 0)"
  note run0 = run [unfolded GroupedConv2D_split]
  obtain fmt where fmt: "get_data_format data_format False = Inr fmt"
    using run0 by (cases "get_data_format data_format False") (simp_all add: bind_apply)
  note run1 = run0 [unfolded fmt bind_lift_Inr]
  obtain c where idx: "py_index (t_shape x) (int (if fmt = ''NHWC'' then 3 else 1)) = Inr (Some c)"
    using run1
    by (cases "py_index (t_shape x) (int (if fmt = ''NHWC'' then 3 else 1))")
      (auto simp: bind_apply split: option.splits)
  note run2 = run1 [unfolded idx bind_lift_Inr option.case]
  have dvd: "py_mod c num_paths = Inr 0"
    using run2
    by (cases "py_mod c num_paths") (auto simp: bind_apply py_assert_apply split: if_split_asm)
  note run3 = run2 [unfolded dvd bind_lift_Inr, simplified]
  obtain s4 where s4: "shape4d stride fmt = Inr s4"
    using run3 by (cases "shape4d stride fmt") (simp_all add: bind_apply)
  note run4 = run3 [unfolded s4 bind_lift_Inr]
  let ?W = "\<lparr>v_name = ''W'', v_value = tabulate (?sh @ [c, path_ch_out]) (?Wi (?sh @ [c, path_ch_out]))\<rparr>"
  let ?b = "if use_bias then Some \<lparr>v_name = ''b'', v_value = tabulate [?d] (?bi [?d])\<rparr> else None"
  let ?g = "g\<lparr>g_variables := g_variables g @ [(''W'', ?sh @ [c, path_ch_out])]
      @ (if use_bias then [(''b'', [?d])] else [])\<rparr>"
  have tail: "grouped_tail x num_paths path_ch_out sum_paths (upper padding) nl fmt c s4 ?W ?b ?g
      = (Inr r, g')"
    using run4
    by (simp add: bind_apply tf_get_variable_apply as_shape_append bias_plain_apply)
  have "t_name r = ''output'' \<and> variables r = Some \<lparr>var_W = ?W, var_b = ?b\<rparr> \<and>
      g_variables g' = g_variables ?g"
    using postD [OF post_grouped_tail tail] keepsD [OF keeps_grouped_tail tail] by simp
  then show ?thesis
    using fmt idx by (auto simp: variable_of_def)
qed
section \<open>Properties of the training script\<close>

lemma main_assert_fails:
  assumes "init_channel (parsed env) \<noteq> 64 \<or> num_classes (parsed env) \<noteq> 1000"
  shows "main env [] = (Inl AssertionError, [ParseArgs])"
  using assms by (auto simp: main_def py_assert_def bind_apply)

lemma main_runs:
  assumes "init_channel (parsed env) = 64" and "num_classes (parsed env) = 1000"
    and "ilsvrc_mean env \<noteq> None" and "ilsvrc_std env \<noteq> None"
    and "nr_gpu (parsed env) \<noteq> 0"
  shows "main env [] =
    (Inr (), full_run env)"
  using assms
  by (auto simp: main_def get_config_def get_data_def py_floordiv_def setup_calls_def
      restore_calls_def full_run_def Let_def py_assert_def bind_apply split: option.splits)

lemma main_constants_missing:
  assumes "init_channel (parsed env) = 64" and "num_classes (parsed env) = 1000"
    and "ilsvrc_mean env = None \<or> ilsvrc_std env = None"
  shows "main env [] = (Inl AssertionError, [ParseArgs])"
  using assms by (auto simp: main_def py_assert_def bind_apply)

lemma main_no_gpu:
  assumes "init_channel (parsed env) = 64" and "num_classes (parsed env) = 1000"
    and "ilsvrc_mean env \<noteq> None" and "ilsvrc_std env \<noteq> None"
    and "nr_gpu (parsed env) = 0"
  shows "main env [] = (Inl ZeroDivisionError, take 6 (setup_calls (parsed env)))"
  using assms
  by (auto simp: main_def get_config_def get_data_def py_floordiv_def setup_calls_def
      py_assert_def bind_apply)

lemma full_run_Cons: "full_run env = ParseArgs # tl (full_run env)"
  by (simp add: full_run_def setup_calls_def)

lemma full_run_take6:
  "full_run env = take 6 (setup_calls (parsed env)) @ drop 6 (full_run env)"
  by (simp add: full_run_def setup_calls_def)

lemma train_last_only:
  "Train n \<in> set (full_run env) \<Longrightarrow> n = nr_gpu (parsed env)"
  by (auto simp: full_run_def setup_calls_def restore_calls_def split: option.splits if_splits)

lemma train_not_before_last: "Train n \<notin> set (butlast (full_run env))"
  by (auto simp: full_run_def setup_calls_def restore_calls_def butlast_append
      split: option.splits if_splits)

text \<open>
  C7. Every run of the entry point makes its calls in one order: the argument parser
  first, then (only if \<open>init_channel = 64\<close> and \<open>num_classes = 1000\<close>; otherwise the run
  ends in AssertionError with the parser as its only call) the two logger calls, then
  the calls of \<open>get_config\<close> (the two datasets, the model, the callbacks, the
  configuration), then the optional checkpoint calls, and the trainer last. The calls
  made are always an initial part of that sequence, the trainer is not in it before its
  last place, and the run returns exactly when it made the whole sequence. And the run
  does go on: when both values are as asserted, the normalisation constants exist and
  \<open>nr_gpu\<close> is not zero, the run makes the whole sequence, trainer included, and
  returns. The two other ways a run ends are the assertion on the normalisation
  constants (AssertionError, the parser its only call) and \<open>nr_gpu = 0\<close>
  (ZeroDivisionError at \<^verbatim>\<open>dataset_train.size() // args.nr_gpu\<close>, after the logger and the
  dataset calls).
\<close>

theorem main_order:
  assumes "main env [] = (r, tr)"
  shows "(\<exists>rest. full_run env = tr @ rest) \<and> take 1 tr = [ParseArgs] \<and>
         (init_channel (parsed env) \<noteq> 64 \<or> num_classes (parsed env) \<noteq> 1000 \<longrightarrow>
            r = Inl AssertionError \<and> tr = [ParseArgs]) \<and>
         ((\<exists>n. Train n \<in> set tr) \<longleftrightarrow> tr = full_run env) \<and>
         (r = Inr () \<longleftrightarrow> tr = full_run env) \<and>
         (\<forall>n. Train n \<notin> set (butlast (full_run env))) \<and>
         full_run env =
           [ParseArgs, SetLogRoot (log_dir (parsed env)), AutoSetDir] @
           drop 3 (setup_calls (parsed env)) @ restore_calls env @
           [Train (nr_gpu (parsed env))] \<and>
         (init_channel (parsed env) = 64 \<and> num_classes (parsed env) = 1000 \<and>
          ilsvrc_mean env \<noteq> None \<and> ilsvrc_std env \<noteq> None \<and> nr_gpu (parsed env) \<noteq> 0 \<longrightarrow>
            r = Inr () \<and> tr = full_run env) \<and>
         (init_channel (parsed env) = 64 \<and> num_classes (parsed env) = 1000 \<and>
          (ilsvrc_mean env = None \<or> ilsvrc_std env = None) \<longrightarrow>
            r = Inl AssertionError \<and> tr = [ParseArgs]) \<and>
         (init_channel (parsed env) = 64 \<and> num_classes (parsed env) = 1000 \<and>
          ilsvrc_mean env \<noteq> None \<and> ilsvrc_std env \<noteq> None \<and> nr_gpu (parsed env) = 0 \<longrightarrow>
            r = Inl ZeroDivisionError \<and>
            tr = [ParseArgs, SetLogRoot (log_dir (parsed env)), AutoSetDir,
                  GetData (if is_toy (parsed env) then ''toy_train'' else ''train''),
                  GetData (if is_toy (parsed env) then ''toy_validation'' else ''validation''),
                  DatasetSize])"
proof -
  have shape: "full_run env =
      [ParseArgs, SetLogRoot (log_dir (parsed env)), AutoSetDir] @
      drop 3 (setup_calls (parsed env)) @ restore_calls env @ [Train (nr_gpu (parsed env))]"
    by (simp add: full_run_def setup_calls_def)
  have last_only: "\<forall>n. Train n \<notin> set (butlast (full_run env))"
    by (simp add: train_not_before_last)
  have in_full: "\<exists>n. Train n \<in> set (full_run env)"
    by (auto simp: full_run_def)
  consider (bad) "init_channel (parsed env) \<noteq> 64 \<or> num_classes (parsed env) \<noteq> 1000"
    | (missing) "init_channel (parsed env) = 64" "num_classes (parsed env) = 1000"
        "ilsvrc_mean env = None \<or> ilsvrc_std env = None"
    | (gpu) "init_channel (parsed env) = 64" "num_classes (parsed env) = 1000"
        "ilsvrc_mean env \<noteq> None" "ilsvrc_std env \<noteq> None" "nr_gpu (parsed env) = 0"
    | (run) "init_channel (parsed env) = 64" "num_classes (parsed env) = 1000"
        "ilsvrc_mean env \<noteq> None" "ilsvrc_std env \<noteq> None" "nr_gpu (parsed env) \<noteq> 0"
    by blast
  then show ?thesis
  proof cases
    case bad
    then have res: "r = Inl AssertionError" "tr = [ParseArgs]"
      using main_assert_fails [of env] assms by simp_all
    have "full_run env = tr @ tl (full_run env)"
      using full_run_Cons [of env] res by simp
    moreover have "tr \<noteq> full_run env"
      using res by (simp add: full_run_def setup_calls_def)
    ultimately show ?thesis
      using res bad shape last_only by auto
  next
    case missing
    then have res: "r = Inl AssertionError" "tr = [ParseArgs]"
      using main_constants_missing [of env] assms by simp_all
    have "full_run env = tr @ tl (full_run env)"
      using full_run_Cons [of env] res by simp
    moreover have "tr \<noteq> full_run env"
      using res by (simp add: full_run_def setup_calls_def)
    ultimately show ?thesis
      using res missing shape last_only by auto
  next
    case gpu
    then have res: "r = Inl ZeroDivisionError" "tr = take 6 (setup_calls (parsed env))"
      using main_no_gpu [of env] assms by simp_all
    have "full_run env = tr @ drop 6 (full_run env)"
      using full_run_take6 [of env] res by simp
    moreover have "tr \<noteq> full_run env"
      using res by (simp add: full_run_def setup_calls_def)
    moreover have "\<forall>n. Train n \<notin> set tr"
      using res by (simp add: setup_calls_def)
    moreover have "take 1 tr = [ParseArgs]"
      using res by (simp add: setup_calls_def)
    moreover have "tr = [ParseArgs, SetLogRoot (log_dir (parsed env)), AutoSetDir,
                  GetData (if is_toy (parsed env) then ''toy_train'' else ''train''),
                  GetData (if is_toy (parsed env) then ''toy_validation'' else ''validation''),
                  DatasetSize]"
      using res by (simp add: setup_calls_def)
    ultimately show ?thesis
      using res(1) gpu shape last_only by auto
  next
    case run
    then have res: "r = Inr ()" "tr = full_run env"
      using main_runs [of env] assms by simp_all
    have "take 1 tr = [ParseArgs]"
      using res by (simp add: full_run_def setup_calls_def)
    then show ?thesis
      using res run shape last_only in_full by auto
  qed
qed

theorem main_order_witness:
  "main example_env [] = (Inr (), full_run example_env) \<and>
   full_run example_env =
     [ParseArgs, SetLogRoot (Some ''log''), AutoSetDir, GetData ''train'',
      GetData ''validation'', DatasetSize, NewAnytimeResnet,
      ComputeClassificationCallbacks, ComputeLossSelectCallbacks, NewCallbacks,
      NewTrainConfig, PathExists ''ckpt'', SaverRestore ''ckpt'', Train 2] \<and>
   take 1 (full_run example_env) = [ParseArgs]"
proof -
  obtain r tr where res: "main example_env [] = (r, tr)"
    by (cases "main example_env []") auto
  have "r = Inr () \<and> tr = full_run example_env"
    using main_order [OF res] by (simp add: example_env_def)
  then have run: "main example_env [] = (Inr (), full_run example_env)"
    using res by simp
  have calls: "full_run example_env =
     [ParseArgs, SetLogRoot (Some ''log''), AutoSetDir, GetData ''train'',
      GetData ''validation'', DatasetSize, NewAnytimeResnet,
      ComputeClassificationCallbacks, ComputeLossSelectCallbacks, NewCallbacks,
      NewTrainConfig, PathExists ''ckpt'', SaverRestore ''ckpt'', Train 2]"
    by (simp add: setup_calls_def restore_calls_def full_run_def example_env_def)
  show ?thesis
    using run calls by simp
qed

section \<open>Facts about the example inputs\<close>

lemma layer_ok_image4 [simp]:
  "layer_ok ''channels_last'' ''same'' image4" "layer_ok ''channels_last'' ''same'' image_unknown"
  by (simp_all add: layer_ok_def image4_def image_unknown_def tf_format_def chan_of_def)

lemma layer_accepts_same:
  assumes "layer_ok data_format padding inputs" and "upper padding = ''SAME''"
    and "0 < shape2d strides ! 0 \<and> 0 < shape2d strides ! 1"
    and "0 < shape2d dilation_rate ! 0 \<and> 0 < shape2d dilation_rate ! 1"
    and "shape2d strides = [1, 1] \<or> shape2d dilation_rate = [1, 1]"
  shows "layer_accepts data_format padding kernel_size strides dilation_rate inputs"
  using assms by (auto simp: layer_accepts_def window_fits_def)

lemma get_data_format_channels [simp]:
  "get_data_format ''channels_last'' False = Inr ''NHWC''"
  "get_data_format ''channels_first'' False = Inr ''NCHW''"
  "get_data_format ''NHWC'' False = Inr ''NHWC''"
  "get_data_format ''NCHW'' False = Inr ''NCHW''"
  by (simp_all add: get_data_format_def)

lemma group_ok_image4 [simp]:
  "group_ok python3_tf15 image4 6 ''channels_last'' (Pair 2 2) None None None 2 ''NHWC'' 4"
  "group_ok python2_tf14 image4 6 ''channels_last'' (Pair 1 1) None None None 2 ''NHWC'' 4"
  by (simp_all add: group_ok_def image4_def py_index_def python3_tf15_def python2_tf14_def)

lemma rank_image4 [simp]: "length (t_shape image4) = 4"
  by (simp add: image4_def)

lemma upper_same_valid [simp]: "upper ''same'' \<in> {''SAME'', ''VALID''}"
  by (simp add: upper_same)

lemma group_accepts_image4:
  "group_accepts env image4 kernel_size (Pair 1 1) ''same'' (Pair 1 1) ''NHWC''"
  by (simp add: group_accepts_def window_fits_def strides4_def dilations4_def shape2d_def
      layout_def height_of_def width_of_def image4_def upper_same)

lemma group_ok_image4_small:
  "group_ok python2_tf14 image4 2 ''channels_last'' (Pair 1 1) None None None 2 ''NHWC'' 4"
  by (simp add: group_ok_def image4_def py_index_def python2_tf14_def)

lemma example_dataflow:
  "(let groups = map (split_part (t_value image4) 2 (chan_axis ''NHWC'')) [0..<2];
        kernels = map (split_part (v_value (variable_of ''W'' (shape2d (Square 1) @ [4 div 2, 2])
                     counting)) 2 3) [0..<2];
        outputs = map (\<lambda>(i, k). conv2d i k (strides4 ''NHWC'' (Pair 1 1)) (upper ''same'')
                                 (dilations4 python2_tf14 ''NHWC'' (Pair 1 1)) ''NHWC'')
                      (zip groups kernels);
        conv = concat_arrays outputs (chan_axis ''NHWC'');
        pre = (if True
               then bias_add conv (v_value (variable_of ''b'' [2] zeros)) ''NHWC''
               else conv)
    in case (None :: int activation option) of None \<Rightarrow> pre | Some f \<Rightarrow> f pre)
   = \<lparr>dims = [1, 2, 2, 2], data = [7, 22, 23, 46, 39, 70, 55, 94]\<rparr>"
  by code_simp

lemma rank_nchw4: "length (t_shape nchw4) = 4"
  by (simp add: nchw4_def)

lemma example_resize:
  "transpose_array
     (resize_array nearest (transpose_array (t_value nchw4) [0, 2, 3, 1]) (1, 2) () True)
     [0, 3, 1, 2]
   = \<lparr>dims = [1, 4, 1, 2], data = [1, 2, 5, 6, 9, 10, 13, 14]\<rparr>"
  by code_simp

lemma grouped_ok_image4:
  "grouped_ok image4 2 2 (Square 1) ''same'' (Square 1) ''NHWC'' ''NHWC'' None 1 4 2 2"
  by (simp add: grouped_ok_def image4_def shape2d_def out_size_def upper_same layout_def)


section \<open>The claims about \<^verbatim>\<open>Conv2D\<close>\<close>

text \<open>
  C3. Whenever \<^verbatim>\<open>Conv2D\<close> with \<open>split = 1\<close> returns a tensor, the input has a known channel
  count \<open>in_channel\<close> and the tensor carries \<open>info.flops\<close>. If the static height of the input
  is unknown or not positive, the flop count is
  \<open>in_channel * filters * kernel_h * kernel_w\<close>. If the height \<open>H\<close> is known and positive, then
  the width \<open>W\<close> is known as well and the flop count is that product times the quotient of
  \<open>H * W\<close> by \<open>stride_h * stride_w\<close>, where the quotient is the one Python's \<^verbatim>\<open>/\<close> computes: the
  true quotient under Python 3, the floored integer quotient under Python 2
  (\<open>py_quotient\<close>). Floating-point numbers are read as reals.
\<close>

theorem conv2d_flops:
  fixes env :: "'a::comm_semiring_0 environment" and g :: "'r graph"
  assumes "Conv2D env inputs filters kernel_size strides padding data_format dilation_rate
     activation use_bias kernel_initializer bias_initializer kernel_regularizer bias_regularizer
     activity_regularizer 1 g = (Inr r, g')"
  shows "\<exists>in_channel fl.
     chan_of (tf_format data_format) (t_shape inputs) = Some in_channel \<and>
     info r = Some \<lparr>flops = fl\<rparr> \<and>
     (case height_of (tf_format data_format) (t_shape inputs) of
        None \<Rightarrow>
          fl = real in_channel * real filters * real (shape2d kernel_size ! 0)
                 * real (shape2d kernel_size ! 1)
      | Some h \<Rightarrow>
          if 0 < h
          then \<exists>w. width_of (tf_format data_format) (t_shape inputs) = Some w \<and>
                 fl = real in_channel * real filters * real (shape2d kernel_size ! 0)
                        * real (shape2d kernel_size ! 1)
                        * py_quotient env (h * w) (shape2d strides ! 0 * shape2d strides ! 1)
          else fl = real in_channel * real filters * real (shape2d kernel_size ! 0)
                      * real (shape2d kernel_size ! 1))"
proof -
  have "layer_ok data_format padding inputs"
    using Conv2D_layer_Inr(1) [OF assms] .
  then obtain c where c: "chan_of (tf_format data_format) (t_shape inputs) = Some c"
    by (auto simp: layer_ok_def)
  show ?thesis
    using Conv2D_layer_Inr(4) [OF assms] c
    by (auto simp: Let_def split: option.splits if_splits)
qed

theorem conv2d_flops_witness:
  "(\<exists>r g'. Conv2D python2_tf14 image4 6 (Square 3) (Pair 1 2) ''same'' ''channels_last''
       (Pair 1 1) None True counting zeros None None None 1 empty_graph = (Inr r, g') \<and>
       info r = Some \<lparr>flops = 432\<rparr>) \<and>
   (\<exists>r g'. Conv2D python3_tf15 image4 6 (Square 3) (Pair 1 3) ''same'' ''channels_last''
       (Pair 1 1) None True counting zeros None None None 1 empty_graph = (Inr r, g') \<and>
       info r = Some \<lparr>flops = 288\<rparr>) \<and>
   (\<exists>r g'. Conv2D python2_tf14 image_unknown 6 (Square 3) (Pair 1 2) ''same'' ''channels_last''
       (Pair 1 1) None True counting zeros None None None 1 empty_graph = (Inr r, g') \<and>
       info r = Some \<lparr>flops = 216\<rparr>) \<and>
   (\<exists>r g'. Conv2D python2_tf14 image4 6 (Square 3) (Pair 1 3) ''same'' ''channels_last''
       (Pair 1 1) None True counting zeros None None None 1 empty_graph = (Inr r, g') \<and>
       info r = Some \<lparr>flops = 216\<rparr>)"
proof -
  have "\<exists>r g'. Conv2D python2_tf14 image4 6 (Square 3) (Pair 1 3) ''same''
       ''channels_last'' (Pair 1 1) None True counting zeros None None None 1 empty_graph
       = (Inr r, g')"
    by (rule Conv2D_layer_run [OF layer_accepts_same [OF layer_ok_image4(1)]])
       (simp_all add: image4_def tf_format_def width_of_def shape2d_def)
  then obtain r4 g4 where run4: "Conv2D python2_tf14 image4 6 (Square 3) (Pair 1 3) ''same''
       ''channels_last'' (Pair 1 1) None True counting zeros None None None 1 empty_graph
       = (Inr r4, g4)"
    by blast
  have flops4: "info r4 = Some \<lparr>flops = 216\<rparr>"
    using conv2d_flops [OF run4]
    by (simp add: image4_def tf_format_def chan_of_def height_of_def width_of_def shape2d_def
        py_quotient_def python2_tf14_def)
  have "\<exists>r g'. Conv2D python2_tf14 image4 6 (Square 3) (Pair 1 2) ''same''
       ''channels_last'' (Pair 1 1) None True counting zeros None None None 1 empty_graph
       = (Inr r, g')"
    by (rule Conv2D_layer_run [OF layer_accepts_same [OF layer_ok_image4(1)]])
       (simp_all add: image4_def tf_format_def width_of_def shape2d_def)
  then obtain r1 g1 where run1: "Conv2D python2_tf14 image4 6 (Square 3) (Pair 1 2) ''same''
       ''channels_last'' (Pair 1 1) None True counting zeros None None None 1 empty_graph
       = (Inr r1, g1)"
    by blast
  have "\<exists>r g'. Conv2D python3_tf15 image4 6 (Square 3) (Pair 1 3) ''same''
       ''channels_last'' (Pair 1 1) None True counting zeros None None None 1 empty_graph
       = (Inr r, g')"
    by (rule Conv2D_layer_run [OF layer_accepts_same [OF layer_ok_image4(1)]])
       (simp_all add: image4_def tf_format_def width_of_def shape2d_def)
  then obtain r2 g2 where run2: "Conv2D python3_tf15 image4 6 (Square 3) (Pair 1 3) ''same''
       ''channels_last'' (Pair 1 1) None True counting zeros None None None 1 empty_graph
       = (Inr r2, g2)"
    by blast
  have "\<exists>r g'. Conv2D python2_tf14 image_unknown 6 (Square 3) (Pair 1 2) ''same''
       ''channels_last'' (Pair 1 1) None True counting zeros None None None 1 empty_graph
       = (Inr r, g')"
    by (rule Conv2D_layer_run [OF layer_accepts_same [OF layer_ok_image4(2)]])
       (simp_all add: image_unknown_def tf_format_def height_of_def shape2d_def)
  then obtain r3 g3 where run3: "Conv2D python2_tf14 image_unknown 6 (Square 3) (Pair 1 2) ''same''
       ''channels_last'' (Pair 1 1) None True counting zeros None None None 1 empty_graph
       = (Inr r3, g3)"
    by blast
  have "info r1 = Some \<lparr>flops = 432\<rparr>"
    using conv2d_flops [OF run1]
    by (simp add: image4_def tf_format_def chan_of_def height_of_def width_of_def shape2d_def
        py_quotient_def python2_tf14_def)
  moreover have "info r2 = Some \<lparr>flops = 288\<rparr>"
    using conv2d_flops [OF run2]
    by (simp add: image4_def tf_format_def chan_of_def height_of_def width_of_def shape2d_def
        py_quotient_def python3_tf15_def)
  moreover have "info r3 = Some \<lparr>flops = 216\<rparr>"
    using conv2d_flops [OF run3]
    by (simp add: image_unknown_def tf_format_def chan_of_def height_of_def width_of_def
        shape2d_def py_quotient_def python2_tf14_def)
  ultimately show ?thesis
    using run1 run2 run3 run4 flops4 by blast
qed

text \<open>
  The quotient is not always the true one. Under Python 2 the \<open>2 \<times> 2\<close> input with four
  channels, six filters, a \<open>3 \<times> 3\<close> kernel and strides \<open>(1, 3)\<close> has a known positive height,
  and \<^verbatim>\<open>Conv2D\<close> returns the flop count \<open>4 * 6 * 3 * 3 * (4 div 3) = 216\<close>, which is not
  \<open>4 * 6 * 3 * 3 * (2 * 2) / (1 * 3) = 288\<close>.
\<close>

theorem conv2d_flops_python2_floored:
  "\<exists>r g'. Conv2D python2_tf14 image4 6 (Square 3) (Pair 1 3) ''same'' ''channels_last''
       (Pair 1 1) None True counting zeros None None None 1 empty_graph = (Inr r, g') \<and>
     chan_of (tf_format ''channels_last'') (t_shape image4) = Some 4 \<and>
     height_of (tf_format ''channels_last'') (t_shape image4) = Some 2 \<and>
     width_of (tf_format ''channels_last'') (t_shape image4) = Some 2 \<and>
     info r = Some \<lparr>flops = 216\<rparr> \<and>
     (216 :: real) \<noteq> real 4 * real 6 * real (shape2d (Square 3) ! 0) * real (shape2d (Square 3) ! 1)
        * (real (2 * 2) / real (shape2d (Pair 1 3) ! 0 * shape2d (Pair 1 3) ! 1))"
proof -
  have "\<exists>r g'. Conv2D python2_tf14 image4 6 (Square 3) (Pair 1 3) ''same''
       ''channels_last'' (Pair 1 1) None True counting zeros None None None 1 empty_graph
       = (Inr r, g')"
    by (rule Conv2D_layer_run [OF layer_accepts_same [OF layer_ok_image4(1)]])
       (simp_all add: image4_def tf_format_def width_of_def shape2d_def)
  then obtain r g' where run: "Conv2D python2_tf14 image4 6 (Square 3) (Pair 1 3) ''same''
       ''channels_last'' (Pair 1 1) None True counting zeros None None None 1 empty_graph
       = (Inr r, g')"
    by blast
  have "info r = Some \<lparr>flops = 216\<rparr>"
    using Conv2D_layer_Inr(4) [OF run]
    by (simp add: image4_def tf_format_def chan_of_def height_of_def width_of_def shape2d_def
        py_quotient_def python2_tf14_def)
  then show ?thesis
    using run
    by (simp add: image4_def tf_format_def chan_of_def height_of_def width_of_def shape2d_def)
qed

text \<open>
  C6. With \<open>split > 1\<close>, a data format that \<^verbatim>\<open>get_data_format\<close> knows and an input shape
  that has the channel axis, \<^verbatim>\<open>Conv2D\<close> ends in AssertionError, the graph untouched, as soon as
  one of \<open>kernel_regularizer\<close>, \<open>bias_regularizer\<close>, \<open>activity_regularizer\<close> is not None; and
  for every \<open>split\<close> other than 1 and every input such a call ends in an exception with the
  graph untouched. With \<open>split = 1\<close> no call ends in AssertionError, whatever the
  regularizers are; the call returns whenever the layer accepts its arguments
  (\<open>layer_accepts\<close>: a data format and a padding it knows, a 4-D input with a known channel
  count, positive strides and dilations, no stride above one together with a dilation
  above one, a kernel that fits under \<^verbatim>\<open>VALID\<close>) and the width of the input is known
  whenever its height is known and positive; and whenever it
  returns, the three regularizers have reached the layer: the regularisation losses of
  the graph have grown by \<open>kernel_regularizer\<close> on \<open>W\<close>, by \<open>bias_regularizer\<close> on \<open>b\<close> (when
  \<open>use_bias\<close>) and by \<open>activity_regularizer\<close> on the output of the layer, each only if given.
\<close>

theorem conv2d_regularizers:
  fixes env :: "'a::comm_semiring_0 environment" and g :: "'r graph"
  shows
   "(1 < split \<and> get_data_format data_format False = Inr fmt \<and>
     py_index (t_shape inputs) (if fmt = ''NHWC'' then - 1 else 1) = Inr ch \<and>
     (kernel_regularizer \<noteq> None \<or> bias_regularizer \<noteq> None \<or> activity_regularizer \<noteq> None) \<longrightarrow>
       Conv2D env inputs filters kernel_size strides padding data_format dilation_rate
         activation use_bias kernel_initializer bias_initializer kernel_regularizer
         bias_regularizer activity_regularizer split g = (Inl AssertionError, g)) \<and>
    (split \<noteq> 1 \<and>
     (kernel_regularizer \<noteq> None \<or> bias_regularizer \<noteq> None \<or> activity_regularizer \<noteq> None) \<longrightarrow>
       (\<exists>e. Conv2D env inputs filters kernel_size strides padding data_format dilation_rate
         activation use_bias kernel_initializer bias_initializer kernel_regularizer
         bias_regularizer activity_regularizer split g = (Inl e, g))) \<and>
    no_assert (Conv2D env inputs filters kernel_size strides padding data_format dilation_rate
         activation use_bias kernel_initializer bias_initializer kernel_regularizer
         bias_regularizer activity_regularizer 1 :: ('r graph, 'a tensor) py) \<and>
    (layer_accepts data_format padding kernel_size strides dilation_rate inputs \<and>
     (\<forall>h. height_of (tf_format data_format) (t_shape inputs) = Some h \<and> 0 < h \<longrightarrow>
        width_of (tf_format data_format) (t_shape inputs) \<noteq> None) \<longrightarrow>
       (\<exists>r g'. Conv2D env inputs filters kernel_size strides padding data_format dilation_rate
         activation use_bias kernel_initializer bias_initializer kernel_regularizer
         bias_regularizer activity_regularizer 1 g = (Inr r, g'))) \<and>
    (\<forall>r g'. Conv2D env inputs filters kernel_size strides padding data_format dilation_rate
         activation use_bias kernel_initializer bias_initializer kernel_regularizer
         bias_regularizer activity_regularizer 1 g = (Inr r, g') \<longrightarrow>
       g_losses g' = g_losses g
         @ (case kernel_regularizer of None \<Rightarrow> [] | Some k \<Rightarrow> [(k, ''W'')])
         @ (if use_bias then (case bias_regularizer of None \<Rightarrow> [] | Some k \<Rightarrow> [(k, ''b'')]) else [])
         @ (case activity_regularizer of None \<Rightarrow> []
            | Some k \<Rightarrow> [(k, layer_output_name activation use_bias)]))"
proof (intro conjI impI allI)
  assume "1 < split \<and> get_data_format data_format False = Inr fmt \<and>
     py_index (t_shape inputs) (if fmt = ''NHWC'' then - 1 else 1) = Inr ch \<and>
     (kernel_regularizer \<noteq> None \<or> bias_regularizer \<noteq> None \<or> activity_regularizer \<noteq> None)"
  then show "Conv2D env inputs filters kernel_size strides padding data_format dilation_rate
         activation use_bias kernel_initializer bias_initializer kernel_regularizer
         bias_regularizer activity_regularizer split g = (Inl AssertionError, g)"
    by (intro Conv2D_group_asserts [where fmt = fmt and ch = ch]) auto
next
  assume "split \<noteq> 1 \<and>
     (kernel_regularizer \<noteq> None \<or> bias_regularizer \<noteq> None \<or> activity_regularizer \<noteq> None)"
  then show "\<exists>e. Conv2D env inputs filters kernel_size strides padding data_format dilation_rate
         activation use_bias kernel_initializer bias_initializer kernel_regularizer
         bias_regularizer activity_regularizer split g = (Inl e, g)"
    by (intro Conv2D_group_regularized) auto
next
  show "no_assert (Conv2D env inputs filters kernel_size strides padding data_format dilation_rate
         activation use_bias kernel_initializer bias_initializer kernel_regularizer
         bias_regularizer activity_regularizer 1 :: ('r graph, 'a tensor) py)"
    by (rule Conv2D_layer_no_assert)
next
  assume "layer_accepts data_format padding kernel_size strides dilation_rate inputs \<and>
     (\<forall>h. height_of (tf_format data_format) (t_shape inputs) = Some h \<and> 0 < h \<longrightarrow>
        width_of (tf_format data_format) (t_shape inputs) \<noteq> None)"
  then show "\<exists>r g'. Conv2D env inputs filters kernel_size strides padding data_format dilation_rate
         activation use_bias kernel_initializer bias_initializer kernel_regularizer
         bias_regularizer activity_regularizer 1 g = (Inr r, g')"
    by (intro Conv2D_layer_run) auto
next
  fix r g'
  assume "Conv2D env inputs filters kernel_size strides padding data_format dilation_rate
         activation use_bias kernel_initializer bias_initializer kernel_regularizer
         bias_regularizer activity_regularizer 1 g = (Inr r, g')"
  then show "g_losses g' = g_losses g
         @ (case kernel_regularizer of None \<Rightarrow> [] | Some k \<Rightarrow> [(k, ''W'')])
         @ (if use_bias then (case bias_regularizer of None \<Rightarrow> [] | Some k \<Rightarrow> [(k, ''b'')]) else [])
         @ (case activity_regularizer of None \<Rightarrow> []
            | Some k \<Rightarrow> [(k, layer_output_name activation use_bias)])"
    by (rule Conv2D_layer_Inr(5))
qed

theorem conv2d_regularizers_witness:
  "Conv2D python2_tf14 image4 6 (Square 3) (Pair 1 1) ''same'' ''channels_last'' (Pair 1 1)
     None True counting zeros None (Some ''l2'') None 2 empty_graph
     = (Inl AssertionError, empty_graph) \<and>
   (\<exists>r g'. Conv2D python2_tf14 image4 6 (Square 3) (Pair 1 1) ''same'' ''channels_last''
       (Pair 1 1) None True counting zeros (Some ''l2'') (Some ''l1'') (Some ''act'') 1 empty_graph
       = (Inr r, g') \<and>
     g_losses g' = [(''l2'', ''W''), (''l1'', ''b''), (''act'', ''BiasAdd'')])"
proof -
  note inst = conv2d_regularizers [where env = python2_tf14 and inputs = image4 and filters = 6
     and kernel_size = "Square 3" and strides = "Pair 1 1" and padding = "''same''"
     and data_format = "''channels_last''" and dilation_rate = "Pair 1 1" and activation = None
     and use_bias = True and kernel_initializer = counting and bias_initializer = zeros
     and g = empty_graph]
  have a: "Conv2D python2_tf14 image4 6 (Square 3) (Pair 1 1) ''same'' ''channels_last'' (Pair 1 1)
     None True counting zeros None (Some ''l2'') None 2 empty_graph
     = (Inl AssertionError, empty_graph)"
    using inst [where split = 2 and fmt = "''NHWC''" and ch = "Some 4"
        and kernel_regularizer = None and bias_regularizer = "Some ''l2''"
        and activity_regularizer = None]
    by (simp add: image4_def py_index_def)
  note inst1 = inst [where split = 2 and fmt = "''NHWC''" and ch = "Some 4"
        and kernel_regularizer = "Some ''l2''" and bias_regularizer = "Some ''l1''"
        and activity_regularizer = "Some ''act''"]
  have hw: "\<forall>h. height_of (tf_format ''channels_last'') (t_shape image4) = Some h \<and> 0 < h \<longrightarrow>
        width_of (tf_format ''channels_last'') (t_shape image4) \<noteq> None"
    by (simp add: image4_def tf_format_def width_of_def shape2d_def)
  have acc: "layer_accepts ''channels_last'' ''same'' (Square 3) (Pair 1 1) (Pair 1 1) image4"
    by (rule layer_accepts_same [OF layer_ok_image4(1)]) (simp_all add: shape2d_def)
  obtain r g' where run: "Conv2D python2_tf14 image4 6 (Square 3) (Pair 1 1) ''same''
       ''channels_last'' (Pair 1 1) None True counting zeros (Some ''l2'') (Some ''l1'')
       (Some ''act'') 1 empty_graph = (Inr r, g')"
    using inst1 acc hw by blast
  have "g_losses g' = g_losses empty_graph
         @ (case Some ''l2'' of None \<Rightarrow> [] | Some k \<Rightarrow> [(k, ''W'')])
         @ (if True then (case Some ''l1'' of None \<Rightarrow> [] | Some k \<Rightarrow> [(k, ''b'')]) else [])
         @ (case Some ''act'' of None \<Rightarrow> []
            | Some k \<Rightarrow> [(k, layer_output_name (None :: int activation option) True)])"
    using inst1 run by blast
  then have "g_losses g' = [(''l2'', ''W''), (''l1'', ''b''), (''act'', ''BiasAdd'')]"
    by (simp add: empty_graph_def layer_output_name_def)
  then have b: "\<exists>r g'. Conv2D python2_tf14 image4 6 (Square 3) (Pair 1 1) ''same'' ''channels_last''
       (Pair 1 1) None True counting zeros (Some ''l2'') (Some ''l1'') (Some ''act'') 1 empty_graph
       = (Inr r, g') \<and>
     g_losses g' = [(''l2'', ''W''), (''l1'', ''b''), (''act'', ''BiasAdd'')]"
    using run by blast
  show ?thesis
    using a b by blast
qed

text \<open>
  C8. In the group branch (\<open>split > 1\<close>), when the checks of the branch pass (\<open>group_ok\<close>:
  a known data format, a known channel count \<open>in_channel\<close> divisible by \<open>split\<close>, \<open>filters\<close>
  divisible by \<open>split\<close>, no regularizer, a supported dilation), the call creates the variable
  \<open>W\<close> with shape \<open>[kernel_h, kernel_w, q, filters]\<close>, whether or not the rest of the
  construction succeeds. Here \<open>q\<close> is the exact quotient: \<open>q * split = in_channel\<close>, and it is
  the value of Python's \<^verbatim>\<open>in_channel // split\<close>, the operation \<^verbatim>\<open>GroupedConv2D\<close> uses. This holds
  under both interpreters: Python 3 hands TensorFlow the float \<open>in_channel / split\<close>, which is
  a whole number and is taken as the dimension \<open>q\<close>. A returned tensor holds that variable.
\<close>

theorem conv2d_group_weight_shape:
  fixes env :: "'a::comm_semiring_0 environment" and g :: "'r graph"
  assumes "1 < split"
    and "group_ok env inputs filters data_format dilation_rate kernel_regularizer
           bias_regularizer activity_regularizer split fmt in_channel"
  shows "\<exists>res g' q.
     Conv2D env inputs filters kernel_size strides padding data_format dilation_rate
       activation use_bias kernel_initializer bias_initializer kernel_regularizer
       bias_regularizer activity_regularizer split g = (res, g') \<and>
     q * split = in_channel \<and> q = in_channel div split \<and>
     py_floordiv (int in_channel) (int split) = Inr (int q) \<and>
     g_variables g' = g_variables g
        @ [(''W'', [shape2d kernel_size ! 0, shape2d kernel_size ! 1, q, filters])]
        @ (if use_bias then [(''b'', [filters])] else []) \<and>
     (\<forall>r. res = Inr r \<longrightarrow>
        (\<exists>W b. variables r = Some \<lparr>var_W = W, var_b = b\<rparr> \<and> v_name W = ''W'' \<and>
           dims (v_value W) = [shape2d kernel_size ! 0, shape2d kernel_size ! 1, q, filters]))"
proof -
  have ne: "split \<noteq> 1" "split \<noteq> 0"
    using assms(1) by simp_all
  have dvd: "in_channel mod split = 0"
    using assms(2) by (simp add: group_ok_def)
  have q: "in_channel div split * split = in_channel"
    using dvd by auto
  have fd: "py_floordiv (int in_channel) (int split) = Inr (int (in_channel div split))"
    using ne by (simp add: py_floordiv_def zdiv_int)
  have ks: "shape2d kernel_size @ [in_channel div split, filters]
      = [shape2d kernel_size ! 0, shape2d kernel_size ! 1, in_channel div split, filters]"
    by (cases kernel_size) (simp_all add: shape2d_def)
  show ?thesis
  proof (cases "group_accepts env inputs kernel_size strides padding dilation_rate fmt")
    case True
    from Conv2D_group_run [OF assms(2) ne(1) True, where activation = activation
        and use_bias = use_bias and kernel_initializer = kernel_initializer
        and bias_initializer = bias_initializer and g = g]
    obtain r g' where
      run: "Conv2D env inputs filters kernel_size strides padding data_format dilation_rate
         activation use_bias kernel_initializer bias_initializer kernel_regularizer
         bias_regularizer activity_regularizer split g = (Inr r, g')"
      and vars: "variables r = Some
         \<lparr>var_W = variable_of ''W'' (shape2d kernel_size @ [in_channel div split, filters])
            kernel_initializer,
          var_b = (if use_bias then Some (variable_of ''b'' [filters] bias_initializer) else None)\<rparr>"
      and gv: "g_variables g' = g_variables g
          @ [(''W'', shape2d kernel_size @ [in_channel div split, filters])]
          @ (if use_bias then [(''b'', [filters])] else [])"
      by blast
    have "\<exists>W b. variables r = Some \<lparr>var_W = W, var_b = b\<rparr> \<and> v_name W = ''W'' \<and>
           dims (v_value W)
             = [shape2d kernel_size ! 0, shape2d kernel_size ! 1, in_channel div split, filters]"
      using vars ks by (simp add: variable_of_def)
    then show ?thesis
      using run gv q fd ks by auto
  next
    case False
    from Conv2D_group_bad [OF assms(2) ne(1) False, where activation = activation
        and use_bias = use_bias and kernel_initializer = kernel_initializer
        and bias_initializer = bias_initializer and g = g]
    obtain g' where
      run: "Conv2D env inputs filters kernel_size strides padding data_format dilation_rate
         activation use_bias kernel_initializer bias_initializer kernel_regularizer
         bias_regularizer activity_regularizer split g = (Inl ValueError, g')"
      and gv: "g_variables g' = g_variables g
          @ [(''W'', shape2d kernel_size @ [in_channel div split, filters])]
          @ (if use_bias then [(''b'', [filters])] else [])"
      by blast
    show ?thesis
      using run gv q fd ks by auto
  qed
qed


theorem conv2d_group_weight_shape_witness:
  "(\<exists>res g'. Conv2D python3_tf15 image4 6 (Square 3) (Pair 1 1) ''same'' ''channels_last''
       (Pair 2 2) None True counting zeros None None None 2 empty_graph = (res, g') \<and>
     g_variables g' = [(''W'', [3, 3, 2, 6]), (''b'', [6])]) \<and>
   (\<exists>res g'. Conv2D python2_tf14 image4 6 (Pair 3 5) (Pair 1 1) ''same'' ''channels_last''
       (Pair 1 1) None False counting zeros None None None 2 empty_graph = (res, g') \<and>
     g_variables g' = [(''W'', [3, 5, 2, 6])])"
proof -
  have two: "(1::nat) < 2"
    by simp
  have a: "\<exists>res g'. Conv2D python3_tf15 image4 6 (Square 3) (Pair 1 1) ''same'' ''channels_last''
       (Pair 2 2) None True counting zeros None None None 2 empty_graph = (res, g') \<and>
     g_variables g' = [(''W'', [3, 3, 2, 6]), (''b'', [6])]"
    using conv2d_group_weight_shape [OF two group_ok_image4(1), of "Square 3" "Pair 1 1" "''same''"
        None True counting zeros empty_graph]
    by (auto simp: shape2d_def empty_graph_def)
  have b: "\<exists>res g'. Conv2D python2_tf14 image4 6 (Pair 3 5) (Pair 1 1) ''same'' ''channels_last''
       (Pair 1 1) None False counting zeros None None None 2 empty_graph = (res, g') \<and>
     g_variables g' = [(''W'', [3, 5, 2, 6])]"
    using conv2d_group_weight_shape [OF two group_ok_image4(2), of "Pair 3 5" "Pair 1 1" "''same''"
        None False counting zeros empty_graph]
    by (auto simp: shape2d_def empty_graph_def)
  show ?thesis
    using a b by blast
qed

text \<open>
  C9. Whenever \<^verbatim>\<open>Conv2D\<close> returns a tensor, the tensor has an \<open>info\<close> attribute if and only if
  \<open>split = 1\<close>; in every case it has the \<open>variables\<close> attribute, holding a variable named
  \<open>W\<close>, and the bias \<open>b\<close> exactly when \<open>use_bias\<close>. An activation is taken to be a TensorFlow
  operation: it makes a new tensor and sets no attribute on it.
\<close>

theorem conv2d_info_only_unsplit:
  fixes env :: "'a::comm_semiring_0 environment" and g :: "'r graph"
  assumes run: "Conv2D env inputs filters kernel_size strides padding data_format dilation_rate
       activation use_bias kernel_initializer bias_initializer kernel_regularizer
       bias_regularizer activity_regularizer split g = (Inr r, g')"
  shows "(info r \<noteq> None \<longleftrightarrow> split = 1) \<and>
     (\<exists>W. variables r = Some
         \<lparr>var_W = W,
          var_b = (if use_bias then Some (variable_of ''b'' [filters] bias_initializer) else None)\<rparr>
        \<and> v_name W = ''W'')"
proof (cases "split = 1")
  case True
  obtain fl where "info r = Some \<lparr>flops = fl\<rparr>"
    using Conv2D_layer_Inr(4) [OF run [unfolded True]] by blast
  then show ?thesis
    using Conv2D_layer_Inr(3) [OF run [unfolded True]] True by (simp add: variable_of_def)
next
  case False
  obtain fmt c where ok: "group_ok env inputs filters data_format dilation_rate kernel_regularizer
       bias_regularizer activity_regularizer split fmt c"
    using Conv2D_group_Inr [OF run False] by blast
  have good: "group_accepts env inputs kernel_size strides padding dilation_rate fmt"
    using Conv2D_group_bad [OF ok False, where padding = padding and kernel_size = kernel_size
        and strides = strides and activation = activation and use_bias = use_bias
        and kernel_initializer = kernel_initializer and bias_initializer = bias_initializer
        and g = g] run
    by auto
  show ?thesis
    using Conv2D_group_run [OF ok False good, where activation = activation
        and use_bias = use_bias and kernel_initializer = kernel_initializer
        and bias_initializer = bias_initializer and g = g] run False
    by (auto simp: variable_of_def)
qed


theorem conv2d_info_only_unsplit_witness:
  "(\<exists>r g'. Conv2D python2_tf14 image4 6 (Square 3) (Pair 1 1) ''same'' ''channels_last''
       (Pair 1 1) None True counting zeros None None None 2 empty_graph = (Inr r, g') \<and>
     info r = None \<and>
     variables r = Some \<lparr>var_W = variable_of ''W'' [3, 3, 2, 6] counting,
                            var_b = Some (variable_of ''b'' [6] zeros)\<rparr>) \<and>
   (\<exists>r g'. Conv2D python2_tf14 image4 6 (Square 3) (Pair 1 1) ''same'' ''channels_last''
       (Pair 1 1) None True counting zeros None None None 1 empty_graph = (Inr r, g') \<and>
     info r \<noteq> None)"
proof -
  obtain r g' where run: "Conv2D python2_tf14 image4 6 (Square 3) (Pair 1 1) ''same''
       ''channels_last'' (Pair 1 1) None True counting zeros None None None 2 empty_graph
       = (Inr r, g')"
    and vars: "variables r = Some
       \<lparr>var_W = variable_of ''W'' (shape2d (Square 3) @ [4 div 2, 6]) counting,
        var_b = (if True then Some (variable_of ''b'' [6] zeros) else None)\<rparr>"
    using Conv2D_group_run [OF group_ok_image4(2) _ group_accepts_image4,
        where kernel_size = "Square 3" and activation = None and use_bias = True
        and kernel_initializer = counting and bias_initializer = zeros and g = empty_graph]
    by auto
  have "info r = None"
    using conv2d_info_only_unsplit [OF run] by simp
  then have a: "\<exists>r g'. Conv2D python2_tf14 image4 6 (Square 3) (Pair 1 1) ''same''
       ''channels_last'' (Pair 1 1) None True counting zeros None None None 2 empty_graph
       = (Inr r, g') \<and> info r = None \<and>
     variables r = Some \<lparr>var_W = variable_of ''W'' [3, 3, 2, 6] counting,
                            var_b = Some (variable_of ''b'' [6] zeros)\<rparr>"
    using run vars by (simp add: shape2d_def)
  have "\<exists>r g'. Conv2D python2_tf14 image4 6 (Square 3) (Pair 1 1) ''same''
       ''channels_last'' (Pair 1 1) None True counting zeros None None None 1 empty_graph
       = (Inr r, g')"
    by (rule Conv2D_layer_run [OF layer_accepts_same [OF layer_ok_image4(1)]])
       (simp_all add: image4_def tf_format_def width_of_def shape2d_def)
  then obtain r1 g1 where run1: "Conv2D python2_tf14 image4 6 (Square 3) (Pair 1 1) ''same''
       ''channels_last'' (Pair 1 1) None True counting zeros None None None 1 empty_graph
       = (Inr r1, g1)"
    by blast
  have "info r1 \<noteq> None"
    using conv2d_info_only_unsplit [OF run1] by simp
  then show ?thesis
    using a run1 by blast
qed

text \<open>
  C4. Whenever \<^verbatim>\<open>Conv2D\<close> with \<open>split = s > 1\<close> returns a tensor, its value is computed as
  follows: the input is split into \<open>s\<close> equal parts along the channel axis of the data
  format, the weight \<open>W\<close> into \<open>s\<close> equal parts along its fourth axis; part \<open>i\<close> of the input is
  convolved with part \<open>i\<close> of the weight and with nothing else; the \<open>s\<close> results are joined
  along the channel axis; the bias \<open>b\<close> is added exactly when \<open>use_bias\<close>; and the activation
  is applied last, the value being left as it is when \<open>activation\<close> is None. The nodes added
  to the graph are two splits, \<open>s\<close> convolutions, one concatenation, the bias addition when
  \<open>use_bias\<close>, and the activation or identity.
\<close>

theorem conv2d_group_dataflow:
  fixes env :: "'a::comm_semiring_0 environment" and g :: "'r graph"
  assumes run: "Conv2D env inputs filters kernel_size strides padding data_format dilation_rate
       activation use_bias kernel_initializer bias_initializer kernel_regularizer
       bias_regularizer activity_regularizer split g = (Inr r, g')"
    and split: "1 < split"
  shows "\<exists>fmt in_channel W.
     get_data_format data_format False = Inr fmt \<and>
     t_shape inputs ! chan_axis fmt = Some in_channel \<and>
     W = variable_of ''W'' (shape2d kernel_size @ [in_channel div split, filters])
           kernel_initializer \<and>
     t_value r =
       (let groups = map (split_part (t_value inputs) split (chan_axis fmt)) [0..<split];
            kernels = map (split_part (v_value W) split 3) [0..<split];
            outputs = map (\<lambda>(i, k). conv2d i k (strides4 fmt strides) (upper padding)
                                     (dilations4 env fmt dilation_rate) fmt)
                          (zip groups kernels);
            conv = concat_arrays outputs (chan_axis fmt);
            pre = (if use_bias
                   then bias_add conv (v_value (variable_of ''b'' [filters] bias_initializer)) fmt
                   else conv)
        in case activation of None \<Rightarrow> pre | Some f \<Rightarrow> f pre) \<and>
     g_nodes g' = g_nodes g @ [''Split'', ''Split''] @ replicate split ''Conv2D'' @ [''ConcatV2'']
        @ (if use_bias then [''BiasAdd''] else [])
        @ [case activation of None \<Rightarrow> ''Identity'' | Some _ \<Rightarrow> ''Activation'']"
proof -
  have ne: "split \<noteq> 1"
    using split by simp
  obtain fmt c where ok: "group_ok env inputs filters data_format dilation_rate kernel_regularizer
       bias_regularizer activity_regularizer split fmt c"
    using Conv2D_group_Inr [OF run ne] by blast
  have good: "group_accepts env inputs kernel_size strides padding dilation_rate fmt"
    using Conv2D_group_bad [OF ok ne, where padding = padding and kernel_size = kernel_size
        and strides = strides and activation = activation and use_bias = use_bias
        and kernel_initializer = kernel_initializer and bias_initializer = bias_initializer
        and g = g] run
    by auto
  have fmt: "fmt = ''NHWC'' \<or> fmt = ''NCHW''"
    using ok by (auto simp: group_ok_def dest: get_data_format_False)
  have rank: "length (t_shape inputs) = 4"
    using good by (simp add: group_accepts_def)
  have ch: "t_shape inputs ! chan_axis fmt = Some c"
    using ok rank fmt by (auto simp: group_ok_def chan_axis_def py_index_4)
  have gfmt: "get_data_format data_format False = Inr fmt"
    using ok by (simp add: group_ok_def)
  have zipmap: "\<And>(f :: nat \<Rightarrow> 'a ndarray) (h :: nat \<Rightarrow> 'a ndarray) (F :: 'a ndarray \<Rightarrow> 'a ndarray \<Rightarrow> 'a ndarray) n.
      map (\<lambda>(i, k). F i k) (zip (map f [0..<n]) (map h [0..<n])) = map (\<lambda>p. F (f p) (h p)) [0..<n]"
    by (simp add: zip_map_map zip_same_conv_map)
  show ?thesis
    using Conv2D_group_run [OF ok ne good, where activation = activation
        and use_bias = use_bias and kernel_initializer = kernel_initializer
        and bias_initializer = bias_initializer and g = g] run ch gfmt
    by (auto simp: Let_def zipmap grouped_convolution_def activated_def with_bias_def
        split: option.splits)
qed


theorem conv2d_group_dataflow_witness:
  "\<exists>r g'. Conv2D python2_tf14 image4 2 (Square 1) (Pair 1 1) ''same'' ''channels_last''
       (Pair 1 1) None True counting zeros None None None 2 empty_graph = (Inr r, g') \<and>
     t_value r = \<lparr>dims = [1, 2, 2, 2], data = [7, 22, 23, 46, 39, 70, 55, 94]\<rparr> \<and>
     g_nodes g' = [''Split'', ''Split'', ''Conv2D'', ''Conv2D'', ''ConcatV2'', ''BiasAdd'',
                   ''Identity'']"
proof -
  have two: "(1::nat) < 2"
    by simp
  obtain r g' where run: "Conv2D python2_tf14 image4 2 (Square 1) (Pair 1 1) ''same''
       ''channels_last'' (Pair 1 1) None True counting zeros None None None 2 empty_graph
       = (Inr r, g')"
    using Conv2D_group_run [OF group_ok_image4_small _ group_accepts_image4,
        where kernel_size = "Square 1" and activation = None and use_bias = True
        and kernel_initializer = counting and bias_initializer = zeros and g = empty_graph]
    by auto
  obtain fmt c W where
    fmt: "get_data_format ''channels_last'' False = Inr fmt"
    and c: "t_shape image4 ! chan_axis fmt = Some c"
    and W: "W = variable_of ''W'' (shape2d (Square 1) @ [c div 2, 2]) counting"
    and val: "t_value r =
       (let groups = map (split_part (t_value image4) 2 (chan_axis fmt)) [0..<2];
            kernels = map (split_part (v_value W) 2 3) [0..<2];
            outputs = map (\<lambda>(i, k). conv2d i k (strides4 fmt (Pair 1 1)) (upper ''same'')
                                     (dilations4 python2_tf14 fmt (Pair 1 1)) fmt)
                          (zip groups kernels);
            conv = concat_arrays outputs (chan_axis fmt);
            pre = (if True
                   then bias_add conv (v_value (variable_of ''b'' [2] zeros)) fmt
                   else conv)
        in case (None :: int activation option) of None \<Rightarrow> pre | Some f \<Rightarrow> f pre)"
    and nodes: "g_nodes g' = g_nodes empty_graph @ [''Split'', ''Split'']
        @ replicate 2 ''Conv2D'' @ [''ConcatV2'']
        @ (if True then [''BiasAdd''] else [])
        @ [case (None :: int activation option) of None \<Rightarrow> ''Identity'' | Some _ \<Rightarrow> ''Activation'']"
    using conv2d_group_dataflow [OF run two] by blast
  have f: "fmt = ''NHWC''"
    using fmt by simp
  have c4: "c = 4"
    using c by (simp add: f chan_axis_def image4_def)
  have "t_value r = \<lparr>dims = [1, 2, 2, 2], data = [7, 22, 23, 46, 39, 70, 55, 94]\<rparr>"
    using val unfolding W f c4 by (simp only: example_dataflow)
  moreover have "g_nodes g' = [''Split'', ''Split'', ''Conv2D'', ''Conv2D'', ''ConcatV2'',
      ''BiasAdd'', ''Identity'']"
    using nodes by (simp add: empty_graph_def numeral_2_eq_2)
  ultimately show ?thesis
    using run by blast
qed

section \<open>The claims about the other layers\<close>

text \<open>
  C5. On a 4-D input, \<^verbatim>\<open>ResizeImages\<close> with \<open>data_format = 'channels_first'\<close> returns the
  transpose by \<open>[0, 3, 1, 2]\<close> of the resize of the transpose by \<open>[0, 2, 3, 1]\<close> of the input.
  That is the result of the \<open>channels_last\<close> call on the transposed input, transposed
  back. The batch and channel dimensions of the result are those of the input, in the
  static shape and in the value; height and width are the requested size. The graph
  gets a transpose, the resize, a transpose and the identity. With
  \<open>data_format = 'channels_last'\<close> the value is the resize of the input itself and the graph
  gets the resize and the identity only.
\<close>

theorem resize_images_conjugation:
  fixes g :: "'r graph"
  assumes rank: "length (t_shape images) = 4"
  shows "\<exists>rf gf rl gl rd gd.
     ResizeImages interp images sz method align_corners ''channels_first'' g = (Inr rf, gf) \<and>
     ResizeImages interp (transposed images [0, 2, 3, 1]) sz method align_corners
       ''channels_last'' g = (Inr rl, gl) \<and>
     ResizeImages interp images sz method align_corners ''channels_last'' g = (Inr rd, gd) \<and>
     t_value rf =
       transpose_array
         (resize_array interp (transpose_array (t_value images) [0, 2, 3, 1]) sz method
            align_corners)
         [0, 3, 1, 2] \<and>
     t_value rf = transpose_array (t_value rl) [0, 3, 1, 2] \<and>
     t_shape rf = [t_shape images ! 0, t_shape images ! 1, Some (fst sz), Some (snd sz)] \<and>
     dims (t_value rf) = [dims (t_value images) ! 0, dims (t_value images) ! 1, fst sz, snd sz] \<and>
     g_nodes gf = g_nodes g @ [''Transpose'', ''ResizeImages'', ''Transpose'', ''Identity''] \<and>
     t_value rd = resize_array interp (t_value images) sz method align_corners \<and>
     g_nodes gd = g_nodes g @ [''ResizeImages'', ''Identity'']"
proof -
  have last: "''channels_last'' \<noteq> ''channels_first''"
    by simp
  have rank': "length (t_shape (transposed images [0, 2, 3, 1])) = 4"
    by simp
  show ?thesis
    unfolding ResizeImages_first [OF rank] ResizeImages_last [OF rank last]
      ResizeImages_last [OF rank' last]
    by (simp add: transposed_def resized_def transpose_array_def resize_array_def dims_tabulate)
qed

theorem resize_images_conjugation_witness:
  "\<exists>r g'. ResizeImages nearest nchw4 (1, 2) () True ''channels_first'' empty_graph = (Inr r, g') \<and>
     t_value r = \<lparr>dims = [1, 4, 1, 2], data = [1, 2, 5, 6, 9, 10, 13, 14]\<rparr> \<and>
     t_shape r = [None, Some 4, Some 1, Some 2]"
proof -
  obtain rf gf where
    run: "ResizeImages nearest nchw4 (1, 2) () True ''channels_first'' empty_graph = (Inr rf, gf)"
    and val: "t_value rf =
       transpose_array
         (resize_array nearest (transpose_array (t_value nchw4) [0, 2, 3, 1]) (1, 2) () True)
         [0, 3, 1, 2]"
    and shape: "t_shape rf = [t_shape nchw4 ! 0, t_shape nchw4 ! 1, Some (fst (1 :: nat, 2 :: nat)),
       Some (snd (1 :: nat, 2 :: nat))]"
    using resize_images_conjugation [OF rank_nchw4, of nearest "(1, 2)" "()" True empty_graph]
    by blast
  have "t_value rf = \<lparr>dims = [1, 4, 1, 2], data = [1, 2, 5, 6, 9, 10, 13, 14]\<rparr>"
    using val by (simp only: example_resize)
  moreover have "t_shape rf = [None, Some 4, Some 1, Some 2]"
    using shape by (simp add: nchw4_def)
  ultimately show ?thesis
    using run by blast
qed





text \<open>
  C10. Whenever \<^verbatim>\<open>Conv2D\<close>, \<^verbatim>\<open>Conv2DTranspose\<close> (also called \<^verbatim>\<open>Deconv2D\<close>) or
  \<^verbatim>\<open>GroupedConv2D\<close> returns a tensor, the tensor is named \<open>output\<close>; its \<open>variables\<close>
  attribute holds, as \<open>W\<close>, the weight variable the call has made, which is named \<open>W\<close>, and
  holds as \<open>b\<close> the bias variable the call has made, which is named \<open>b\<close>, exactly when
  \<open>use_bias\<close>; and \<open>W\<close>, followed by \<open>b\<close> exactly when \<open>use_bias\<close>, are the variables the graph
  has gained (\<open>holds_variables\<close>). The weight has the dimensions
  \<open>[kh, kw, c / split, filters]\<close> for \<^verbatim>\<open>Conv2D\<close>, \<open>[kh, kw, filters, c]\<close> for
  \<^verbatim>\<open>Conv2DTranspose\<close> and \<open>[kh, kw, c, path_ch_out]\<close> for \<^verbatim>\<open>GroupedConv2D\<close>, where \<open>c\<close> is the
  channel count of the input; both variables hold what their initialisers give. Whenever
  \<^verbatim>\<open>ResizeImages\<close> returns a tensor, the tensor is named \<open>output\<close>, has no \<open>variables\<close>
  attribute, and the graph has gained no variable. An activation is taken to be a
  TensorFlow operation: it names its result as asked and sets no attribute on it.
\<close>

theorem layers_name_output:
  fixes env :: "'a::comm_semiring_0 environment" and inputs x images :: "'a tensor"
    and g :: "'r graph"
  shows
   "(Conv2D env inputs filters kernel_size strides padding data_format dilation_rate
       activation use_bias kernel_initializer bias_initializer kernel_regularizer
       bias_regularizer activity_regularizer split g = (Inr r, g')
       \<longrightarrow> (\<exists>c. (if split = 1
                  then chan_of (tf_format data_format) (t_shape inputs) = Some c
                  else \<exists>fmt. get_data_format data_format False = Inr fmt \<and>
                         t_shape inputs ! chan_axis fmt = Some c) \<and>
              holds_variables r g g' use_bias
                (variable_of ''W'' (shape2d kernel_size @ [c div split, filters])
                   kernel_initializer)
                (variable_of ''b'' [filters] bias_initializer))) \<and>
    (Conv2DTranspose inputs filters kernel_size strides padding data_format activation
       use_bias kernel_initializer bias_initializer kernel_regularizer bias_regularizer
       activity_regularizer dyn_hw g = (Inr r, g')
       \<longrightarrow> (\<exists>c. chan_of (tf_format data_format) (t_shape inputs) = Some c \<and>
              holds_variables r g g' use_bias
                (variable_of ''W'' (shape2d kernel_size @ [filters, c]) kernel_initializer)
                (variable_of ''b'' [filters] bias_initializer))) \<and>
    (GroupedConv2D env x num_paths path_ch_out kernel_shape sum_paths padding' stride W_init
       b_init nl use_bias data_format' g = (Inr r, g')
       \<longrightarrow> (\<exists>fmt c. get_data_format data_format' False = Inr fmt \<and>
              t_shape x ! chan_axis fmt = Some c \<and>
              holds_variables r g g' use_bias
                (variable_of ''W'' (shape2d kernel_shape @ [c, path_ch_out])
                   (initializer_or W_init (variance_scaling_initializer env)))
                (variable_of ''b'' [if sum_paths then path_ch_out else num_paths * path_ch_out]
                   (initializer_or b_init (\<lambda>_ _. 0))))) \<and>
    (ResizeImages interp images sz method align_corners data_format g = (Inr r, g')
       \<longrightarrow> t_name r = ''output'' \<and> variables r = None \<and> g_variables g' = g_variables g)"
proof (intro conjI impI)
  assume run: "Conv2D env inputs filters kernel_size strides padding data_format dilation_rate
       activation use_bias kernel_initializer bias_initializer kernel_regularizer
       bias_regularizer activity_regularizer split g = (Inr r, g')"
  show "\<exists>c. (if split = 1
             then chan_of (tf_format data_format) (t_shape inputs) = Some c
             else \<exists>fmt. get_data_format data_format False = Inr fmt \<and>
                    t_shape inputs ! chan_axis fmt = Some c) \<and>
         holds_variables r g g' use_bias
           (variable_of ''W'' (shape2d kernel_size @ [c div split, filters]) kernel_initializer)
           (variable_of ''b'' [filters] bias_initializer)"
  proof (cases "split = 1")
    case True
    note facts = Conv2D_layer_Inr [OF run [unfolded True]]
    obtain c where c: "chan_of (tf_format data_format) (t_shape inputs) = Some c"
      using facts(1) by (auto simp: layer_ok_def)
    show ?thesis
      using facts(2,3,6) c True
      by (auto simp: holds_variables_def variable_of_def)
  next
    case False
    obtain fmt c where ok: "group_ok env inputs filters data_format dilation_rate
         kernel_regularizer bias_regularizer activity_regularizer split fmt c"
      using Conv2D_group_Inr [OF run False] by blast
    have good: "group_accepts env inputs kernel_size strides padding dilation_rate fmt"
      using Conv2D_group_bad [OF ok False, where padding = padding and kernel_size = kernel_size
          and strides = strides and activation = activation and use_bias = use_bias
          and kernel_initializer = kernel_initializer and bias_initializer = bias_initializer
          and g = g] run
      by auto
    have fmt: "fmt = ''NHWC'' \<or> fmt = ''NCHW''"
      using ok by (auto simp: group_ok_def dest: get_data_format_False)
    have rank: "length (t_shape inputs) = 4"
      using good by (simp add: group_accepts_def)
    have ch: "t_shape inputs ! chan_axis fmt = Some c"
      using ok rank fmt by (auto simp: group_ok_def chan_axis_def py_index_4)
    have gfmt: "get_data_format data_format False = Inr fmt"
      using ok by (simp add: group_ok_def)
    have "holds_variables r g g' use_bias
           (variable_of ''W'' (shape2d kernel_size @ [c div split, filters]) kernel_initializer)
           (variable_of ''b'' [filters] bias_initializer)"
      using Conv2D_group_run [OF ok False good, where activation = activation
          and use_bias = use_bias and kernel_initializer = kernel_initializer
          and bias_initializer = bias_initializer and g = g] run
      by (auto simp: holds_variables_def variable_of_def)
    then show ?thesis
      using False ch gfmt by auto
  qed
next
  assume run: "Conv2DTranspose inputs filters kernel_size strides padding data_format activation
       use_bias kernel_initializer bias_initializer kernel_regularizer bias_regularizer
       activity_regularizer dyn_hw g = (Inr r, g')"
  note facts = Conv2DTranspose_Inr [OF run]
  obtain c where c: "chan_of (tf_format data_format) (t_shape inputs) = Some c"
    using facts(4) by (auto simp: transpose_accepts_def layer_ok_def)
  show "\<exists>c. chan_of (tf_format data_format) (t_shape inputs) = Some c \<and>
         holds_variables r g g' use_bias
           (variable_of ''W'' (shape2d kernel_size @ [filters, c]) kernel_initializer)
           (variable_of ''b'' [filters] bias_initializer)"
    using facts(1,2,3) c by (auto simp: holds_variables_def variable_of_def)
next
  assume run: "GroupedConv2D env x num_paths path_ch_out kernel_shape sum_paths padding' stride
       W_init b_init nl use_bias data_format' g = (Inr r, g')"
  from GroupedConv2D_Inr [OF run] obtain fmt c where
    gfmt: "get_data_format data_format' False = Inr fmt"
    and idx: "py_index (t_shape x) (int (if fmt = ''NHWC'' then 3 else 1)) = Inr (Some c)"
    and name: "t_name r = ''output''"
    and vars: "variables r = Some
       \<lparr>var_W = variable_of ''W'' (shape2d kernel_shape @ [c, path_ch_out])
          (initializer_or W_init (variance_scaling_initializer env)),
        var_b = (if use_bias
                 then Some (variable_of ''b''
                        [if sum_paths then path_ch_out else num_paths * path_ch_out]
                        (initializer_or b_init (\<lambda>_ _. 0)))
                 else None)\<rparr>"
    and gv: "g_variables g' = g_variables g @ [(''W'', shape2d kernel_shape @ [c, path_ch_out])]
        @ (if use_bias
           then [(''b'', [if sum_paths then path_ch_out else num_paths * path_ch_out])]
           else [])"
    by blast
  have ch: "t_shape x ! chan_axis fmt = Some c"
    using idx by (auto simp: py_index_def chan_axis_def split: if_splits)
  have "holds_variables r g g' use_bias
           (variable_of ''W'' (shape2d kernel_shape @ [c, path_ch_out])
              (initializer_or W_init (variance_scaling_initializer env)))
           (variable_of ''b'' [if sum_paths then path_ch_out else num_paths * path_ch_out]
              (initializer_or b_init (\<lambda>_ _. 0)))"
    using name vars gv by (simp add: holds_variables_def variable_of_def)
  then show "\<exists>fmt c. get_data_format data_format' False = Inr fmt \<and>
         t_shape x ! chan_axis fmt = Some c \<and>
         holds_variables r g g' use_bias
           (variable_of ''W'' (shape2d kernel_shape @ [c, path_ch_out])
              (initializer_or W_init (variance_scaling_initializer env)))
           (variable_of ''b'' [if sum_paths then path_ch_out else num_paths * path_ch_out]
              (initializer_or b_init (\<lambda>_ _. 0)))"
    using gfmt ch by blast
next
  assume run: "ResizeImages interp images sz method align_corners data_format g = (Inr r, g')"
  from postD [OF ResizeImages_post this] show "t_name r = ''output''"
    by simp
  from postD [OF ResizeImages_post run] show "variables r = None"
    by simp
  from keepsD [OF keeps_ResizeImages run] show "g_variables g' = g_variables g" .
qed

theorem layers_name_output_witness:
  "(\<exists>r g'. Conv2D python2_tf14 image4 6 (Square 3) (Pair 1 1) ''same'' ''channels_last''
       (Pair 1 1) None True counting zeros None None None 1 empty_graph = (Inr r, g') \<and>
     t_name r = ''output'' \<and>
     variables r = Some \<lparr>var_W = variable_of ''W'' [3, 3, 4, 6] counting,
                           var_b = Some (variable_of ''b'' [6] zeros)\<rparr> \<and>
     g_variables g' = [(''W'', [3, 3, 4, 6]), (''b'', [6])]) \<and>
   (\<exists>r g'. Conv2DTranspose image4 2 (Square 1) (Pair 1 1) ''same'' ''channels_last'' None False
       counting zeros None None None () empty_graph = (Inr r, g') \<and>
     t_name r = ''output'' \<and>
     variables r = Some \<lparr>var_W = variable_of ''W'' [1, 1, 2, 4] counting, var_b = None\<rparr> \<and>
     g_variables g' = [(''W'', [1, 1, 2, 4])]) \<and>
   (\<exists>r g'. GroupedConv2D python2_tf14 image4 2 2 (Square 1) False ''same'' (Square 1)
       (Some counting) None (\<lambda>v. v) True ''NHWC'' empty_graph = (Inr r, g') \<and>
     t_name r = ''output'' \<and>
     variables r = Some \<lparr>var_W = variable_of ''W'' [1, 1, 4, 2] counting,
                           var_b = Some (variable_of ''b'' [4] (\<lambda>_ _. 0))\<rparr> \<and>
     g_variables g' = [(''W'', [1, 1, 4, 2]), (''b'', [4])]) \<and>
   (\<exists>r g'. ResizeImages nearest nchw4 (1, 2) () True ''channels_first'' empty_graph
       = (Inr r, g') \<and>
     t_name r = ''output'' \<and> variables r = None \<and> g_variables g' = [])"
proof -
  have "\<exists>r g'. Conv2D python2_tf14 image4 6 (Square 3) (Pair 1 1) ''same''
       ''channels_last'' (Pair 1 1) None True counting zeros None None None 1 empty_graph
       = (Inr r, g')"
    by (rule Conv2D_layer_run [OF layer_accepts_same [OF layer_ok_image4(1)]])
       (simp_all add: image4_def tf_format_def width_of_def shape2d_def)
  then obtain r1 g1 where run1: "Conv2D python2_tf14 image4 6 (Square 3) (Pair 1 1) ''same''
       ''channels_last'' (Pair 1 1) None True counting zeros None None None 1 empty_graph
       = (Inr r1, g1)"
    by blast
  have "\<exists>r g'. Conv2DTranspose image4 2 (Square 1) (Pair 1 1) ''same''
       ''channels_last'' None False counting zeros None None None () empty_graph = (Inr r, g')"
    by (rule Conv2DTranspose_run) (simp add: transpose_accepts_def shape2d_def)
  then obtain r2 g2 where run2: "Conv2DTranspose image4 2 (Square 1) (Pair 1 1) ''same''
       ''channels_last'' None False counting zeros None None None () empty_graph = (Inr r2, g2)"
    by blast
  have "\<exists>r g'. GroupedConv2D python2_tf14 image4 2 2 (Square 1) False ''same''
       (Square 1) (Some counting) None (\<lambda>v. v) True ''NHWC'' empty_graph = (Inr r, g')"
    using GroupedConv2D_run [OF grouped_ok_image4, of python2_tf14 "Some counting" None
        "\<lambda>v. v" True empty_graph]
    by blast
  then obtain r3 g3 where run3: "GroupedConv2D python2_tf14 image4 2 2 (Square 1) False ''same''
       (Square 1) (Some counting) None (\<lambda>v. v) True ''NHWC'' empty_graph = (Inr r3, g3)"
    by blast
  have "\<exists>r g'. ResizeImages nearest nchw4 (1, 2) () True ''channels_first''
       empty_graph = (Inr r, g')"
    unfolding ResizeImages_first [OF rank_nchw4] by blast
  then obtain r4 g4 where run4: "ResizeImages nearest nchw4 (1, 2) () True ''channels_first''
       empty_graph = (Inr r4, g4)"
    by blast
  have 1: "t_name r1 = ''output'' \<and>
     variables r1 = Some \<lparr>var_W = variable_of ''W'' [3, 3, 4, 6] counting,
                            var_b = Some (variable_of ''b'' [6] zeros)\<rparr> \<and>
     g_variables g1 = [(''W'', [3, 3, 4, 6]), (''b'', [6])]"
    using layers_name_output [THEN conjunct1, THEN mp, OF run1]
    by (auto simp: holds_variables_def image4_def tf_format_def chan_of_def shape2d_def
        variable_of_def empty_graph_def)
  have 2: "t_name r2 = ''output'' \<and>
     variables r2 = Some \<lparr>var_W = variable_of ''W'' [1, 1, 2, 4] counting, var_b = None\<rparr> \<and>
     g_variables g2 = [(''W'', [1, 1, 2, 4])]"
    using layers_name_output [THEN conjunct2, THEN conjunct1, THEN mp, OF run2]
    by (auto simp: holds_variables_def image4_def tf_format_def chan_of_def shape2d_def
        variable_of_def empty_graph_def)
  have 3: "t_name r3 = ''output'' \<and>
     variables r3 = Some \<lparr>var_W = variable_of ''W'' [1, 1, 4, 2] counting,
                            var_b = Some (variable_of ''b'' [4] (\<lambda>_ _. 0))\<rparr> \<and>
     g_variables g3 = [(''W'', [1, 1, 4, 2]), (''b'', [4])]"
    using layers_name_output [THEN conjunct2, THEN conjunct2, THEN conjunct1, THEN mp, OF run3]
    by (auto simp: holds_variables_def image4_def chan_axis_def shape2d_def
        variable_of_def empty_graph_def initializer_or_def)
  have 4: "t_name r4 = ''output'' \<and> variables r4 = None \<and> g_variables g4 = []"
    using layers_name_output [THEN conjunct2, THEN conjunct2, THEN conjunct2, THEN mp, OF run4]
    by (simp add: empty_graph_def)
  show ?thesis
    using run1 run2 run3 run4 1 2 3 4 by blast
qed

text \<open>
  C2. Let the data format be one \<^verbatim>\<open>get_data_format\<close> knows and the channel count \<open>c\<close> of the
  input be known. \<^verbatim>\<open>Conv2D\<close> with \<open>split > 1\<close> ends in AssertionError, the graph untouched
  (no variable, no node), when \<open>split\<close> does not divide \<open>c\<close> or does not divide \<open>filters\<close>;
  \<^verbatim>\<open>GroupedConv2D\<close> with a positive \<open>num_paths\<close> does so when \<open>num_paths\<close> does not divide \<open>c\<close>.
  The exception is the result of the call: nothing in the functions catches it. When
  the checks of the group branch of \<^verbatim>\<open>Conv2D\<close> hold (\<open>group_ok\<close>: both divisibilities, no
  regulariser, a supported dilation), and when \<open>num_paths\<close> divides \<open>c\<close> for
  \<^verbatim>\<open>GroupedConv2D\<close>, the call does not end in AssertionError and construction goes on: the
  variable \<open>W\<close> is created, whatever the later operations do.
\<close>

theorem divisibility_asserts:
  fixes env :: "'a::comm_semiring_0 environment" and g :: "'r graph"
  shows
   "(1 < split \<and> get_data_format data_format False = Inr fmt \<and>
     py_index (t_shape inputs) (if fmt = ''NHWC'' then - 1 else 1) = Inr (Some c) \<and>
     (c mod split \<noteq> 0 \<or> filters mod split \<noteq> 0) \<longrightarrow>
       Conv2D env inputs filters kernel_size strides padding data_format dilation_rate
         activation use_bias kernel_initializer bias_initializer kernel_regularizer
         bias_regularizer activity_regularizer split g = (Inl AssertionError, g)) \<and>
    (get_data_format data_format False = Inr fmt \<and>
     py_index (t_shape inputs) (int (if fmt = ''NHWC'' then 3 else 1)) = Inr (Some c) \<and>
     0 < num_paths \<and> c mod num_paths \<noteq> 0 \<longrightarrow>
       GroupedConv2D env inputs num_paths path_ch_out kernel_size sum_paths padding strides
         W_init b_init nl use_bias data_format g = (Inl AssertionError, g)) \<and>
    (1 < split \<and>
     group_ok env inputs filters data_format dilation_rate kernel_regularizer bias_regularizer
       activity_regularizer split fmt c \<longrightarrow>
       (\<exists>res g'. Conv2D env inputs filters kernel_size strides padding data_format dilation_rate
          activation use_bias kernel_initializer bias_initializer kernel_regularizer
          bias_regularizer activity_regularizer split g = (res, g') \<and>
        res \<noteq> Inl AssertionError \<and>
        (\<exists>vs. g_variables g' = g_variables g
            @ (''W'', shape2d kernel_size @ [c div split, filters]) # vs))) \<and>
    (get_data_format data_format False = Inr fmt \<and>
     py_index (t_shape inputs) (int (if fmt = ''NHWC'' then 3 else 1)) = Inr (Some c) \<and>
     0 < num_paths \<and> c mod num_paths = 0 \<longrightarrow>
       (\<exists>res g'. GroupedConv2D env inputs num_paths path_ch_out kernel_size sum_paths padding
          strides W_init b_init nl use_bias data_format g = (res, g') \<and>
        res \<noteq> Inl AssertionError \<and>
        (\<exists>vs. g_variables g' = g_variables g
            @ (''W'', shape2d kernel_size @ [c, path_ch_out]) # vs)))"
proof (intro conjI impI)
  assume "1 < split \<and> get_data_format data_format False = Inr fmt \<and>
     py_index (t_shape inputs) (if fmt = ''NHWC'' then - 1 else 1) = Inr (Some c) \<and>
     (c mod split \<noteq> 0 \<or> filters mod split \<noteq> 0)"
  then show "Conv2D env inputs filters kernel_size strides padding data_format dilation_rate
         activation use_bias kernel_initializer bias_initializer kernel_regularizer
         bias_regularizer activity_regularizer split g = (Inl AssertionError, g)"
    by (intro Conv2D_group_asserts [where fmt = fmt and ch = "Some c"]) auto
next
  assume "get_data_format data_format False = Inr fmt \<and>
     py_index (t_shape inputs) (int (if fmt = ''NHWC'' then 3 else 1)) = Inr (Some c) \<and>
     0 < num_paths \<and> c mod num_paths \<noteq> 0"
  then show "GroupedConv2D env inputs num_paths path_ch_out kernel_size sum_paths padding strides
         W_init b_init nl use_bias data_format g = (Inl AssertionError, g)"
    by (intro GroupedConv2D_asserts [where fmt = fmt and c = c]) auto
next
  assume a: "1 < split \<and>
     group_ok env inputs filters data_format dilation_rate kernel_regularizer bias_regularizer
       activity_regularizer split fmt c"
  then have ne: "split \<noteq> 1" and ok: "group_ok env inputs filters data_format dilation_rate
       kernel_regularizer bias_regularizer activity_regularizer split fmt c"
    by simp_all
  show "\<exists>res g'. Conv2D env inputs filters kernel_size strides padding data_format dilation_rate
          activation use_bias kernel_initializer bias_initializer kernel_regularizer
          bias_regularizer activity_regularizer split g = (res, g') \<and>
        res \<noteq> Inl AssertionError \<and>
        (\<exists>vs. g_variables g' = g_variables g
            @ (''W'', shape2d kernel_size @ [c div split, filters]) # vs)"
  proof (cases "group_accepts env inputs kernel_size strides padding dilation_rate fmt")
    case True
    show ?thesis
      using Conv2D_group_run [OF ok ne True, where activation = activation
          and use_bias = use_bias and kernel_initializer = kernel_initializer
          and bias_initializer = bias_initializer and g = g]
      by auto
  next
    case False
    show ?thesis
      using Conv2D_group_bad [OF ok ne False, where activation = activation
          and use_bias = use_bias and kernel_initializer = kernel_initializer
          and bias_initializer = bias_initializer and g = g]
      by auto
  qed
next
  assume "get_data_format data_format False = Inr fmt \<and>
     py_index (t_shape inputs) (int (if fmt = ''NHWC'' then 3 else 1)) = Inr (Some c) \<and>
     0 < num_paths \<and> c mod num_paths = 0"
  then show "\<exists>res g'. GroupedConv2D env inputs num_paths path_ch_out kernel_size sum_paths padding
          strides W_init b_init nl use_bias data_format g = (res, g') \<and>
        res \<noteq> Inl AssertionError \<and>
        (\<exists>vs. g_variables g' = g_variables g
            @ (''W'', shape2d kernel_size @ [c, path_ch_out]) # vs)"
    using GroupedConv2D_proceeds [where fmt = fmt and c = c and data_format = data_format
        and x = inputs and num_paths = num_paths and g = g and env = env
        and path_ch_out = path_ch_out and kernel_shape = kernel_size and sum_paths = sum_paths
        and padding = padding and stride = strides and W_init = W_init and b_init = b_init
        and nl = nl and use_bias = use_bias]
    by auto
qed


theorem divisibility_asserts_witness:
  "Conv2D python2_tf14 image4 6 (Square 3) (Pair 1 1) ''same'' ''channels_last'' (Pair 1 1)
     None True counting zeros None None None 3 empty_graph
     = (Inl AssertionError, empty_graph) \<and>
   GroupedConv2D python2_tf14 image4 3 2 (Square 3) False ''same'' (Pair 1 1) None None
     (\<lambda>v. v) True ''channels_last'' empty_graph
     = (Inl AssertionError, empty_graph) \<and>
   (\<exists>res g'. Conv2D python2_tf14 image4 6 (Square 3) (Pair 1 1) ''same'' ''channels_last''
       (Pair 1 1) None True counting zeros None None None 2 empty_graph = (res, g') \<and>
      res \<noteq> Inl AssertionError \<and>
      (\<exists>vs. g_variables g' = (''W'', [3, 3, 2, 6]) # vs)) \<and>
   (\<exists>res g'. GroupedConv2D python2_tf14 image4 2 2 (Square 3) False ''same'' (Pair 1 1) None
       None (\<lambda>v. v) True ''channels_last'' empty_graph = (res, g') \<and>
      res \<noteq> Inl AssertionError \<and>
      (\<exists>vs. g_variables g' = (''W'', [3, 3, 4, 2]) # vs))"
proof -
  note inst = divisibility_asserts [where env = python2_tf14 and inputs = image4
      and kernel_size = "Square 3" and strides = "Pair 1 1" and padding = "''same''"
      and data_format = "''channels_last''" and dilation_rate = "Pair 1 1"
      and activation = None and use_bias = True and kernel_initializer = counting
      and bias_initializer = zeros and kernel_regularizer = None and bias_regularizer = None
      and activity_regularizer = None and g = empty_graph and fmt = "''NHWC''" and c = 4
      and filters = 6 and path_ch_out = 2 and sum_paths = False and W_init = None
      and b_init = None and nl = "\<lambda>v. v"]
  have idx: "py_index (t_shape image4) (- 1) = Inr (Some 4)"
    "py_index (t_shape image4) 3 = Inr (Some 4)"
    by (simp_all add: image4_def py_index_def)
  have a1: "Conv2D python2_tf14 image4 6 (Square 3) (Pair 1 1) ''same'' ''channels_last''
     (Pair 1 1) None True counting zeros None None None 3 empty_graph
     = (Inl AssertionError, empty_graph)"
    using inst [where split = 3 and num_paths = 3, THEN conjunct1] idx by simp
  have a2: "GroupedConv2D python2_tf14 image4 3 2 (Square 3) False ''same'' (Pair 1 1) None None
     (\<lambda>v. v) True ''channels_last'' empty_graph
     = (Inl AssertionError, empty_graph)"
    using inst [where split = 3 and num_paths = 3, THEN conjunct2, THEN conjunct1] idx by simp
  have a3: "\<exists>res g'. Conv2D python2_tf14 image4 6 (Square 3) (Pair 1 1) ''same''
       ''channels_last'' (Pair 1 1) None True counting zeros None None None 2 empty_graph
       = (res, g') \<and>
      res \<noteq> Inl AssertionError \<and>
      (\<exists>vs. g_variables g' = (''W'', [3, 3, 2, 6]) # vs)"
    using inst [where split = 2 and num_paths = 2, THEN conjunct2, THEN conjunct2,
        THEN conjunct1] group_ok_image4(2)
    by (auto simp: shape2d_def empty_graph_def)
  have a4: "\<exists>res g'. GroupedConv2D python2_tf14 image4 2 2 (Square 3) False ''same''
       (Pair 1 1) None None (\<lambda>v. v) True ''channels_last'' empty_graph = (res, g') \<and>
      res \<noteq> Inl AssertionError \<and>
      (\<exists>vs. g_variables g' = (''W'', [3, 3, 4, 2]) # vs)"
    using inst [where split = 2 and num_paths = 2, THEN conjunct2, THEN conjunct2,
        THEN conjunct2] idx
    by (auto simp: shape2d_def empty_graph_def)
  show ?thesis
    using a1 a2 a3 a4 by blast
qed

end
